theory Spec2Isabelle
  imports Complex_Main "HOL-Library.Char_ord" "HOL-Library.List_Lexorder"
begin

section \<open>Python floats and exceptions\<close>

text \<open>
  The exceptions the engine can raise: \<open>KeyError\<close> on a dictionary lookup, and
  \<open>OverflowError\<close> and \<open>ValueError\<close> from \<open>int(x)\<close> of a float that is infinite or not
  a number.
\<close>

datatype py_error = KeyError | OverflowError | ValueError

text \<open>
  A \<open>float\<close> is a double: a finite value, written by the real number it denotes, one of
  the two infinities, or NaN. \<open>FLOAT_MAX\<close> is the largest finite double,
  \<open>(2 ^ 53 - 1) * 2 ^ 971\<close>. A sum or product of finite values is taken exactly and
  becomes an infinity beyond \<open>FLOAT_MAX\<close>; this is what a double does whenever the exact
  result is itself a double or exceeds every double, which covers all the source computes
  from a weight \<open>w\<close> before it calls \<open>int\<close>: \<open>w * 1\<close>, \<open>0 + w\<close> and \<open>w + w\<close>. The rounding
  of a result that lies between two doubles is not modelled.
\<close>

datatype pyfloat = Finite real | PosInf | NegInf | NaN

definition FLOAT_MAX :: real where
  "FLOAT_MAX = (2 ^ 53 - 1) * 2 ^ 971"

definition py_result :: "real \<Rightarrow> pyfloat" where
  "py_result r = (if FLOAT_MAX < r then PosInf else if r < - FLOAT_MAX then NegInf else Finite r)"

fun py_add :: "pyfloat \<Rightarrow> pyfloat \<Rightarrow> pyfloat" where
  "py_add (Finite a) (Finite b) = py_result (a + b)"
| "py_add NaN b = NaN"
| "py_add a NaN = NaN"
| "py_add PosInf NegInf = NaN"
| "py_add NegInf PosInf = NaN"
| "py_add PosInf b = PosInf"
| "py_add a PosInf = PosInf"
| "py_add NegInf b = NegInf"
| "py_add a NegInf = NegInf"

fun py_mul :: "pyfloat \<Rightarrow> pyfloat \<Rightarrow> pyfloat" where
  "py_mul (Finite a) (Finite b) = py_result (a * b)"
| "py_mul NaN b = NaN"
| "py_mul a NaN = NaN"
| "py_mul PosInf (Finite b) = (if b = 0 then NaN else if 0 < b then PosInf else NegInf)"
| "py_mul NegInf (Finite b) = (if b = 0 then NaN else if 0 < b then NegInf else PosInf)"
| "py_mul (Finite a) PosInf = (if a = 0 then NaN else if 0 < a then PosInf else NegInf)"
| "py_mul (Finite a) NegInf = (if a = 0 then NaN else if 0 < a then NegInf else PosInf)"
| "py_mul PosInf PosInf = PosInf"
| "py_mul PosInf NegInf = NegInf"
| "py_mul NegInf PosInf = NegInf"
| "py_mul NegInf NegInf = PosInf"

text \<open>\<open>x > 0\<close> on a float: false for NaN.\<close>

fun py_positive :: "pyfloat \<Rightarrow> bool" where
  "py_positive (Finite r) = (0 < r)"
| "py_positive PosInf = True"
| "py_positive NegInf = False"
| "py_positive NaN = False"

text \<open>
  \<open>float(n)\<close> of an integer, also the conversion of the integer operand of \<open>w * n\<close>:
  \<open>OverflowError\<close> when the integer is beyond the doubles.
\<close>

definition py_float :: "int \<Rightarrow> py_error + pyfloat" where
  "py_float n = (if \<bar>real_of_int n\<bar> \<le> FLOAT_MAX then Inr (Finite (real_of_int n))
                 else Inl OverflowError)"

section \<open>Data model of the scheduling engine (src/solver/app.py)\<close>

text \<open>
  Every pydantic class of the source is a record with the fields of the class, in the
  order of the class. Field names that several classes share (\<open>id\<close>, \<open>section_id\<close>,
  \<open>member_section_ids\<close>, \<open>reason\<close>) carry a prefix naming their class. Python's
  unbounded \<open>int\<close> is \<open>int\<close>, \<open>str\<close> is \<open>string\<close>, \<open>Optional[T]\<close> is \<open>T option\<close>.
  The soft-lock weight is a Python \<open>float\<close>, a value of the type \<open>pyfloat\<close> above.
\<close>

record Section =
  sec_id :: string
  course_id :: string
  section_code :: string
  instructor_id :: string
  expected_enrollment :: int
  enrollment_cap :: int
  allowed_meeting_patterns :: "string list"
  room_requirements :: "string list"
  crosslist_group_id :: "string option"
  tags :: "string list"

record InstructorPreferences =
  preferred_days :: "string list"
  preferred_patterns :: "string list"
  max_teaching_days :: "int option"

record Instructor =
  inst_id :: string
  rank_type :: string
  unavailable_times :: "string list"
  preferences :: InstructorPreferences

record Room =
  room_id :: string
  building :: string
  capacity :: int
  features :: "string list"

record Timeslot =
  slot_id :: string
  day :: string
  start_time :: string
  end_time :: string

record MeetingPattern =
  pat_id :: string
  slots_required :: int
  allowed_days :: "string list"
  compatible_timeslot_sets :: "string list list"

record CrossListGroup =
  clg_id :: string
  clg_member_section_ids :: "string list"
  require_same_room :: bool

record NoOverlapGroup =
  nog_id :: string
  nog_member_section_ids :: "string list"
  nog_reason :: string

record BlockedTime =
  scope :: string
  timeslot_ids :: "string list"
  bt_reason :: string

record LockedAssignment =
  lock_section_id :: string
  fixed_timeslot_set :: "string list option"
  fixed_room :: "string option"

record SoftLock =
  soft_section_id :: string
  preferred_timeslot_set :: "string list option"
  preferred_room :: "string option"
  weight :: pyfloat

record SchedulingInput =
  sections :: "Section list"
  instructors :: "Instructor list"
  rooms :: "Room list"
  timeslots :: "Timeslot list"
  meeting_patterns :: "MeetingPattern list"
  crosslist_groups :: "CrossListGroup list"
  no_overlap_groups :: "NoOverlapGroup list"
  blocked_times :: "BlockedTime list"
  locked_assignments :: "LockedAssignment list"
  soft_locks :: "SoftLock list"

record ValidationError =
  code :: string
  message :: string

text \<open>The weights of the objective, as the module defines them.\<close>

definition ROOM_WASTE_WEIGHT :: int where "ROOM_WASTE_WEIGHT = 1"
definition PREF_DAY_WEIGHT :: int where "PREF_DAY_WEIGHT = 10"
definition PREF_PATTERN_WEIGHT :: int where "PREF_PATTERN_WEIGHT = 5"
definition ADJUNCT_DAY_EXCESS_WEIGHT :: int where "ADJUNCT_DAY_EXCESS_WEIGHT = 15"
definition SOFT_LOCK_BASE_WEIGHT :: int where "SOFT_LOCK_BASE_WEIGHT = 1"

section \<open>Python values\<close>

text \<open>
  Truthiness of the optional fields the source tests with a bare \<open>if x:\<close>: \<open>None\<close>, the
  empty string, the empty list and the integer 0 are all false.
\<close>

definition truthy_str :: "string option \<Rightarrow> bool" where
  "truthy_str v = (case v of None \<Rightarrow> False | Some s \<Rightarrow> s \<noteq> [])"

definition truthy_list :: "'a list option \<Rightarrow> bool" where
  "truthy_list v = (case v of None \<Rightarrow> False | Some xs \<Rightarrow> xs \<noteq> [])"

definition truthy_int :: "int option \<Rightarrow> bool" where
  "truthy_int v = (case v of None \<Rightarrow> False | Some n \<Rightarrow> n \<noteq> 0)"

text \<open>\<open>d.get(k, default)\<close> on a dictionary used for lookup only.\<close>

definition dict_get :: "('k \<rightharpoonup> 'v) \<Rightarrow> 'k \<Rightarrow> 'v \<Rightarrow> 'v" where
  "dict_get d k dflt = (case d k of None \<Rightarrow> dflt | Some v \<Rightarrow> v)"

text \<open>
  The comprehension \<open>{key(x): x for x in xs}\<close>: a later element replaces an earlier one
  with the same key.
\<close>

definition dict_of :: "('a \<Rightarrow> 'k) \<Rightarrow> 'a list \<Rightarrow> ('k \<rightharpoonup> 'a)" where
  "dict_of key xs = fold (\<lambda>x d. d(key x \<mapsto> x)) xs Map.empty"

text \<open>
  A dictionary the source iterates over is an association list in insertion order:
  assigning to a key that is present replaces the value in place, a new key goes last.
\<close>

fun dict_set :: "'k \<Rightarrow> 'v \<Rightarrow> ('k \<times> 'v) list \<Rightarrow> ('k \<times> 'v) list" where
  "dict_set k v [] = [(k, v)]"
| "dict_set k v ((k', v') # d) =
     (if k = k' then (k, v) # d else (k', v') # dict_set k v d)"

text \<open>\<open>str(n)\<close> of an integer, as an f-string formats it.\<close>

definition digit_char :: "nat \<Rightarrow> char" where
  "digit_char d = ''0123456789'' ! d"

function str_nat :: "nat \<Rightarrow> string" where
  "str_nat n = (if n < 10 then [digit_char n] else str_nat (n div 10) @ [digit_char (n mod 10)])"
  by pat_completeness auto
termination
  by (relation "measure id") auto

definition str_int :: "int \<Rightarrow> string" where
  "str_int i = (if i < 0 then CHR ''-'' # str_nat (nat (- i)) else str_nat (nat i))"

text \<open>
  \<open>int(x)\<close> of a float: truncation toward zero of a finite value, \<open>OverflowError\<close> for an
  infinity, \<open>ValueError\<close> for NaN.
\<close>

definition py_trunc :: "real \<Rightarrow> int" where
  "py_trunc x = (if 0 \<le> x then \<lfloor>x\<rfloor> else \<lceil>x\<rceil>)"

fun py_int :: "pyfloat \<Rightarrow> py_error + int" where
  "py_int (Finite r) = Inr (py_trunc r)"
| "py_int PosInf = Inl OverflowError"
| "py_int NegInf = Inl OverflowError"
| "py_int NaN = Inl ValueError"

section \<open>Pre-validation\<close>

text \<open>\<open>_has_required_features\<close>\<close>

definition has_required_features :: "Room \<Rightarrow> string list \<Rightarrow> bool" where
  "has_required_features room required = list_all (\<lambda>feature. feature \<in> set (features room)) required"

text \<open>
  \<open>_build_crosslist_totals\<close>: the loop body, then the loop. A section whose
  \<open>crosslist_group_id\<close> is \<open>None\<close> or the empty string is skipped.
\<close>

definition totals_add :: "Section \<Rightarrow> (string \<rightharpoonup> int) \<Rightarrow> (string \<rightharpoonup> int)" where
  "totals_add section totals =
     (case crosslist_group_id section of
        None \<Rightarrow> totals
      | Some g \<Rightarrow>
          if g = [] then totals
          else totals(g \<mapsto> dict_get totals g 0 + expected_enrollment section))"

definition build_crosslist_totals :: "Section list \<Rightarrow> (string \<rightharpoonup> int)" where
  "build_crosslist_totals secs = fold totals_add secs Map.empty"

text \<open>\<open>max((room.capacity for room in rooms), default=0)\<close>\<close>

definition max_room_capacity :: "Room list \<Rightarrow> int" where
  "max_room_capacity rs =
     (case rs of [] \<Rightarrow> 0 | r # rest \<Rightarrow> fold (\<lambda>room m. if capacity room > m then capacity room else m) rest (capacity r))"

definition crosslist_capacity_error :: "string \<Rightarrow> int \<Rightarrow> int \<Rightarrow> ValidationError" where
  "crosslist_capacity_error gid tot maxcap =
     \<lparr> code = ''crosslist_capacity'',
       message = ''Cross-list group '' @ gid @ '' requires capacity '' @ str_int tot
                 @ '', but max room is '' @ str_int maxcap @ ''.'' \<rparr>"

text \<open>\<open>_validate_crosslist_capacity\<close>\<close>

definition validate_crosslist_capacity ::
    "CrossListGroup list \<Rightarrow> Section list \<Rightarrow> Room list \<Rightarrow> ValidationError list" where
  "validate_crosslist_capacity crosslists secs rs =
     (let maxcap = max_room_capacity rs;
          total_by_group = build_crosslist_totals secs
      in fold (\<lambda>group errors.
                 let tot = dict_get total_by_group (clg_id group) 0
                 in if tot > maxcap
                    then errors @ [crosslist_capacity_error (clg_id group) tot maxcap]
                    else errors)
              crosslists [])"


text \<open>
  The pre-validator in words, for comparison with the code. As amended, the total of a
  group id is the summed expected enrollment of the sections that carry the id as their
  non-empty \<open>crosslist_group_id\<close>; the largest capacity is 0 when there is no room.
\<close>

definition spec_carried_total :: "Section list \<Rightarrow> string \<Rightarrow> int" where
  "spec_carried_total secs gid =
     sum_list (map expected_enrollment
       (filter (\<lambda>s. crosslist_group_id s = Some gid \<and> gid \<noteq> []) secs))"

definition spec_max_capacity :: "Room list \<Rightarrow> int" where
  "spec_max_capacity rs = (if rs = [] then 0 else Max (set (map capacity rs)))"

text \<open>
  The specification's own wording: the members of a group are the sections its
  \<open>member_section_ids\<close> list, and a group gets the error when their summed expected
  enrollment exceeds the largest capacity.
\<close>

definition spec_members_total :: "Section list \<Rightarrow> CrossListGroup \<Rightarrow> int" where
  "spec_members_total secs grp =
     sum_list (map expected_enrollment
       (filter (\<lambda>s. sec_id s \<in> set (clg_member_section_ids grp)) secs))"

definition spec_validate_members ::
    "CrossListGroup list \<Rightarrow> Section list \<Rightarrow> Room list \<Rightarrow> ValidationError list" where
  "spec_validate_members crosslists secs rs =
     map (\<lambda>grp. \<lparr> code = ''crosslist_capacity'',
                  message = ''Cross-list group '' @ clg_id grp @ '' requires capacity ''
                            @ str_int (spec_members_total secs grp)
                            @ '', but max room is '' @ str_int (spec_max_capacity rs) @ ''.'' \<rparr>)
         (filter (\<lambda>grp. spec_members_total secs grp > spec_max_capacity rs) crosslists)"

section \<open>Option generation\<close>

text \<open>
  An option is the tuple \<open>(pattern_id, timeslot_set, room_id, room_waste)\<close> of the source;
  the timeslot set is kept as the ordered tuple the pattern lists.
\<close>

type_synonym sched_option = "string \<times> string list \<times> string \<times> int"

definition opt_pattern :: "sched_option \<Rightarrow> string" where
  "opt_pattern opt = fst opt"

definition opt_slots :: "sched_option \<Rightarrow> string list" where
  "opt_slots opt = fst (snd opt)"

definition opt_room :: "sched_option \<Rightarrow> string" where
  "opt_room opt = fst (snd (snd opt))"

definition opt_waste :: "sched_option \<Rightarrow> int" where
  "opt_waste opt = snd (snd (snd opt))"

text \<open>The five keyword flags of \<open>_build_options\<close>, all \<open>False\<close> by default.\<close>

record OptionFlags =
  ignore_blocked_times :: bool
  ignore_locks :: bool
  ignore_room_capacity :: bool
  ignore_room_features :: bool
  ignore_crosslist_capacity :: bool

definition default_flags :: OptionFlags where
  "default_flags = \<lparr> ignore_blocked_times = False, ignore_locks = False,
     ignore_room_capacity = False, ignore_room_features = False,
     ignore_crosslist_capacity = False \<rparr>"

definition pattern_by_id :: "SchedulingInput \<Rightarrow> (string \<rightharpoonup> MeetingPattern)" where
  "pattern_by_id inp = dict_of pat_id (meeting_patterns inp)"

definition locked_by_section :: "SchedulingInput \<Rightarrow> OptionFlags \<Rightarrow> (string \<rightharpoonup> LockedAssignment)" where
  "locked_by_section inp flags =
     (if ignore_locks flags then Map.empty else dict_of lock_section_id (locked_assignments inp))"

definition blocked_times_global :: "SchedulingInput \<Rightarrow> OptionFlags \<Rightarrow> string set" where
  "blocked_times_global inp flags =
     set (concat (map timeslot_ids
       (filter (\<lambda>blocked. scope blocked = ''global'' \<and> \<not> ignore_blocked_times flags)
               (blocked_times inp))))"

text \<open>
  The rooms a section may use: the capacity and feature filters of the first loop, then
  the filter on the cross-list total, applied when the section's \<open>crosslist_group_id\<close>
  is truthy and neither capacity flag is set.
\<close>

definition available_rooms :: "SchedulingInput \<Rightarrow> OptionFlags \<Rightarrow> Section \<Rightarrow> Room list" where
  "available_rooms inp flags section =
     (let crosslist_totals = build_crosslist_totals (sections inp);
          avail = filter (\<lambda>room.
                    \<not> (\<not> ignore_room_capacity flags \<and> capacity room < expected_enrollment section)
                    \<and> \<not> (\<not> ignore_room_features flags
                          \<and> \<not> has_required_features room (room_requirements section)))
                  (rooms inp)
      in case crosslist_group_id section of
           None \<Rightarrow> avail
         | Some g \<Rightarrow>
             if g = [] then avail
             else (let required_capacity = dict_get crosslist_totals g 0
                   in if \<not> ignore_crosslist_capacity flags \<and> \<not> ignore_room_capacity flags
                      then filter (\<lambda>room. capacity room \<ge> required_capacity) avail
                      else avail))"

text \<open>
  \<open>lock and lock.fixed_timeslot_set\<close> and \<open>lock and lock.fixed_room\<close>: a lock pins a field
  only when the field is truthy (neither \<open>None\<close> nor empty).
\<close>

definition lock_rejects_slots :: "LockedAssignment option \<Rightarrow> string list \<Rightarrow> bool" where
  "lock_rejects_slots lock timeslot_set =
     (case lock of
        None \<Rightarrow> False
      | Some l \<Rightarrow>
          (case fixed_timeslot_set l of
             None \<Rightarrow> False
           | Some fixed \<Rightarrow> fixed \<noteq> [] \<and> set fixed \<noteq> set timeslot_set))"

definition lock_rejects_room :: "LockedAssignment option \<Rightarrow> Room \<Rightarrow> bool" where
  "lock_rejects_room lock room =
     (case lock of
        None \<Rightarrow> False
      | Some l \<Rightarrow>
          (case fixed_room l of
             None \<Rightarrow> False
           | Some fixed \<Rightarrow> fixed \<noteq> [] \<and> room_id room \<noteq> fixed))"

text \<open>The three nested loops that fill \<open>section_options\<close> for one section.\<close>

definition section_options :: "SchedulingInput \<Rightarrow> OptionFlags \<Rightarrow> Section \<Rightarrow> sched_option list" where
  "section_options inp flags section =
     (let lock = locked_by_section inp flags (sec_id section);
          avail = available_rooms inp flags section
      in concat (map (\<lambda>pattern_id.
           case pattern_by_id inp pattern_id of
             None \<Rightarrow> []
           | Some pattern \<Rightarrow>
               concat (map (\<lambda>timeslot_set.
                 if list_ex (\<lambda>slot. slot \<in> blocked_times_global inp flags) timeslot_set then []
                 else if lock_rejects_slots lock timeslot_set then []
                 else concat (map (\<lambda>room.
                        if lock_rejects_room lock room then []
                        else [(pattern_id, timeslot_set, room_id room,
                               capacity room - expected_enrollment section)])
                      avail))
               (compatible_timeslot_sets pattern)))
         (allowed_meeting_patterns section)))"

definition no_feasible_options_error :: "string \<Rightarrow> ValidationError" where
  "no_feasible_options_error sid =
     \<lparr> code = ''no_feasible_options'',
       message = ''Section '' @ sid @ '' has no feasible assignment options.'' \<rparr>"

text \<open>
  One round of the loop over the sections: the error is appended when the section has
  no option, and the section's list is stored under its id either way.
\<close>

definition build_step ::
    "SchedulingInput \<Rightarrow> OptionFlags \<Rightarrow> Section
       \<Rightarrow> (string \<times> sched_option list) list \<times> ValidationError list
       \<Rightarrow> (string \<times> sched_option list) list \<times> ValidationError list" where
  "build_step inp flags section acc =
     (let opts = section_options inp flags section
      in (dict_set (sec_id section) opts (fst acc),
          if opts = [] then snd acc @ [no_feasible_options_error (sec_id section)]
          else snd acc))"

text \<open>\<open>_build_options\<close>: \<open>(options_by_section, errors)\<close>.\<close>

definition build_options ::
    "SchedulingInput \<Rightarrow> OptionFlags
       \<Rightarrow> (string \<times> sched_option list) list \<times> ValidationError list" where
  "build_options inp flags = fold (build_step inp flags) (sections inp) ([], [])"

text \<open>
  The specification's wording of two notions the option invariants use, for comparison
  with the code: a timeslot is globally blocked when a blocked time of scope
  \<open>global\<close> lists it, and the locked assignment of a section is the last one the input
  lists for its id.
\<close>

definition spec_globally_blocked :: "SchedulingInput \<Rightarrow> string \<Rightarrow> bool" where
  "spec_globally_blocked inp slot =
     list_ex (\<lambda>b. scope b = ''global'' \<and> slot \<in> set (timeslot_ids b)) (blocked_times inp)"

definition spec_section_lock :: "SchedulingInput \<Rightarrow> string \<Rightarrow> LockedAssignment option" where
  "spec_section_lock inp sid = find (\<lambda>l. lock_section_id l = sid) (rev (locked_assignments inp))"

text \<open>The section that a section id stands for in a dictionary keyed by id: the last one listed.\<close>

definition spec_last_section :: "SchedulingInput \<Rightarrow> string \<Rightarrow> Section option" where
  "spec_last_section inp sid = find (\<lambda>s. sec_id s = sid) (rev (sections inp))"


section \<open>The constraint model\<close>

text \<open>
  The CP-SAT model is kept as data: the variables with their domains, the linear
  constraints in the shapes the source adds them, and the terms of the objective.
  A variable of the solver is an object, not its name; it is identified here by the
  place that creates it: an option variable by its key \<open>(section_id, idx)\<close> in
  \<open>option_vars\<close>, a room-use indicator by the positions of the room and the timeslot in
  the input lists and its group key, a day variable and an excess variable by the
  position of the instructor in the input list.
\<close>

datatype var =
    OptVar string nat
  | RoomUseVar nat nat string
  | DayVar nat string
  | ExcessVar nat

datatype constr =
    SumEq "var list" int
  | SumLe "var list" int
  | VarGe var var
  | ExcessGe var "var list" int
  | NonNeg var

type_synonym assignment = "var \<Rightarrow> int"

text \<open>
  What each shape says of an assignment: \<open>sum(vs) == n\<close>, \<open>sum(vs) <= n\<close>, \<open>a >= b\<close>,
  \<open>excess >= sum(day_vars) - max_days\<close> and \<open>excess >= 0\<close>.
\<close>

fun holds :: "assignment \<Rightarrow> constr \<Rightarrow> bool" where
  "holds x (SumEq vs n) = (sum_list (map x vs) = n)"
| "holds x (SumLe vs n) = (sum_list (map x vs) \<le> n)"
| "holds x (VarGe a b) = (x b \<le> x a)"
| "holds x (ExcessGe e ds m) = (sum_list (map x ds) - m \<le> x e)"
| "holds x (NonNeg e) = (0 \<le> x e)"

record CpModel =
  cp_vars :: "(var \<times> int \<times> int) list"
  cp_constraints :: "constr list"
  cp_objective :: "(var \<times> int) list"

definition in_domain :: "assignment \<Rightarrow> var \<times> int \<times> int \<Rightarrow> bool" where
  "in_domain x d = (fst (snd d) \<le> x (fst d) \<and> x (fst d) \<le> snd (snd d))"

definition satisfies :: "CpModel \<Rightarrow> assignment \<Rightarrow> bool" where
  "satisfies m x = (list_all (in_domain x) (cp_vars m) \<and> list_all (holds x) (cp_constraints m))"

definition objective_value :: "CpModel \<Rightarrow> assignment \<Rightarrow> int" where
  "objective_value m x = sum_list (map (\<lambda>t. x (fst t) * snd t) (cp_objective m))"

text \<open>
  \<open>option_vars.items()\<close> together with \<open>option_data\<close>: one entry
  \<open>(section_id, idx, option)\<close> per option, in the order of \<open>options_by_section\<close>.
\<close>

definition option_items ::
    "(string \<times> sched_option list) list \<Rightarrow> (string \<times> nat \<times> sched_option) list" where
  "option_items obs =
     concat (map (\<lambda>entry. map (\<lambda>io. (fst entry, fst io, snd io)) (enumerate 0 (snd entry))) obs)"

definition item_var :: "string \<times> nat \<times> sched_option \<Rightarrow> var" where
  "item_var item = OptVar (fst item) (fst (snd item))"

definition item_option :: "string \<times> nat \<times> sched_option \<Rightarrow> sched_option" where
  "item_option item = snd (snd item)"

definition option_var_decls ::
    "(string \<times> nat \<times> sched_option) list \<Rightarrow> (var \<times> int \<times> int) list" where
  "option_var_decls items = map (\<lambda>item. (item_var item, 0, 1)) items"

text \<open>One option must be selected per section.\<close>

definition one_per_section :: "(string \<times> sched_option list) list \<Rightarrow> constr list" where
  "one_per_section obs =
     map (\<lambda>entry. SumEq (map (\<lambda>io. OptVar (fst entry) (fst io)) (enumerate 0 (snd entry))) 1) obs"

text \<open>The lookup tables of \<open>_solve_schedule\<close>.\<close>

definition timeslot_day :: "SchedulingInput \<Rightarrow> (string \<rightharpoonup> string)" where
  "timeslot_day inp = fold (\<lambda>slot d. d(slot_id slot \<mapsto> day slot)) (timeslots inp) Map.empty"

definition instructors_by_id :: "SchedulingInput \<Rightarrow> (string \<rightharpoonup> Instructor)" where
  "instructors_by_id inp = dict_of inst_id (instructors inp)"

definition sections_by_id :: "SchedulingInput \<Rightarrow> (string \<rightharpoonup> Section)" where
  "sections_by_id inp = dict_of sec_id (sections inp)"

definition crosslist_roomshare :: "SchedulingInput \<Rightarrow> string set" where
  "crosslist_roomshare inp = set (map clg_id (filter require_same_room (crosslist_groups inp)))"

definition roomshare_key :: "SchedulingInput \<Rightarrow> Section \<Rightarrow> string" where
  "roomshare_key inp section =
     (case crosslist_group_id section of
        None \<Rightarrow> ''sec:'' @ sec_id section
      | Some g \<Rightarrow> if g \<in> crosslist_roomshare inp then g else ''sec:'' @ sec_id section)"

definition section_to_roomshare_group :: "SchedulingInput \<Rightarrow> (string \<rightharpoonup> string)" where
  "section_to_roomshare_group inp =
     fold (\<lambda>section d. d(sec_id section \<mapsto> roomshare_key inp section)) (sections inp) Map.empty"

text \<open>
  Room usage. \<open>vars_by_group.setdefault(group_key, []).append(var)\<close> on the insertion-ordered
  dictionary, then the loop over the option variables that fills it for one room and one
  timeslot. The lookup \<open>section_to_roomshare_group[section_id]\<close> cannot miss: every key of
  \<open>options_by_section\<close> is the id of a section (lemma \<open>item_lookups_defined\<close>).
\<close>

fun group_add :: "string \<Rightarrow> var \<Rightarrow> (string \<times> var list) list \<Rightarrow> (string \<times> var list) list" where
  "group_add k v [] = [(k, [v])]"
| "group_add k v ((k', vs) # d) =
     (if k = k' then (k', vs @ [v]) # d else (k', vs) # group_add k v d)"

definition uses_room_at :: "Room \<Rightarrow> Timeslot \<Rightarrow> string \<times> nat \<times> sched_option \<Rightarrow> bool" where
  "uses_room_at room timeslot item =
     (opt_room (item_option item) = room_id room
      \<and> slot_id timeslot \<in> set (opt_slots (item_option item)))"

definition vars_by_group ::
    "SchedulingInput \<Rightarrow> Room \<Rightarrow> Timeslot \<Rightarrow> (string \<times> nat \<times> sched_option) list
       \<Rightarrow> (string \<times> var list) list" where
  "vars_by_group inp room timeslot items =
     fold (\<lambda>item d.
             if uses_room_at room timeslot item
             then (case section_to_roomshare_group inp (fst item) of
                     None \<Rightarrow> d
                   | Some group_key \<Rightarrow> group_add group_key (item_var item) d)
             else d)
          items []"

definition group_used_vars :: "nat \<Rightarrow> nat \<Rightarrow> (string \<times> var list) list \<Rightarrow> var list" where
  "group_used_vars ri ti vbg = map (\<lambda>g. RoomUseVar ri ti (fst g)) vbg"

definition bucket_constraints :: "nat \<Rightarrow> nat \<Rightarrow> (string \<times> var list) list \<Rightarrow> constr list" where
  "bucket_constraints ri ti vbg =
     (if vbg = [] then []
      else concat (map (\<lambda>g. map (\<lambda>v. VarGe (RoomUseVar ri ti (fst g)) v) (snd g)) vbg)
           @ [SumLe (group_used_vars ri ti vbg) 1])"

definition room_usage_constraints ::
    "SchedulingInput \<Rightarrow> (string \<times> nat \<times> sched_option) list \<Rightarrow> constr list" where
  "room_usage_constraints inp items =
     concat (map (\<lambda>r. concat (map (\<lambda>t.
                 bucket_constraints (fst r) (fst t) (vars_by_group inp (snd r) (snd t) items))
               (enumerate 0 (timeslots inp))))
            (enumerate 0 (rooms inp)))"

definition room_usage_vars ::
    "SchedulingInput \<Rightarrow> (string \<times> nat \<times> sched_option) list \<Rightarrow> (var \<times> int \<times> int) list" where
  "room_usage_vars inp items =
     concat (map (\<lambda>r. concat (map (\<lambda>t.
                 map (\<lambda>v. (v, 0, 1))
                     (group_used_vars (fst r) (fst t) (vars_by_group inp (snd r) (snd t) items)))
               (enumerate 0 (timeslots inp))))
            (enumerate 0 (rooms inp)))"

text \<open>\<open>if vars_for_slot: model.Add(sum(vars_for_slot) <= 1)\<close>\<close>

definition at_most_one :: "var list \<Rightarrow> constr list" where
  "at_most_one vars_for_slot = (if vars_for_slot = [] then [] else [SumLe vars_for_slot 1])"

text \<open>
  An instructor cannot teach overlapping times. \<open>sections_by_id[section_id]\<close> cannot miss
  either (lemma \<open>item_lookups_defined\<close>).
\<close>

definition taught_at :: "SchedulingInput \<Rightarrow> Instructor \<Rightarrow> Timeslot \<Rightarrow> string \<times> nat \<times> sched_option \<Rightarrow> bool" where
  "taught_at inp instructor timeslot item =
     (case sections_by_id inp (fst item) of
        None \<Rightarrow> False
      | Some section \<Rightarrow>
          \<not> instructor_id section \<noteq> inst_id instructor
          \<and> slot_id timeslot \<in> set (opt_slots (item_option item)))"

definition instructor_constraints ::
    "SchedulingInput \<Rightarrow> (string \<times> nat \<times> sched_option) list \<Rightarrow> constr list" where
  "instructor_constraints inp items =
     concat (map (\<lambda>instructor. concat (map (\<lambda>timeslot.
                 at_most_one (map item_var (filter (taught_at inp instructor timeslot) items)))
               (timeslots inp)))
            (instructors inp))"

text \<open>No-overlap groups cannot overlap in time.\<close>

definition member_vars_at ::
    "(string \<times> sched_option list) list \<Rightarrow> Timeslot \<Rightarrow> string \<Rightarrow> var list" where
  "member_vars_at obs timeslot section_id =
     map (\<lambda>io. OptVar section_id (fst io))
         (filter (\<lambda>io. slot_id timeslot \<in> set (opt_slots (snd io)))
                 (enumerate 0 (dict_get (map_of obs) section_id [])))"

definition no_overlap_constraints ::
    "SchedulingInput \<Rightarrow> (string \<times> sched_option list) list \<Rightarrow> constr list" where
  "no_overlap_constraints inp obs =
     concat (map (\<lambda>group. concat (map (\<lambda>timeslot.
                 at_most_one (concat (map (member_vars_at obs timeslot)
                                          (nog_member_section_ids group))))
               (timeslots inp)))
            (no_overlap_groups inp))"

text \<open>
  Cross-listed sections share times and, when the group requires it, the room: for each
  member and each later member of the list, each pair of their options that differ in
  the timeslot tuple, or in the room when the group requires the same room, is excluded.
\<close>

fun member_pairs :: "'a list \<Rightarrow> ('a \<times> 'a) list" where
  "member_pairs [] = []"
| "member_pairs (a # rest) = map (Pair a) rest @ member_pairs rest"

definition pair_conflict :: "CrossListGroup \<Rightarrow> sched_option \<Rightarrow> sched_option \<Rightarrow> bool" where
  "pair_conflict grp option_a option_b =
     (if opt_slots option_a \<noteq> opt_slots option_b then True
      else require_same_room grp \<and> opt_room option_a \<noteq> opt_room option_b)"

definition pair_constraints ::
    "(string \<times> sched_option list) list \<Rightarrow> CrossListGroup \<Rightarrow> string \<times> string \<Rightarrow> constr list" where
  "pair_constraints obs grp ab =
     concat (map (\<lambda>a. concat (map (\<lambda>b.
                 if pair_conflict grp (snd a) (snd b)
                 then [SumLe [OptVar (fst ab) (fst a), OptVar (snd ab) (fst b)] 1]
                 else [])
               (enumerate 0 (dict_get (map_of obs) (snd ab) []))))
            (enumerate 0 (dict_get (map_of obs) (fst ab) [])))"

definition crosslist_constraints ::
    "SchedulingInput \<Rightarrow> (string \<times> sched_option list) list \<Rightarrow> constr list" where
  "crosslist_constraints inp obs =
     concat (map (\<lambda>group. concat (map (pair_constraints obs group)
                                      (member_pairs (clg_member_section_ids group))))
            (crosslist_groups inp))"

text \<open>The hard constraints of \<open>_solve_schedule\<close>, in the order the source adds them.\<close>

definition solve_hard_constraints ::
    "SchedulingInput \<Rightarrow> (string \<times> sched_option list) list \<Rightarrow> constr list" where
  "solve_hard_constraints inp obs =
     one_per_section obs
     @ room_usage_constraints inp (option_items obs)
     @ instructor_constraints inp (option_items obs)
     @ no_overlap_constraints inp obs
     @ crosslist_constraints inp obs"

text \<open>The variables a constraint mentions.\<close>

fun constr_vars :: "constr \<Rightarrow> var list" where
  "constr_vars (SumEq vs n) = vs"
| "constr_vars (SumLe vs n) = vs"
| "constr_vars (VarGe a b) = [a, b]"
| "constr_vars (ExcessGe e ds m) = e # ds"
| "constr_vars (NonNeg e) = [e]"

text \<open>
  Notions of the room-sharing property: the roomshare key the model uses for an option
  (that of its section id), two options occupying the same room at a common timeslot, an
  option being selected by an assignment, the property that selected options which
  co-occupy have equal keys, and the assignment extended to the room-use indicators (an
  indicator is 1 exactly when a selected option of its key uses its room at its timeslot).
\<close>

definition item_key :: "SchedulingInput \<Rightarrow> string \<times> nat \<times> sched_option \<Rightarrow> string option" where
  "item_key inp item = section_to_roomshare_group inp (fst item)"


definition selected :: "assignment \<Rightarrow> string \<times> nat \<times> sched_option \<Rightarrow> bool" where
  "selected x item = (x (item_var item) = 1)"


definition with_room_use ::
    "SchedulingInput \<Rightarrow> (string \<times> nat \<times> sched_option) list \<Rightarrow> assignment \<Rightarrow> assignment" where
  "with_room_use inp items x v =
     (case v of
        RoomUseVar ri ti k \<Rightarrow>
          if ri < length (rooms inp) \<and> ti < length (timeslots inp)
             \<and> list_ex (\<lambda>item. selected x item
                               \<and> uses_room_at (rooms inp ! ri) (timeslots inp ! ti) item
                               \<and> item_key inp item = Some k) items
          then 1 else 0
      | _ \<Rightarrow> x v)"








section \<open>The objective\<close>

text \<open>
  Reading \<open>timeslot_day[slot_id]\<close> raises \<open>KeyError\<close> when an option names a timeslot that
  the input does not list, and \<open>int(soft_penalty)\<close> raises \<open>OverflowError\<close> when the
  accumulated soft-lock penalty is infinite; these are the exceptions \<open>_solve_schedule\<close>
  can raise while it builds the model.
\<close>

text \<open>\<open>sorted({slot.day for slot in input_data.timeslots})\<close>\<close>

definition unique_days :: "SchedulingInput \<Rightarrow> string list" where
  "unique_days inp = sort (remdups (map day (timeslots inp)))"

text \<open>
  The adjunct loop skips an instructor unless the rank is \<open>"Adjunct"\<close> and
  \<open>max_teaching_days\<close> is truthy (neither \<open>None\<close> nor 0).
\<close>

definition adjunct_tracked :: "Instructor \<Rightarrow> bool" where
  "adjunct_tracked instructor =
     (\<not> (rank_type instructor \<noteq> ''Adjunct''
         \<or> \<not> truthy_int (max_teaching_days (preferences instructor))))"

definition adjunct_instructors :: "SchedulingInput \<Rightarrow> (nat \<times> Instructor) list" where
  "adjunct_instructors inp = filter (\<lambda>ii. adjunct_tracked (snd ii)) (enumerate 0 (instructors inp))"

definition day_vars :: "SchedulingInput \<Rightarrow> nat \<Rightarrow> var list" where
  "day_vars inp i = map (DayVar i) (unique_days inp)"

definition adjunct_vars :: "SchedulingInput \<Rightarrow> (var \<times> int \<times> int) list" where
  "adjunct_vars inp =
     concat (map (\<lambda>ii. map (\<lambda>v. (v, 0, 1)) (day_vars inp (fst ii))
                        @ [(ExcessVar (fst ii), 0, int (length (unique_days inp)))])
                 (adjunct_instructors inp))"

definition adjunct_constraints :: "SchedulingInput \<Rightarrow> constr list" where
  "adjunct_constraints inp =
     concat (map (\<lambda>ii. case max_teaching_days (preferences (snd ii)) of
                          None \<Rightarrow> []
                        | Some max_days \<Rightarrow>
                            [ExcessGe (ExcessVar (fst ii)) (day_vars inp (fst ii)) max_days,
                             NonNeg (ExcessVar (fst ii))])
                 (adjunct_instructors inp))"

definition adjunct_terms :: "SchedulingInput \<Rightarrow> (var \<times> int) list" where
  "adjunct_terms inp =
     map (\<lambda>ii. (ExcessVar (fst ii), ADJUNCT_DAY_EXCESS_WEIGHT)) (adjunct_instructors inp)"

text \<open>
  The two dictionaries the loop fills: \<open>instructor_day_vars\<close>, keyed by
  \<open>(instructor.id, day)\<close> and used for lookup, and \<open>adjunct_day_excess_vars\<close>, keyed by
  \<open>instructor.id\<close> and iterated by the result assembler.
\<close>

definition instructor_day_vars :: "SchedulingInput \<Rightarrow> (string \<times> string \<rightharpoonup> var)" where
  "instructor_day_vars inp =
     fold (\<lambda>ii d. fold (\<lambda>dy d'. d'((inst_id (snd ii), dy) \<mapsto> DayVar (fst ii) dy))
                        (unique_days inp) d)
          (adjunct_instructors inp) Map.empty"

definition adjunct_day_excess_vars :: "SchedulingInput \<Rightarrow> (string \<times> var) list" where
  "adjunct_day_excess_vars inp =
     fold (\<lambda>ii d. dict_set (inst_id (snd ii)) (ExcessVar (fst ii)) d) (adjunct_instructors inp) []"

text \<open>
  The penalties of one option. \<open>days\<close> is the set of the days of its timeslots, \<open>None\<close>
  when a timeslot is unknown. The instructor is looked up with \<open>.get\<close> and may be absent.
\<close>

definition option_days :: "SchedulingInput \<Rightarrow> sched_option \<Rightarrow> string list option" where
  "option_days inp opt = map_option remdups (those (map (timeslot_day inp) (opt_slots opt)))"

definition option_instructor :: "SchedulingInput \<Rightarrow> string \<Rightarrow> Instructor option" where
  "option_instructor inp section_id =
     (case sections_by_id inp section_id of
        None \<Rightarrow> None
      | Some section \<Rightarrow> instructors_by_id inp (instructor_id section))"

definition pref_day_penalty :: "Instructor option \<Rightarrow> string list \<Rightarrow> int" where
  "pref_day_penalty instructor days =
     (let preferred = (case instructor of None \<Rightarrow> [] | Some i \<Rightarrow> preferred_days (preferences i))
      in if list_ex (\<lambda>d. d \<in> set preferred) days then 0 else PREF_DAY_WEIGHT)"

definition pref_pattern_penalty :: "Instructor option \<Rightarrow> string \<Rightarrow> int" where
  "pref_pattern_penalty instructor pattern_id =
     (let preferred = (case instructor of None \<Rightarrow> [] | Some i \<Rightarrow> preferred_patterns (preferences i))
      in if pattern_id \<in> set preferred then 0 else PREF_PATTERN_WEIGHT)"

definition total_penalty :: "SchedulingInput \<Rightarrow> string \<Rightarrow> sched_option \<Rightarrow> string list \<Rightarrow> int" where
  "total_penalty inp section_id opt days =
     opt_waste opt * ROOM_WASTE_WEIGHT
     + pref_day_penalty (option_instructor inp section_id) days
     + pref_pattern_penalty (option_instructor inp section_id) (opt_pattern opt)"

text \<open>
  Linking the chosen option to the adjunct's day variables. The days are iterated as a
  Python set, in no fixed order; only the order in which the constraints are added
  depends on it.
\<close>

definition day_links :: "SchedulingInput \<Rightarrow> string \<times> nat \<times> sched_option \<Rightarrow> string list \<Rightarrow> constr list" where
  "day_links inp item days =
     (case option_instructor inp (fst item) of
        None \<Rightarrow> []
      | Some instructor \<Rightarrow>
          if rank_type instructor = ''Adjunct''
          then concat (map (\<lambda>dy. case instructor_day_vars inp (inst_id instructor, dy) of
                                   None \<Rightarrow> []
                                 | Some day_var \<Rightarrow> [VarGe day_var (item_var item)])
                           days)
          else [])"

text \<open>
  The loop over the option variables that adds the assignment penalties: per option its
  term and its link constraints, or \<open>None\<close> when the days cannot be read.
\<close>

definition option_term ::
    "SchedulingInput \<Rightarrow> string \<times> nat \<times> sched_option \<Rightarrow> ((var \<times> int) \<times> constr list) option" where
  "option_term inp item =
     (case option_days inp (item_option item) of
        None \<Rightarrow> None
      | Some days \<Rightarrow>
          Some ((item_var item, total_penalty inp (fst item) (item_option item) days),
                day_links inp item days))"

definition option_terms ::
    "SchedulingInput \<Rightarrow> (string \<times> nat \<times> sched_option) list
       \<Rightarrow> ((var \<times> int) \<times> constr list) list option" where
  "option_terms inp items = those (map (option_term inp) items)"

text \<open>
  Soft locks. A preference counts only when it is truthy; each mismatch adds
  \<open>weight * SOFT_LOCK_BASE_WEIGHT\<close> to \<open>soft_penalty\<close>, which starts at 0, and the term
  \<open>var * int(soft_penalty)\<close> is appended only when \<open>soft_penalty > 0\<close>. The integer
  constant converts to the float \<open>1.0\<close> in the product, and the integer 0 the sum starts
  from to \<open>0.0\<close> in the first addition.
\<close>

definition soft_lock_by_section :: "SchedulingInput \<Rightarrow> (string \<rightharpoonup> SoftLock)" where
  "soft_lock_by_section inp = dict_of soft_section_id (soft_locks inp)"

definition time_mismatch :: "SoftLock \<Rightarrow> sched_option \<Rightarrow> bool" where
  "time_mismatch lock opt =
     (case preferred_timeslot_set lock of
        None \<Rightarrow> False
      | Some preferred \<Rightarrow> preferred \<noteq> [] \<and> set (opt_slots opt) \<noteq> set preferred)"

definition room_mismatch :: "SoftLock \<Rightarrow> sched_option \<Rightarrow> bool" where
  "room_mismatch lock opt =
     (case preferred_room lock of
        None \<Rightarrow> False
      | Some preferred \<Rightarrow> preferred \<noteq> [] \<and> opt_room opt \<noteq> preferred)"

definition weighted_base :: "SoftLock \<Rightarrow> pyfloat" where
  "weighted_base lock = py_mul (weight lock) (Finite (real_of_int SOFT_LOCK_BASE_WEIGHT))"

definition soft_penalty :: "SoftLock \<Rightarrow> sched_option \<Rightarrow> pyfloat" where
  "soft_penalty lock opt =
     (let p0 = Finite 0;
          p1 = (if time_mismatch lock opt then py_add p0 (weighted_base lock) else p0);
          p2 = (if room_mismatch lock opt then py_add p1 (weighted_base lock) else p1)
      in p2)"

definition soft_lock_term ::
    "SchedulingInput \<Rightarrow> string \<times> nat \<times> sched_option \<Rightarrow> py_error + (var \<times> int) list" where
  "soft_lock_term inp item =
     (case soft_lock_by_section inp (fst item) of
        None \<Rightarrow> Inr []
      | Some soft_lock \<Rightarrow>
          if py_positive (soft_penalty soft_lock (item_option item))
          then (case py_int (soft_penalty soft_lock (item_option item)) of
                  Inl e \<Rightarrow> Inl e
                | Inr coefficient \<Rightarrow> Inr [(item_var item, coefficient)])
          else Inr [])"

text \<open>The loop over the option variables; the first exception ends it.\<close>

fun soft_lock_terms ::
    "SchedulingInput \<Rightarrow> (string \<times> nat \<times> sched_option) list \<Rightarrow> py_error + (var \<times> int) list" where
  "soft_lock_terms inp [] = Inr []"
| "soft_lock_terms inp (item # items) =
     (case soft_lock_term inp item of
        Inl e \<Rightarrow> Inl e
      | Inr terms \<Rightarrow>
          (case soft_lock_terms inp items of
             Inl e \<Rightarrow> Inl e
           | Inr rest \<Rightarrow> Inr (terms @ rest)))"

text \<open>
  The optimization model of \<open>_solve_schedule\<close> for the options it generated: the
  variables, all the constraints and the penalty terms in the order the source appends
  them, or the exception: the \<open>KeyError\<close> of the loop over the assignment penalties, which
  runs first, or else the \<open>OverflowError\<close> of the loop over the soft locks.
\<close>

definition build_solve_model ::
    "SchedulingInput \<Rightarrow> (string \<times> sched_option list) list \<Rightarrow> py_error + CpModel" where
  "build_solve_model inp obs =
     (case option_terms inp (option_items obs) of
        None \<Rightarrow> Inl KeyError
      | Some tls \<Rightarrow>
          (case soft_lock_terms inp (option_items obs) of
             Inl e \<Rightarrow> Inl e
           | Inr soft_terms \<Rightarrow>
               Inr \<lparr> cp_vars = option_var_decls (option_items obs)
                               @ room_usage_vars inp (option_items obs)
                               @ adjunct_vars inp,
                     cp_constraints = solve_hard_constraints inp obs
                                      @ adjunct_constraints inp
                                      @ concat (map snd tls),
                     cp_objective = adjunct_terms inp
                                    @ map fst tls
                                    @ soft_terms \<rparr>))"

section \<open>The result assembler\<close>

text \<open>The values of the breakdown and the total score are floats.\<close>

record PenaltyBreakdown =
  room_waste :: pyfloat
  instructor_day_preference :: pyfloat
  instructor_pattern_preference :: pyfloat
  adjunct_day_excess :: pyfloat
  soft_lock_time :: pyfloat
  soft_lock_room :: pyfloat

record ScheduleAssignment =
  asg_section_id :: string
  meeting_pattern_id :: string
  asg_timeslot_ids :: "string list"
  asg_room_id :: string

record ScheduleSolution =
  assignments :: "ScheduleAssignment list"
  total_score :: pyfloat
  penalty_breakdown :: PenaltyBreakdown
  explanations :: "string list"

definition zero_breakdown :: PenaltyBreakdown where
  "zero_breakdown = \<lparr> room_waste = Finite 0, instructor_day_preference = Finite 0,
     instructor_pattern_preference = Finite 0, adjunct_day_excess = Finite 0,
     soft_lock_time = Finite 0, soft_lock_room = Finite 0 \<rparr>"

text \<open>\<open>sum(penalty_breakdown.values())\<close>, from 0 and in the order of the keys.\<close>

definition breakdown_sum :: "PenaltyBreakdown \<Rightarrow> pyfloat" where
  "breakdown_sum b =
     fold (\<lambda>v acc. py_add acc v)
          [room_waste b, instructor_day_preference b, instructor_pattern_preference b,
           adjunct_day_excess b, soft_lock_time b, soft_lock_room b]
          (Finite 0)"

text \<open>\<open>', '.join(timeslot_set)\<close>\<close>

fun join_comma :: "string list \<Rightarrow> string" where
  "join_comma [] = []"
| "join_comma [s] = s"
| "join_comma (s # t # rest) = s @ '', '' @ join_comma (t # rest)"

text \<open>The first index whose variable the solver set to 1.\<close>

definition chosen_idx :: "assignment \<Rightarrow> string \<Rightarrow> sched_option list \<Rightarrow> nat option" where
  "chosen_idx x section_id options =
     find (\<lambda>idx. x (OptVar section_id idx) = 1) [0..<length options]"

text \<open>\<open>acc += float(n)\<close> for an integer \<open>n\<close>.\<close>

definition add_float :: "pyfloat \<Rightarrow> int \<Rightarrow> py_error + pyfloat" where
  "add_float acc n = (case py_float n of Inl e \<Rightarrow> Inl e | Inr f \<Rightarrow> Inr (py_add acc f))"

text \<open>
  The soft-lock part of the breakdown for the chosen option: the weights enter as
  floats, without truncation and without the test \<open>soft_penalty > 0\<close>.
\<close>

definition add_soft_locks :: "SchedulingInput \<Rightarrow> string \<Rightarrow> sched_option \<Rightarrow> PenaltyBreakdown \<Rightarrow> PenaltyBreakdown" where
  "add_soft_locks inp section_id opt b =
     (case soft_lock_by_section inp section_id of
        None \<Rightarrow> b
      | Some soft_lock \<Rightarrow>
          (let b1 = (if time_mismatch soft_lock opt
                     then b\<lparr> soft_lock_time := py_add (soft_lock_time b) (weighted_base soft_lock) \<rparr>
                     else b)
           in if room_mismatch soft_lock opt
              then b1\<lparr> soft_lock_room := py_add (soft_lock_room b1) (weighted_base soft_lock) \<rparr>
              else b1))"

text \<open>
  The three integer penalties of the chosen option, each converted with \<open>float\<close> and
  added to its entry of the breakdown.
\<close>

definition add_option_penalties ::
    "SchedulingInput \<Rightarrow> string \<Rightarrow> sched_option \<Rightarrow> string list \<Rightarrow> PenaltyBreakdown
       \<Rightarrow> py_error + PenaltyBreakdown" where
  "add_option_penalties inp section_id opt days b =
     (let instructor = option_instructor inp section_id
      in case add_float (room_waste b) (opt_waste opt * ROOM_WASTE_WEIGHT) of
           Inl e \<Rightarrow> Inl e
         | Inr waste \<Rightarrow>
             (case add_float (instructor_day_preference b) (pref_day_penalty instructor days) of
                Inl e \<Rightarrow> Inl e
              | Inr day_pref \<Rightarrow>
                  (case add_float (instructor_pattern_preference b)
                          (pref_pattern_penalty instructor (opt_pattern opt)) of
                     Inl e \<Rightarrow> Inl e
                   | Inr pattern_pref \<Rightarrow>
                       Inr (b\<lparr> room_waste := waste,
                               instructor_day_preference := day_pref,
                               instructor_pattern_preference := pattern_pref \<rparr>))))"

text \<open>
  One round of the loop over \<open>options_by_section.items()\<close>: the state is the breakdown,
  the assignments and the explanations, or the exception raised: the \<open>KeyError\<close> of
  \<open>timeslot_day\<close> or the \<open>OverflowError\<close> of \<open>float\<close>.
\<close>

type_synonym assembly = "PenaltyBreakdown \<times> ScheduleAssignment list \<times> string list"

definition assemble_step ::
    "SchedulingInput \<Rightarrow> assignment \<Rightarrow> string \<times> sched_option list \<Rightarrow> py_error + assembly
       \<Rightarrow> py_error + assembly" where
  "assemble_step inp x entry acc =
     (case acc of
        Inl e \<Rightarrow> Inl e
      | Inr (b, asgs, expl) \<Rightarrow>
          (case chosen_idx x (fst entry) (snd entry) of
             None \<Rightarrow> Inr (b, asgs, expl)
           | Some idx \<Rightarrow>
               (let opt = snd entry ! idx
                in case option_days inp opt of
                     None \<Rightarrow> Inl KeyError
                   | Some days \<Rightarrow>
                       (case add_option_penalties inp (fst entry) opt days b of
                          Inl e \<Rightarrow> Inl e
                        | Inr b1 \<Rightarrow>
                            Inr (add_soft_locks inp (fst entry) opt b1,
                                 asgs @ [\<lparr> asg_section_id = fst entry,
                                          meeting_pattern_id = opt_pattern opt,
                                          asg_timeslot_ids = opt_slots opt,
                                          asg_room_id = opt_room opt \<rparr>],
                                 expl @ [''Section '' @ fst entry @ '' assigned to ''
                                         @ opt_room opt @ '' at ''
                                         @ join_comma (opt_slots opt) @ ''.''])))))"

text \<open>The loop over \<open>adjunct_day_excess_vars.items()\<close>.\<close>

definition add_excess ::
    "assignment \<Rightarrow> string \<times> var \<Rightarrow> py_error + PenaltyBreakdown
       \<Rightarrow> py_error + PenaltyBreakdown" where
  "add_excess x entry acc =
     (case acc of
        Inl e \<Rightarrow> Inl e
      | Inr b \<Rightarrow>
          (let excess_days = x (snd entry)
           in if excess_days \<noteq> 0
              then (case add_float (adjunct_day_excess b)
                           (excess_days * ADJUNCT_DAY_EXCESS_WEIGHT) of
                      Inl e \<Rightarrow> Inl e
                    | Inr v \<Rightarrow> Inr (b\<lparr> adjunct_day_excess := v \<rparr>))
              else Inr b))"

definition assemble ::
    "SchedulingInput \<Rightarrow> (string \<times> sched_option list) list \<Rightarrow> assignment
       \<Rightarrow> py_error + ScheduleSolution" where
  "assemble inp obs x =
     (case fold (assemble_step inp x) obs (Inr (zero_breakdown, [], [])) of
        Inl e \<Rightarrow> Inl e
      | Inr (b, asgs, expl) \<Rightarrow>
          (case fold (add_excess x) (adjunct_day_excess_vars inp) (Inr b) of
             Inl e \<Rightarrow> Inl e
           | Inr b' \<Rightarrow>
               Inr \<lparr> assignments = asgs, total_score = breakdown_sum b',
                     penalty_breakdown = b', explanations = expl \<rparr>))"


definition spec_section_soft_lock :: "SchedulingInput \<Rightarrow> string \<Rightarrow> SoftLock option" where
  "spec_section_soft_lock inp sid = find (\<lambda>l. soft_section_id l = sid) (rev (soft_locks inp))"

definition spec_mismatches :: "SoftLock \<Rightarrow> sched_option \<Rightarrow> nat" where
  "spec_mismatches lock opt =
     (if \<exists>p. preferred_timeslot_set lock = Some p \<and> p \<noteq> [] \<and> set p \<noteq> set (opt_slots opt)
      then 1 else 0)
     + (if \<exists>r. preferred_room lock = Some r \<and> r \<noteq> [] \<and> r \<noteq> opt_room opt then 1 else 0)"

definition spec_accumulated :: "SoftLock \<Rightarrow> sched_option \<Rightarrow> pyfloat" where
  "spec_accumulated lock opt =
     (if spec_mismatches lock opt = 0 then Finite 0
      else (case weight lock of
              Finite w \<Rightarrow>
                py_result (real (spec_mismatches lock opt) * (w * real_of_int SOFT_LOCK_BASE_WEIGHT))
            | PosInf \<Rightarrow> PosInf
            | NegInf \<Rightarrow> NegInf
            | NaN \<Rightarrow> NaN))"

text \<open>
  What the accumulated penalty gives: the term of the variable with the penalty truncated
  toward zero when it is positive and finite, \<open>OverflowError\<close> when it is \<open>+inf\<close>, and no
  term otherwise.
\<close>

fun spec_soft_term :: "var \<Rightarrow> pyfloat \<Rightarrow> py_error + (var \<times> int) list" where
  "spec_soft_term v (Finite p) = Inr (if 0 < p then [(v, py_trunc p)] else [])"
| "spec_soft_term v PosInf = Inl OverflowError"
| "spec_soft_term v NegInf = Inr []"
| "spec_soft_term v NaN = Inr []"

fun spec_soft_coefficient :: "pyfloat \<Rightarrow> int" where
  "spec_soft_coefficient (Finite p) = (if 0 < p then py_trunc p else 0)"
| "spec_soft_coefficient PosInf = 0"
| "spec_soft_coefficient NegInf = 0"
| "spec_soft_coefficient NaN = 0"

text \<open>The terms of a result, none for an exception.\<close>

definition terms_of :: "py_error + (var \<times> int) list \<Rightarrow> (var \<times> int) list" where
  "terms_of r = (case r of Inl e \<Rightarrow> [] | Inr terms \<Rightarrow> terms)"



section \<open>Feasibility check, diagnosis and the solve\<close>

text \<open>
  The CP-SAT solver is outside the repository. A solver is a function from a model to
  the values it found, \<open>None\<close> when its status is neither \<open>OPTIMAL\<close> nor \<open>FEASIBLE\<close>; the
  functions that call it take it as a parameter. \<open>feasible\<close> says that a model has a
  solution at all, which is what a complete solver reports.
\<close>

type_synonym solver = "CpModel \<Rightarrow> assignment option"

definition feasible :: "CpModel \<Rightarrow> bool" where
  "feasible m = (\<exists>x. satisfies m x)"

text \<open>
  The room constraint of \<open>_check_feasible\<close>: at most one option variable per room and
  timeslot, whatever the sections.
\<close>

definition check_room_constraints ::
    "SchedulingInput \<Rightarrow> (string \<times> nat \<times> sched_option) list \<Rightarrow> constr list" where
  "check_room_constraints inp items =
     concat (map (\<lambda>room. concat (map (\<lambda>timeslot.
                 at_most_one (map item_var (filter (uses_room_at room timeslot) items)))
               (timeslots inp)))
            (rooms inp))"

definition relax_flags :: "string set \<Rightarrow> OptionFlags" where
  "relax_flags relax =
     \<lparr> ignore_blocked_times = (''blocked_times'' \<in> relax),
       ignore_locks = (''locks'' \<in> relax),
       ignore_room_capacity = (''room_capacity'' \<in> relax),
       ignore_room_features = (''room_features'' \<in> relax),
       ignore_crosslist_capacity = (''crosslist_capacity'' \<in> relax) \<rparr>"

text \<open>The model \<open>_check_feasible\<close> builds: the hard constraints it keeps, no objective.\<close>

definition check_model ::
    "SchedulingInput \<Rightarrow> string set \<Rightarrow> (string \<times> sched_option list) list \<Rightarrow> CpModel" where
  "check_model inp relax obs =
     \<lparr> cp_vars = option_var_decls (option_items obs),
       cp_constraints =
         one_per_section obs
         @ (if ''room_conflicts'' \<notin> relax then check_room_constraints inp (option_items obs)
            else [])
         @ (if ''instructor_conflicts'' \<notin> relax
            then instructor_constraints inp (option_items obs) else [])
         @ (if ''no_overlap_groups'' \<notin> relax then no_overlap_constraints inp obs else [])
         @ (if ''crosslist_time_room'' \<notin> relax then crosslist_constraints inp obs else []),
       cp_objective = [] \<rparr>"

text \<open>
  \<open>_check_feasible\<close>: \<open>False\<close> on a pre-validation or option error, otherwise the model
  it hands to the solver.
\<close>

definition check_feasible_model :: "SchedulingInput \<Rightarrow> string set \<Rightarrow> CpModel option" where
  "check_feasible_model inp relax =
     (let errors = (if ''crosslist_capacity'' \<notin> relax
                    then validate_crosslist_capacity (crosslist_groups inp) (sections inp)
                           (rooms inp)
                    else [])
      in if errors \<noteq> [] then None
         else (let built = build_options inp (relax_flags relax)
               in if snd built \<noteq> [] then None
                  else Some (check_model inp relax (fst built))))"

definition check_feasible :: "solver \<Rightarrow> SchedulingInput \<Rightarrow> string set \<Rightarrow> bool" where
  "check_feasible solve inp relax =
     (case check_feasible_model inp relax of
        None \<Rightarrow> False
      | Some m \<Rightarrow> solve m \<noteq> None)"

text \<open>\<open>_strip_section\<close>\<close>

definition strip_section :: "SchedulingInput \<Rightarrow> string \<Rightarrow> SchedulingInput" where
  "strip_section inp section_id =
     inp\<lparr> sections := filter (\<lambda>s. sec_id s \<noteq> section_id) (sections inp),
          crosslist_groups :=
            concat (map (\<lambda>group.
                      let members = filter (\<lambda>sid. sid \<noteq> section_id) (clg_member_section_ids group)
                      in if length members \<ge> 2
                         then [\<lparr> clg_id = clg_id group, clg_member_section_ids = members,
                                 require_same_room = require_same_room group \<rparr>]
                         else [])
                    (crosslist_groups inp)),
          no_overlap_groups :=
            concat (map (\<lambda>group.
                      let members = filter (\<lambda>sid. sid \<noteq> section_id) (nog_member_section_ids group)
                      in if length members \<ge> 2
                         then [\<lparr> nog_id = nog_id group, nog_member_section_ids = members,
                                 nog_reason = nog_reason group \<rparr>]
                         else [])
                    (no_overlap_groups inp)),
          locked_assignments := filter (\<lambda>l. lock_section_id l \<noteq> section_id) (locked_assignments inp),
          soft_locks := filter (\<lambda>l. soft_section_id l \<noteq> section_id) (soft_locks inp) \<rparr>"

text \<open>\<open>_diagnose_infeasibility\<close>\<close>

record Diagnostics =
  feasible_if_relax :: "string list"
  feasible_if_remove_section :: "string list"

definition relax_candidates :: "(string \<times> string) list" where
  "relax_candidates =
     [(''blocked_times'', ''Blocked time constraints''),
      (''locks'', ''Locked assignments''),
      (''room_capacity'', ''Room capacity''),
      (''room_features'', ''Room feature requirements''),
      (''crosslist_capacity'', ''Cross-list capacity''),
      (''room_conflicts'', ''Room overlap constraints''),
      (''instructor_conflicts'', ''Instructor overlap constraints''),
      (''no_overlap_groups'', ''No-overlap groups''),
      (''crosslist_time_room'', ''Cross-list time/room equality'')]"

definition diagnose_infeasibility :: "solver \<Rightarrow> SchedulingInput \<Rightarrow> Diagnostics" where
  "diagnose_infeasibility solve inp =
     \<lparr> feasible_if_relax =
         map snd (filter (\<lambda>c. check_feasible solve inp {fst c}) relax_candidates),
       feasible_if_remove_section =
         map sec_id (filter (\<lambda>s. check_feasible solve (strip_section inp (sec_id s)) {})
                            (sections inp)) \<rparr>"

text \<open>
  \<open>_solve_schedule\<close>. The three payloads it returns are the three constructors; an
  exception that escapes is the left summand.
\<close>

datatype Response =
    ErrorResponse "ValidationError list"
  | InfeasibleResponse "ValidationError list" Diagnostics
  | OkResponse ScheduleSolution

definition solve_schedule :: "solver \<Rightarrow> SchedulingInput \<Rightarrow> py_error + Response" where
  "solve_schedule solve inp =
     (let errors = validate_crosslist_capacity (crosslist_groups inp) (sections inp) (rooms inp);
          built = build_options inp default_flags;
          errors = errors @ snd built
      in if errors \<noteq> [] then Inr (ErrorResponse errors)
         else (case build_solve_model inp (fst built) of
                 Inl e \<Rightarrow> Inl e
               | Inr m \<Rightarrow>
                   (case solve m of
                      None \<Rightarrow>
                        Inr (InfeasibleResponse
                               [\<lparr> code = ''infeasible'',
                                  message = ''No feasible schedule found.'' \<rparr>]
                               (diagnose_infeasibility solve inp))
                    | Some x \<Rightarrow>
                        (case assemble inp (fst built) x of
                           Inl e \<Rightarrow> Inl e
                         | Inr solution \<Rightarrow> Inr (OkResponse solution)))))"

text \<open>
  The optimization model with its objective and the adjunct bookkeeping removed: the
  option variables, the room-use indicators and the hard constraints.
\<close>

definition solve_hard_model ::
    "SchedulingInput \<Rightarrow> (string \<times> sched_option list) list \<Rightarrow> CpModel" where
  "solve_hard_model inp obs =
     \<lparr> cp_vars = option_var_decls (option_items obs) @ room_usage_vars inp (option_items obs),
       cp_constraints = solve_hard_constraints inp obs,
       cp_objective = [] \<rparr>"


section \<open>Notions of the score\<close>

text \<open>
  For the comparison of the objective with the score: the coefficient an option has in
  the assignment penalties, the coefficient its soft-lock term gives it, the cost of the
  option the assignment chooses for a section (0 when it chooses none), and the real
  number a finite float denotes.
\<close>

definition option_cost :: "SchedulingInput \<Rightarrow> string \<times> nat \<times> sched_option \<Rightarrow> int" where
  "option_cost inp item =
     (case option_days inp (item_option item) of
        None \<Rightarrow> 0
      | Some days \<Rightarrow> total_penalty inp (fst item) (item_option item) days)"

definition soft_coefficient :: "SchedulingInput \<Rightarrow> string \<times> nat \<times> sched_option \<Rightarrow> int" where
  "soft_coefficient inp item = sum_list (map snd (terms_of (soft_lock_term inp item)))"

definition entry_cost :: "SchedulingInput \<Rightarrow> assignment \<Rightarrow> string \<times> sched_option list \<Rightarrow> int" where
  "entry_cost inp x entry =
     (case chosen_idx x (fst entry) (snd entry) of
        None \<Rightarrow> 0
      | Some j \<Rightarrow> option_cost inp (fst entry, j, snd entry ! j)
                  + soft_coefficient inp (fst entry, j, snd entry ! j))"

fun float_value :: "pyfloat \<Rightarrow> real" where
  "float_value (Finite r) = r"
| "float_value PosInf = 0"
| "float_value NegInf = 0"
| "float_value NaN = 0"

fun whole_weight :: "pyfloat \<Rightarrow> bool" where
  "whole_weight (Finite r) = (0 \<le> r \<and> r = real_of_int \<lfloor>r\<rfloor>)"
| "whole_weight PosInf = False"
| "whole_weight NegInf = False"
| "whole_weight NaN = False"

fun nonneg_float :: "pyfloat \<Rightarrow> bool" where
  "nonneg_float (Finite r) = (0 \<le> r)"
| "nonneg_float PosInf = False"
| "nonneg_float NegInf = False"
| "nonneg_float NaN = False"

definition breakdown_values :: "PenaltyBreakdown \<Rightarrow> pyfloat list" where
  "breakdown_values b =
     [room_waste b, instructor_day_preference b, instructor_pattern_preference b,
      adjunct_day_excess b, soft_lock_time b, soft_lock_room b]"

definition sound_breakdown :: "PenaltyBreakdown \<Rightarrow> bool" where
  "sound_breakdown b = list_all nonneg_float (breakdown_values b)"

definition breakdown_total :: "PenaltyBreakdown \<Rightarrow> real" where
  "breakdown_total b = sum_list (map float_value (breakdown_values b))"

definition soft_amount :: "SchedulingInput \<Rightarrow> string \<Rightarrow> sched_option \<Rightarrow> real" where
  "soft_amount inp sid opt =
     (case soft_lock_by_section inp sid of
        None \<Rightarrow> 0
      | Some l \<Rightarrow> real (spec_mismatches l opt) * float_value (weight l))"

text \<open>
  What the assembler needs of the option an assignment chooses for a section: the days
  of its timeslots can be read, its room waste is not negative and its soft-lock term
  does not overflow.
\<close>

definition step_ok :: "SchedulingInput \<Rightarrow> assignment \<Rightarrow> string \<times> sched_option list \<Rightarrow> bool" where
  "step_ok inp x entry =
     (\<forall>j. chosen_idx x (fst entry) (snd entry) = Some j \<longrightarrow>
            option_days inp (snd entry ! j) \<noteq> None
          \<and> 0 \<le> opt_waste (snd entry ! j)
          \<and> soft_lock_term inp (fst entry, j, snd entry ! j) \<noteq> Inl OverflowError)"


section \<open>Concrete inputs\<close>

text \<open>Small inputs on which the model is evaluated.\<close>

definition mk_section :: "string \<Rightarrow> string \<Rightarrow> int \<Rightarrow> string list \<Rightarrow> string option \<Rightarrow> Section" where
  "mk_section sid iid n pats g =
     \<lparr> sec_id = sid, course_id = ''C'', section_code = ''001'', instructor_id = iid,
       expected_enrollment = n, enrollment_cap = n, allowed_meeting_patterns = pats,
       room_requirements = [], crosslist_group_id = g, tags = [] \<rparr>"

definition ex_room :: "string \<Rightarrow> int \<Rightarrow> Room" where
  "ex_room rid n = \<lparr> room_id = rid, building = ''B'', capacity = n, features = [] \<rparr>"

definition cx_lock_input :: SchedulingInput where
  "cx_lock_input =
     \<lparr> sections = [mk_section ''S1'' ''I1'' 20 [''P1''] None],
       instructors = [],
       rooms = [ex_room ''R1'' 30],
       timeslots = [\<lparr> slot_id = ''T1'', day = ''Mon'', start_time = ''09:00'', end_time = ''10:00'' \<rparr>],
       meeting_patterns = [\<lparr> pat_id = ''P1'', slots_required = 1, allowed_days = [''Mon''],
                              compatible_timeslot_sets = [[''T1'']] \<rparr>],
       crosslist_groups = [],
       no_overlap_groups = [],
       blocked_times = [],
       locked_assignments = [\<lparr> lock_section_id = ''S1'', fixed_timeslot_set = Some [],
                                 fixed_room = Some [] \<rparr>],
       soft_locks = [] \<rparr>"

definition ex_slot :: "string \<Rightarrow> string \<Rightarrow> Timeslot" where
  "ex_slot tid d = \<lparr> slot_id = tid, day = d, start_time = ''09:00'', end_time = ''10:00'' \<rparr>"

definition ex_pattern :: "string \<Rightarrow> string list list \<Rightarrow> MeetingPattern" where
  "ex_pattern pid sets = \<lparr> pat_id = pid, slots_required = 1, allowed_days = [],
     compatible_timeslot_sets = sets \<rparr>"

definition ex_instructor :: "string \<Rightarrow> string \<Rightarrow> string list \<Rightarrow> string list \<Rightarrow> int option \<Rightarrow> Instructor" where
  "ex_instructor iid rank days pats m =
     \<lparr> inst_id = iid, rank_type = rank, unavailable_times = [],
       preferences = \<lparr> preferred_days = days, preferred_patterns = pats,
                       max_teaching_days = m \<rparr> \<rparr>"

definition ex_input :: SchedulingInput where
  "ex_input =
     \<lparr> sections = [mk_section ''S1'' ''I1'' 15 [''P1''] (Some ''G1''),
                   mk_section ''S2'' ''I2'' 15 [''P1''] (Some ''G1''),
                   mk_section ''S3'' ''I2'' 10 [''P2''] (Some ''GX'')],
       instructors = [ex_instructor ''I1'' ''Adjunct'' [''Mon''] [''P1''] (Some 1),
                      ex_instructor ''I2'' ''Full'' [] [] None],
       rooms = [ex_room ''R1'' 40],
       timeslots = [ex_slot ''T1'' ''Mon'', ex_slot ''T2'' ''Tue''],
       meeting_patterns = [ex_pattern ''P1'' [[''T1'']], ex_pattern ''P2'' [[''T2'']]],
       crosslist_groups = [\<lparr> clg_id = ''G1'', clg_member_section_ids = [''S1'', ''S2''],
                              require_same_room = True \<rparr>],
       no_overlap_groups = [\<lparr> nog_id = ''N1'', nog_member_section_ids = [''S1'', ''S3''],
                               nog_reason = ''core'' \<rparr>],
       blocked_times = [\<lparr> scope = ''global'', timeslot_ids = [''T9''], bt_reason = ''x'' \<rparr>],
       locked_assignments = [\<lparr> lock_section_id = ''S1'', fixed_timeslot_set = Some [''T1''],
                                 fixed_room = Some ''R1'' \<rparr>],
       soft_locks = [\<lparr> soft_section_id = ''S1'', preferred_timeslot_set = None,
                        preferred_room = Some ''R2'', weight = Finite 2 \<rparr>] \<rparr>"

definition cx_dup_input :: SchedulingInput where
  "cx_dup_input =
     \<lparr> sections = [mk_section ''S1'' ''I1'' 20 [] None,
                   mk_section ''S1'' ''I1'' 20 [''P1''] None],
       instructors = [],
       rooms = [ex_room ''R1'' 30],
       timeslots = [ex_slot ''T1'' ''Mon''],
       meeting_patterns = [ex_pattern ''P1'' [[''T1'']]],
       crosslist_groups = [],
       no_overlap_groups = [],
       blocked_times = [],
       locked_assignments = [],
       soft_locks = [] \<rparr>"

definition ex_error_input :: SchedulingInput where
  "ex_error_input =
     \<lparr> sections = [mk_section ''S1'' ''I1'' 20 [''P9''] (Some ''G1''),
                   mk_section ''S2'' ''I1'' 20 [''P1''] None],
       instructors = [],
       rooms = [ex_room ''R1'' 30],
       timeslots = [ex_slot ''T1'' ''Mon''],
       meeting_patterns = [ex_pattern ''P1'' [[''T1'']]],
       crosslist_groups = [\<lparr> clg_id = ''G1'', clg_member_section_ids = [''S1''],
                              require_same_room = False \<rparr>,
                           \<lparr> clg_id = ''G2'', clg_member_section_ids = [],
                              require_same_room = False \<rparr>],
       no_overlap_groups = [],
       blocked_times = [],
       locked_assignments = [],
       soft_locks = [] \<rparr>"

text \<open>
  Three groups: \<open>G1\<close>, whose id two sections of 30 carry; \<open>G2\<close>, which lists two sections
  of 30 that do not carry its id; and a group with the empty id, which lists a section of
  100 that carries the empty id.
\<close>

definition ex_capacity_groups :: "CrossListGroup list" where
  "ex_capacity_groups =
     [\<lparr> clg_id = ''G1'', clg_member_section_ids = [''S1'', ''S2''], require_same_room = False \<rparr>,
      \<lparr> clg_id = ''G2'', clg_member_section_ids = [''S3'', ''S4''], require_same_room = False \<rparr>,
      \<lparr> clg_id = '''', clg_member_section_ids = [''S5''], require_same_room = False \<rparr>]"

definition ex_capacity_sections :: "Section list" where
  "ex_capacity_sections =
     [mk_section ''S1'' ''I1'' 30 [''P1''] (Some ''G1''),
      mk_section ''S2'' ''I2'' 30 [''P1''] (Some ''G1''),
      mk_section ''S3'' ''I3'' 30 [''P1''] None,
      mk_section ''S4'' ''I4'' 30 [''P1''] None,
      mk_section ''S5'' ''I5'' 100 [''P1''] (Some '''')]"

definition ex_capacity_rooms :: "Room list" where
  "ex_capacity_rooms = [ex_room ''R1'' 40, ex_room ''R2'' 50]"

definition ex_soft_lock :: "string \<Rightarrow> string list option \<Rightarrow> string option \<Rightarrow> pyfloat \<Rightarrow> SoftLock" where
  "ex_soft_lock sid ts r w =
     \<lparr> soft_section_id = sid, preferred_timeslot_set = ts, preferred_room = r, weight = w \<rparr>"

definition ex_soft_input :: SchedulingInput where
  "ex_soft_input =
     \<lparr> sections = [mk_section ''S1'' ''I1'' 20 [''P1''] None,
                   mk_section ''S2'' ''I2'' 20 [''P2''] None,
                   mk_section ''S3'' ''I3'' 20 [''P3''] None],
       instructors = [],
       rooms = [ex_room ''R1'' 30],
       timeslots = [ex_slot ''T1'' ''Mon'', ex_slot ''T2'' ''Tue'', ex_slot ''T3'' ''Wed''],
       meeting_patterns = [ex_pattern ''P1'' [[''T1'']], ex_pattern ''P2'' [[''T2'']],
                           ex_pattern ''P3'' [[''T3'']]],
       crosslist_groups = [],
       no_overlap_groups = [],
       blocked_times = [],
       locked_assignments = [],
       soft_locks = [ex_soft_lock ''S1'' None (Some ''R2'') (Finite (1/2)),
                     ex_soft_lock ''S2'' None (Some ''R2'') (Finite (-3)),
                     ex_soft_lock ''S3'' (Some [''T1'']) (Some ''R2'') (Finite (3/2))] \<rparr>"

text \<open>
  One section whose only option misses both preferences of its soft lock, for a weight
  \<open>w\<close>.
\<close>

definition ex_overflow_input :: "pyfloat \<Rightarrow> SchedulingInput" where
  "ex_overflow_input w =
     \<lparr> sections = [mk_section ''S1'' ''I1'' 20 [''P1''] None],
       instructors = [],
       rooms = [ex_room ''R1'' 30],
       timeslots = [ex_slot ''T1'' ''Mon''],
       meeting_patterns = [ex_pattern ''P1'' [[''T1'']]],
       crosslist_groups = [],
       no_overlap_groups = [],
       blocked_times = [],
       locked_assignments = [],
       soft_locks = [ex_soft_lock ''S1'' (Some [''T2'']) (Some ''R2'') w] \<rparr>"

definition cx_dangling_input :: SchedulingInput where
  "cx_dangling_input =
     \<lparr> sections = [mk_section ''S1'' ''I1'' 20 [''P1''] (Some ''GX''),
                   mk_section ''S2'' ''I2'' 20 [''P2''] None],
       instructors = [],
       rooms = [ex_room ''R1'' 30],
       timeslots = [ex_slot ''T1'' ''Mon'', ex_slot ''T2'' ''Tue''],
       meeting_patterns = [ex_pattern ''P1'' [[''T1'']], ex_pattern ''P2'' [[''T2'']]],
       crosslist_groups = [\<lparr> clg_id = ''G1'', clg_member_section_ids = [''S1'', ''S2''],
                              require_same_room = False \<rparr>],
       no_overlap_groups = [],
       blocked_times = [],
       locked_assignments = [],
       soft_locks = [] \<rparr>"

text \<open>The optimization model of \<open>ex_input\<close>, written out.\<close>

definition ex_model :: CpModel where
  "ex_model =
     \<lparr> cp_vars = [(OptVar ''S1'' 0, 0, 1), (OptVar ''S2'' 0, 0, 1), (OptVar ''S3'' 0, 0, 1),
                  (RoomUseVar 0 0 ''G1'', 0, 1), (RoomUseVar 0 1 ''sec:S3'', 0, 1),
                  (DayVar 0 ''Mon'', 0, 1), (DayVar 0 ''Tue'', 0, 1), (ExcessVar 0, 0, 2)],
       cp_constraints =
         [SumEq [OptVar ''S1'' 0] 1, SumEq [OptVar ''S2'' 0] 1, SumEq [OptVar ''S3'' 0] 1,
          VarGe (RoomUseVar 0 0 ''G1'') (OptVar ''S1'' 0),
          VarGe (RoomUseVar 0 0 ''G1'') (OptVar ''S2'' 0),
          SumLe [RoomUseVar 0 0 ''G1''] 1,
          VarGe (RoomUseVar 0 1 ''sec:S3'') (OptVar ''S3'' 0),
          SumLe [RoomUseVar 0 1 ''sec:S3''] 1, SumLe [OptVar ''S1'' 0] 1,
          SumLe [OptVar ''S2'' 0] 1, SumLe [OptVar ''S3'' 0] 1,
          SumLe [OptVar ''S1'' 0] 1, SumLe [OptVar ''S3'' 0] 1,
          ExcessGe (ExcessVar 0) [DayVar 0 ''Mon'', DayVar 0 ''Tue''] 1,
          NonNeg (ExcessVar 0), VarGe (DayVar 0 ''Mon'') (OptVar ''S1'' 0)],
       cp_objective = [(ExcessVar 0, 15), (OptVar ''S1'' 0, 25), (OptVar ''S2'' 0, 40),
                       (OptVar ''S3'' 0, 45), (OptVar ''S1'' 0, 2)] \<rparr>"

text \<open>All three options selected; both cross-listed sections in room R1 at T1.\<close>

definition ex_assignment :: assignment where
  "ex_assignment v =
     (if v \<in> set [OptVar ''S1'' 0, OptVar ''S2'' 0, OptVar ''S3'' 0, RoomUseVar 0 0 ''G1'',
                   RoomUseVar 0 1 ''sec:S3'', DayVar 0 ''Mon'']
      then 1 else 0)"


text \<open>
  Two cross-listed sections that must share the one room at the one timeslot, and the two
  models built for them.
\<close>

definition cx_sameroom_input :: SchedulingInput where
  "cx_sameroom_input =
     \<lparr> sections = [mk_section ''S1'' ''I1'' 15 [''P1''] (Some ''G1''),
                   mk_section ''S2'' ''I2'' 15 [''P1''] (Some ''G1'')],
       instructors = [ex_instructor ''I1'' ''Full'' [] [] None,
                      ex_instructor ''I2'' ''Full'' [] [] None],
       rooms = [ex_room ''R1'' 40],
       timeslots = [ex_slot ''T1'' ''Mon''],
       meeting_patterns = [ex_pattern ''P1'' [[''T1'']]],
       crosslist_groups = [\<lparr> clg_id = ''G1'', clg_member_section_ids = [''S1'', ''S2''],
                              require_same_room = True \<rparr>],
       no_overlap_groups = [],
       blocked_times = [],
       locked_assignments = [],
       soft_locks = [] \<rparr>"




definition cx_sameroom_check_model :: CpModel where
  "cx_sameroom_check_model =
     \<lparr> cp_vars = [(OptVar ''S1'' 0, 0, 1), (OptVar ''S2'' 0, 0, 1)],
       cp_constraints = [SumEq [OptVar ''S1'' 0] 1, SumEq [OptVar ''S2'' 0] 1,
                         SumLe [OptVar ''S1'' 0, OptVar ''S2'' 0] 1,
                         SumLe [OptVar ''S1'' 0] 1, SumLe [OptVar ''S2'' 0] 1],
       cp_objective = [] \<rparr>"

definition cx_sameroom_hard_model :: CpModel where
  "cx_sameroom_hard_model =
     \<lparr> cp_vars = [(OptVar ''S1'' 0, 0, 1), (OptVar ''S2'' 0, 0, 1),
                  (RoomUseVar 0 0 ''G1'', 0, 1)],
       cp_constraints = [SumEq [OptVar ''S1'' 0] 1, SumEq [OptVar ''S2'' 0] 1,
                         VarGe (RoomUseVar 0 0 ''G1'') (OptVar ''S1'' 0),
                         VarGe (RoomUseVar 0 0 ''G1'') (OptVar ''S2'' 0),
                         SumLe [RoomUseVar 0 0 ''G1''] 1,
                         SumLe [OptVar ''S1'' 0] 1, SumLe [OptVar ''S2'' 0] 1],
       cp_objective = [] \<rparr>"

text \<open>The response to \<open>ex_input\<close> when the solver returns \<open>ex_assignment\<close>.\<close>

definition ex_solution :: ScheduleSolution where
  "ex_solution =
     \<lparr> assignments =
         [\<lparr> asg_section_id = ''S1'', meeting_pattern_id = ''P1'', asg_timeslot_ids = [''T1''],
            asg_room_id = ''R1'' \<rparr>,
          \<lparr> asg_section_id = ''S2'', meeting_pattern_id = ''P1'', asg_timeslot_ids = [''T1''],
            asg_room_id = ''R1'' \<rparr>,
          \<lparr> asg_section_id = ''S3'', meeting_pattern_id = ''P2'', asg_timeslot_ids = [''T2''],
            asg_room_id = ''R1'' \<rparr>],
       total_score = Finite 112,
       penalty_breakdown =
         \<lparr> room_waste = Finite 80, instructor_day_preference = Finite 20,
           instructor_pattern_preference = Finite 10, adjunct_day_excess = Finite 0,
           soft_lock_time = Finite 0, soft_lock_room = Finite 2 \<rparr>,
       explanations = [''Section S1 assigned to R1 at T1.'',
                       ''Section S2 assigned to R1 at T1.'',
                       ''Section S3 assigned to R1 at T2.''] \<rparr>"

text \<open>
  One section whose soft lock has the weight 0.5 and prefers another room than the only
  one; the model built for it, and the assignment that selects its option.
\<close>

definition cx_half_input :: SchedulingInput where
  "cx_half_input =
     \<lparr> sections = [mk_section ''S1'' ''I1'' 20 [''P1''] None],
       instructors = [],
       rooms = [ex_room ''R1'' 30],
       timeslots = [ex_slot ''T1'' ''Mon''],
       meeting_patterns = [ex_pattern ''P1'' [[''T1'']]],
       crosslist_groups = [],
       no_overlap_groups = [],
       blocked_times = [],
       locked_assignments = [],
       soft_locks = [ex_soft_lock ''S1'' None (Some ''R2'') (Finite (1/2))] \<rparr>"

definition cx_half_model :: CpModel where
  "cx_half_model =
     \<lparr> cp_vars = [(OptVar ''S1'' 0, 0, 1), (RoomUseVar 0 0 ''sec:S1'', 0, 1)],
       cp_constraints = [SumEq [OptVar ''S1'' 0] 1,
                         VarGe (RoomUseVar 0 0 ''sec:S1'') (OptVar ''S1'' 0),
                         SumLe [RoomUseVar 0 0 ''sec:S1''] 1],
       cp_objective = [(OptVar ''S1'' 0, 25), (OptVar ''S1'' 0, 0)] \<rparr>"

definition cx_half_assignment :: assignment where
  "cx_half_assignment v = 1"


section \<open>Float arithmetic\<close>

lemma FLOAT_MAX_pos: "0 < FLOAT_MAX"
  by (simp add: FLOAT_MAX_def)

lemma FLOAT_MAX_large: "2 ^ 53 \<le> FLOAT_MAX"
  by (simp add: FLOAT_MAX_def)

lemma py_result_small: "\<bar>r\<bar> \<le> 2 ^ 53 \<Longrightarrow> py_result r = Finite r"
proof -
  assume "\<bar>r\<bar> \<le> 2 ^ 53"
  with FLOAT_MAX_large have "\<bar>r\<bar> \<le> FLOAT_MAX" by (rule order_trans [rotated])
  then show ?thesis unfolding py_result_def by (simp add: abs_le_iff)
qed

lemma py_add_zero: "py_add (Finite 0) (py_result w) = py_result w"
  using FLOAT_MAX_pos by (simp add: py_result_def)

lemma py_add_twice: "py_add (py_result w) (py_result w) = py_result (2 * w)"
  using FLOAT_MAX_pos by (simp add: py_result_def)

lemma py_result_nonpos: "r \<le> 0 \<Longrightarrow> py_result r \<noteq> PosInf"
  using FLOAT_MAX_pos by (simp add: py_result_def)

section \<open>The model on the concrete inputs\<close>

lemmas option_defs = build_options_def build_step_def section_options_def available_rooms_def
  build_crosslist_totals_def totals_add_def locked_by_section_def blocked_times_global_def
  pattern_by_id_def dict_of_def dict_get_def lock_rejects_slots_def lock_rejects_room_def
  has_required_features_def default_flags_def mk_section_def ex_room_def Let_def
  ex_slot_def ex_pattern_def ex_instructor_def

lemma cx_lock_options:
  "build_options cx_lock_input default_flags = ([(''S1'', [(''P1'', [''T1''], ''R1'', 10)])], [])"
  by (simp add: cx_lock_input_def option_defs)

lemma ex_options:
  "build_options ex_input default_flags =
     ([(''S1'', [(''P1'', [''T1''], ''R1'', 25)]),
       (''S2'', [(''P1'', [''T1''], ''R1'', 25)]),
       (''S3'', [(''P2'', [''T2''], ''R1'', 30)])], [])"
  by (simp add: ex_input_def option_defs)

lemma cx_dup_options:
  "build_options cx_dup_input default_flags
     = ([(''S1'', [(''P1'', [''T1''], ''R1'', 10)])], [no_feasible_options_error ''S1''])"
  by (simp add: cx_dup_input_def option_defs)

lemma ex_error_options:
  "build_options ex_error_input default_flags
     = ([(''S1'', []), (''S2'', [(''P1'', [''T1''], ''R1'', 10)])],
        [no_feasible_options_error ''S1''])"
  by (simp add: ex_error_input_def option_defs)

lemma ex_error_validate:
  "validate_crosslist_capacity (crosslist_groups ex_error_input) (sections ex_error_input)
     (rooms ex_error_input) = []"
  by (simp add: ex_error_input_def validate_crosslist_capacity_def max_room_capacity_def
        option_defs)

lemma ex_soft_options:
  "build_options ex_soft_input default_flags =
     ([(''S1'', [(''P1'', [''T1''], ''R1'', 10)]),
       (''S2'', [(''P2'', [''T2''], ''R1'', 10)]),
       (''S3'', [(''P3'', [''T3''], ''R1'', 10)])], [])"
  by (simp add: ex_soft_input_def option_defs)

lemmas item_defs = option_items_def enumerate_eq_zip item_var_def item_option_def
  opt_pattern_def opt_slots_def opt_room_def opt_waste_def

lemmas soft_defs = soft_lock_term_def soft_lock_by_section_def weighted_base_def
  soft_penalty_def time_mismatch_def room_mismatch_def py_trunc_def SOFT_LOCK_BASE_WEIGHT_def
  ex_soft_lock_def dict_of_def Let_def py_result_small

lemma ex_soft_items:
  "option_items (fst (build_options ex_soft_input default_flags)) =
     [(''S1'', 0, (''P1'', [''T1''], ''R1'', 10)),
      (''S2'', 0, (''P2'', [''T2''], ''R1'', 10)),
      (''S3'', 0, (''P3'', [''T3''], ''R1'', 10))]"
  by (simp add: ex_soft_options item_defs)

lemma ex_soft_terms:
  "soft_lock_terms ex_soft_input (option_items (fst (build_options ex_soft_input default_flags)))
     = Inr [(OptVar ''S1'' 0, 0), (OptVar ''S3'' 0, 3)]"
  by (simp add: ex_soft_items) (simp add: ex_soft_input_def soft_defs item_defs)

lemma cx_dangling_options:
  "build_options cx_dangling_input default_flags =
     ([(''S1'', [(''P1'', [''T1''], ''R1'', 10)]),
       (''S2'', [(''P2'', [''T2''], ''R1'', 10)])], [])"
  by (simp add: cx_dangling_input_def option_defs)

lemmas crosslist_defs = crosslist_constraints_def pair_constraints_def pair_conflict_def
  dict_get_def enumerate_eq_zip opt_slots_def opt_room_def

lemma cx_dangling_crosslist:
  "crosslist_constraints cx_dangling_input (fst (build_options cx_dangling_input default_flags))
     = [SumLe [OptVar ''S1'' 0, OptVar ''S2'' 0] 1]"
  by (simp add: cx_dangling_options) (simp add: cx_dangling_input_def crosslist_defs)

lemma ex_crosslist:
  "crosslist_constraints ex_input (fst (build_options ex_input default_flags)) = []"
  by (simp add: ex_options) (simp add: ex_input_def crosslist_defs)

lemma ex_days: "unique_days ex_input = [''Mon'', ''Tue'']"
  by (simp add: unique_days_def ex_input_def ex_slot_def)

lemma ex_items:
  "option_items (fst (build_options ex_input default_flags)) =
     [(''S1'', 0, (''P1'', [''T1''], ''R1'', 25)),
      (''S2'', 0, (''P1'', [''T1''], ''R1'', 25)),
      (''S3'', 0, (''P2'', [''T2''], ''R1'', 30))]"
  by (simp add: ex_options item_defs)

lemmas model_defs = one_per_section_def room_usage_constraints_def room_usage_vars_def
  vars_by_group_def uses_room_at_def section_to_roomshare_group_def roomshare_key_def
  crosslist_roomshare_def bucket_constraints_def group_used_vars_def
  instructor_constraints_def taught_at_def sections_by_id_def at_most_one_def
  no_overlap_constraints_def member_vars_at_def option_var_decls_def
  solve_hard_constraints_def instructors_by_id_def timeslot_day_def

lemma ex_hard:
  "solve_hard_constraints ex_input (fst (build_options ex_input default_flags)) =
    [SumEq [OptVar ''S1'' 0] 1, SumEq [OptVar ''S2'' 0] 1, SumEq [OptVar ''S3'' 0] 1,
     VarGe (RoomUseVar 0 0 ''G1'') (OptVar ''S1'' 0),
     VarGe (RoomUseVar 0 0 ''G1'') (OptVar ''S2'' 0),
     SumLe [RoomUseVar 0 0 ''G1''] 1,
     VarGe (RoomUseVar 0 1 ''sec:S3'') (OptVar ''S3'' 0),
     SumLe [RoomUseVar 0 1 ''sec:S3''] 1, SumLe [OptVar ''S1'' 0] 1,
     SumLe [OptVar ''S2'' 0] 1, SumLe [OptVar ''S3'' 0] 1,
     SumLe [OptVar ''S1'' 0] 1, SumLe [OptVar ''S3'' 0] 1]"
  unfolding solve_hard_constraints_def ex_crosslist ex_items
  by (simp add: ex_options) (simp add: ex_input_def model_defs item_defs option_defs)

lemmas objective_defs = adjunct_vars_def adjunct_constraints_def adjunct_terms_def
  adjunct_instructors_def adjunct_tracked_def truthy_int_def day_vars_def
  instructor_day_vars_def adjunct_day_excess_vars_def option_days_def option_instructor_def
  pref_day_penalty_def pref_pattern_penalty_def total_penalty_def day_links_def
  option_term_def option_terms_def ROOM_WASTE_WEIGHT_def PREF_DAY_WEIGHT_def
  PREF_PATTERN_WEIGHT_def ADJUNCT_DAY_EXCESS_WEIGHT_def

lemma ex_option_terms:
  "option_terms ex_input (option_items (fst (build_options ex_input default_flags))) =
     Some [((OptVar ''S1'' 0, 25), [VarGe (DayVar 0 ''Mon'') (OptVar ''S1'' 0)]),
           ((OptVar ''S2'' 0, 40), []),
           ((OptVar ''S3'' 0, 45), [])]"
  unfolding ex_items
  by (simp add: ex_input_def objective_defs model_defs item_defs option_defs unique_days_def)

lemma ex_room_vars:
  "room_usage_vars ex_input (option_items (fst (build_options ex_input default_flags))) =
     [(RoomUseVar 0 0 ''G1'', 0, 1), (RoomUseVar 0 1 ''sec:S3'', 0, 1)]"
  unfolding ex_items
  by (simp add: ex_input_def model_defs item_defs option_defs)

lemma ex_adjunct:
  "adjunct_vars ex_input = [(DayVar 0 ''Mon'', 0, 1), (DayVar 0 ''Tue'', 0, 1), (ExcessVar 0, 0, 2)]"
  "adjunct_constraints ex_input
     = [ExcessGe (ExcessVar 0) [DayVar 0 ''Mon'', DayVar 0 ''Tue''] 1, NonNeg (ExcessVar 0)]"
  "adjunct_terms ex_input = [(ExcessVar 0, 15)]"
  "adjunct_day_excess_vars ex_input = [(''I1'', ExcessVar 0)]"
  unfolding adjunct_vars_def adjunct_constraints_def adjunct_terms_def day_vars_def ex_days
    adjunct_day_excess_vars_def
  by (simp_all add: ex_input_def adjunct_instructors_def adjunct_tracked_def truthy_int_def
        ex_instructor_def enumerate_eq_zip ADJUNCT_DAY_EXCESS_WEIGHT_def)

lemma ex_soft:
  "soft_lock_terms ex_input (option_items (fst (build_options ex_input default_flags)))
     = Inr [(OptVar ''S1'' 0, 2)]"
  unfolding ex_items
  by (simp add: ex_input_def soft_defs item_defs)

lemma ex_build:
  "build_solve_model ex_input (fst (build_options ex_input default_flags)) = Inr ex_model"
  unfolding build_solve_model_def ex_option_terms ex_hard ex_room_vars ex_adjunct ex_soft
  by (simp add: ex_items option_var_decls_def item_var_def ex_model_def)

lemma ex_satisfies: "satisfies ex_model ex_assignment"
  by (simp add: satisfies_def ex_model_def in_domain_def ex_assignment_def)

lemma ex_objective: "objective_value ex_model ex_assignment = 112"
  by (simp add: objective_value_def ex_model_def ex_assignment_def)





section \<open>Properties of the pre-validator\<close>

lemma fold_totals_add:
  "dict_get (fold totals_add secs t) g 0 = dict_get t g 0 + spec_carried_total secs g"
  by (induction secs arbitrary: t)
     (auto simp: spec_carried_total_def totals_add_def dict_get_def split: option.splits)

lemma crosslist_totals_get:
  "dict_get (build_crosslist_totals secs) g 0 = spec_carried_total secs g"
  using fold_totals_add [of secs Map.empty g]
  by (simp add: build_crosslist_totals_def dict_get_def)

lemma Max_insert_pair:
  assumes "finite S"
  shows "Max (insert (a::int) (insert b S)) = Max (insert (max a b) S)"
proof (cases "S = {}")
  case True
  then show ?thesis by simp
next
  case False
  with assms show ?thesis by (simp add: max.assoc)
qed

lemma fold_keep_larger:
  "fold (\<lambda>room m. if capacity room > m then capacity room else m) rs a
     = Max (insert a (set (map capacity rs)))"
proof (induction rs arbitrary: a)
  case Nil
  then show ?case by simp
next
  case (Cons r rs)
  have "(if a < capacity r then capacity r else a) = max a (capacity r)"
    by (simp add: max_def)
  then show ?case
    using Max_insert_pair [of "set (map capacity rs)" a "capacity r"]
    by (simp add: Cons.IH)
qed

lemma max_room_capacity_spec: "max_room_capacity rs = spec_max_capacity rs"
  by (cases rs) (simp_all add: max_room_capacity_def spec_max_capacity_def fold_keep_larger)

lemma fold_append_if:
  "fold (\<lambda>x acc. if P x then acc @ [f x] else acc) xs acc0 = acc0 @ map f (filter P xs)"
  by (induction xs arbitrary: acc0) simp_all

lemma ex_capacity_validate:
  "validate_crosslist_capacity ex_capacity_groups ex_capacity_sections ex_capacity_rooms
     = [\<lparr> code = ''crosslist_capacity'',
          message = ''Cross-list group G1 requires capacity 60, but max room is 50.'' \<rparr>]"
  by (simp add: validate_crosslist_capacity_def ex_capacity_groups_def ex_capacity_sections_def
        ex_capacity_rooms_def max_room_capacity_def build_crosslist_totals_def totals_add_def
        dict_get_def mk_section_def ex_room_def crosslist_capacity_error_def str_int_def
        digit_char_def Let_def)

text \<open>
  C5 (as amended). \<open>_validate_crosslist_capacity\<close> returns, in the order of the groups,
  exactly one \<open>crosslist_capacity\<close> error, with the message of the specification, for
  each group such that the summed expected enrollment of the sections carrying the
  group's id as their non-empty \<open>crosslist_group_id\<close> exceeds the largest room capacity
  (0 when there is no room), and nothing for any other group. The \<open>member_section_ids\<close>
  of the group are not consulted, and a group whose id is empty never gets an error
  unless the largest capacity is negative.
\<close>

theorem validate_crosslist_capacity_exact:
  "validate_crosslist_capacity groups secs rs =
     map (\<lambda>g. \<lparr> code = ''crosslist_capacity'',
                message = ''Cross-list group '' @ clg_id g @ '' requires capacity ''
                          @ str_int (spec_carried_total secs (clg_id g))
                          @ '', but max room is '' @ str_int (spec_max_capacity rs) @ ''.'' \<rparr>)
         (filter (\<lambda>g. spec_carried_total secs (clg_id g) > spec_max_capacity rs) groups)"
proof -
  have "validate_crosslist_capacity groups secs rs =
          fold (\<lambda>g errors.
                  if spec_carried_total secs (clg_id g) > spec_max_capacity rs
                  then errors @ [crosslist_capacity_error (clg_id g)
                                   (spec_carried_total secs (clg_id g)) (spec_max_capacity rs)]
                  else errors) groups []"
    by (simp add: validate_crosslist_capacity_def Let_def crosslist_totals_get
                  max_room_capacity_spec cong: if_cong)
  then show ?thesis
    by (simp add: fold_append_if crosslist_capacity_error_def)
qed

text \<open>
  The theorem on three groups: only \<open>G1\<close>, whose total of 60 exceeds the largest capacity
  50, gets the error, and its message is the text of the specification.
\<close>

theorem validate_crosslist_capacity_exact_witness:
  "spec_carried_total ex_capacity_sections ''G1'' = 60
   \<and> spec_carried_total ex_capacity_sections ''G2'' = 0
   \<and> spec_carried_total ex_capacity_sections '''' = 0
   \<and> spec_max_capacity ex_capacity_rooms = 50
   \<and> validate_crosslist_capacity ex_capacity_groups ex_capacity_sections ex_capacity_rooms
     = [\<lparr> code = ''crosslist_capacity'',
          message = ''Cross-list group G1 requires capacity 60, but max room is 50.'' \<rparr>]"
proof -
  have t: "spec_carried_total ex_capacity_sections ''G1'' = 60"
      "spec_carried_total ex_capacity_sections ''G2'' = 0"
      "spec_carried_total ex_capacity_sections '''' = 0"
    by (simp_all add: spec_carried_total_def ex_capacity_sections_def mk_section_def)
  have m: "spec_max_capacity ex_capacity_rooms = 50"
    by (simp add: spec_max_capacity_def ex_capacity_rooms_def ex_room_def)
  have s: "str_int 60 = ''60''" "str_int 50 = ''50''"
    by (simp_all add: str_int_def digit_char_def)
  from validate_crosslist_capacity_exact [of ex_capacity_groups ex_capacity_sections
         ex_capacity_rooms]
  have "validate_crosslist_capacity ex_capacity_groups ex_capacity_sections ex_capacity_rooms
     = [\<lparr> code = ''crosslist_capacity'',
          message = ''Cross-list group G1 requires capacity 60, but max room is 50.'' \<rparr>]"
    by (simp add: ex_capacity_groups_def t m s)
  with t m show ?thesis by simp
qed

text \<open>
  The claim as stated, with the members of a group read from its \<open>member_section_ids\<close>,
  fails on the same input: the members of \<open>G2\<close> sum to 60 and the member of the group with
  the empty id to 100, both above 50, and neither group gets an error.
\<close>

theorem member_ids_ignored_counterexample:
  "spec_members_total ex_capacity_sections (ex_capacity_groups ! 1) = 60
   \<and> spec_members_total ex_capacity_sections (ex_capacity_groups ! 2) = 100
   \<and> spec_max_capacity ex_capacity_rooms = 50
   \<and> spec_validate_members ex_capacity_groups ex_capacity_sections ex_capacity_rooms
     = [\<lparr> code = ''crosslist_capacity'',
          message = ''Cross-list group G1 requires capacity 60, but max room is 50.'' \<rparr>,
        \<lparr> code = ''crosslist_capacity'',
          message = ''Cross-list group G2 requires capacity 60, but max room is 50.'' \<rparr>,
        \<lparr> code = ''crosslist_capacity'',
          message = ''Cross-list group  requires capacity 100, but max room is 50.'' \<rparr>]
   \<and> validate_crosslist_capacity ex_capacity_groups ex_capacity_sections ex_capacity_rooms
     = [\<lparr> code = ''crosslist_capacity'',
          message = ''Cross-list group G1 requires capacity 60, but max room is 50.'' \<rparr>]"
proof -
  have t: "spec_members_total ex_capacity_sections (ex_capacity_groups ! 1) = 60"
      "spec_members_total ex_capacity_sections (ex_capacity_groups ! 2) = 100"
    by (simp_all add: spec_members_total_def ex_capacity_sections_def ex_capacity_groups_def
          mk_section_def)
  have m: "spec_max_capacity ex_capacity_rooms = 50"
    by (simp add: spec_max_capacity_def ex_capacity_rooms_def ex_room_def)
  have v: "spec_validate_members ex_capacity_groups ex_capacity_sections ex_capacity_rooms
     = [\<lparr> code = ''crosslist_capacity'',
          message = ''Cross-list group G1 requires capacity 60, but max room is 50.'' \<rparr>,
        \<lparr> code = ''crosslist_capacity'',
          message = ''Cross-list group G2 requires capacity 60, but max room is 50.'' \<rparr>,
        \<lparr> code = ''crosslist_capacity'',
          message = ''Cross-list group  requires capacity 100, but max room is 50.'' \<rparr>]"
    by (simp add: spec_validate_members_def m)
       (simp add: ex_capacity_groups_def spec_members_total_def ex_capacity_sections_def
          mk_section_def str_int_def digit_char_def)
  from t m v ex_capacity_validate show ?thesis by simp
qed

section \<open>Properties of option generation\<close>

lemma find_mem: "find P xs = Some x \<Longrightarrow> x \<in> set xs \<and> P x"
  by (induction xs) (auto split: if_splits)

lemma find_app:
  "find P (xs @ ys) = (case find P xs of Some x \<Rightarrow> Some x | None \<Rightarrow> find P ys)"
  by (induction xs) auto

lemma map_of_dict_set: "map_of (dict_set k v d) = (map_of d)(k \<mapsto> v)"
  by (induction k v d rule: dict_set.induct) (auto simp: fun_eq_iff)

lemma keys_dict_set: "fst ` set (dict_set k v d) = insert k (fst ` set d)"
  by (induction k v d rule: dict_set.induct) auto

lemma distinct_dict_set: "distinct (map fst d) \<Longrightarrow> distinct (map fst (dict_set k v d))"
proof (induction d)
  case Nil
  then show ?case by simp
next
  case (Cons a d)
  have "fst ` set (dict_set k v d) = insert k (fst ` set d)" by (rule keys_dict_set)
  with Cons show ?case by (cases a) auto
qed

lemma dict_of_snoc: "dict_of key (xs @ [x]) = (dict_of key xs)(key x \<mapsto> x)"
  by (simp add: dict_of_def)

lemma dict_of_find: "dict_of key xs k = find (\<lambda>x. key x = k) (rev xs)"
  by (induction xs rule: rev_induct) (simp_all add: dict_of_snoc, simp add: dict_of_def)

lemma dict_of_Some: "dict_of key xs k = Some x \<Longrightarrow> x \<in> set xs \<and> key x = k"
  by (auto simp: dict_of_find dest: find_mem)

lemma dict_of_dom: "(dict_of key xs k \<noteq> None) = (k \<in> key ` set xs)"
  by (auto simp: dict_of_find find_None_iff)

lemma fold_build_step_fst:
  "fst (fold (build_step inp flags) secs acc)
     = fold (\<lambda>s d. dict_set (sec_id s) (section_options inp flags s) d) secs (fst acc)"
  by (induction secs arbitrary: acc) (simp_all add: build_step_def Let_def)

lemma fold_build_step_snd:
  "snd (fold (build_step inp flags) secs acc)
     = snd acc @ map (\<lambda>s. no_feasible_options_error (sec_id s))
                     (filter (\<lambda>s. section_options inp flags s = []) secs)"
  by (induction secs arbitrary: acc) (simp_all add: build_step_def Let_def)

lemma map_of_fold_dict_set:
  "map_of (fold (\<lambda>s d. dict_set (k s) (f s) d) xs d0) key
     = (case find (\<lambda>s. k s = key) (rev xs) of Some s \<Rightarrow> Some (f s) | None \<Rightarrow> map_of d0 key)"
  by (induction xs arbitrary: d0) (auto simp: map_of_dict_set find_app split: option.splits)

lemma distinct_fold_dict_set:
  "distinct (map fst d0) \<Longrightarrow> distinct (map fst (fold (\<lambda>s d. dict_set (k s) (f s) d) xs d0))"
  by (induction xs arbitrary: d0) (simp_all add: distinct_dict_set)

lemma keys_fold_dict_set:
  "fst ` set (fold (\<lambda>s d. dict_set (k s) (f s) d) xs d0) = k ` set xs \<union> fst ` set d0"
  by (induction xs arbitrary: d0) (auto simp: keys_dict_set)

lemma build_options_distinct: "distinct (map fst (fst (build_options inp flags)))"
  by (simp add: build_options_def fold_build_step_fst distinct_fold_dict_set)

lemma build_options_keys: "fst ` set (fst (build_options inp flags)) = sec_id ` set (sections inp)"
  by (simp add: build_options_def fold_build_step_fst keys_fold_dict_set)

lemma build_options_lookup:
  "map_of (fst (build_options inp flags)) sid
     = map_option (section_options inp flags) (find (\<lambda>s. sec_id s = sid) (rev (sections inp)))"
  by (simp add: build_options_def fold_build_step_fst map_of_fold_dict_set split: option.splits)

lemma build_options_errors:
  "snd (build_options inp flags)
     = map (\<lambda>s. no_feasible_options_error (sec_id s))
           (filter (\<lambda>s. section_options inp flags s = []) (sections inp))"
  by (simp add: build_options_def fold_build_step_snd)

lemma build_options_entry:
  assumes "(sid, opts) \<in> set (fst (build_options inp flags))"
  shows "\<exists>s \<in> set (sections inp). sec_id s = sid \<and> opts = section_options inp flags s"
proof -
  have "map_of (fst (build_options inp flags)) sid = Some opts"
    using assms build_options_distinct [of inp flags] by simp
  then obtain s where f: "find (\<lambda>s. sec_id s = sid) (rev (sections inp)) = Some s"
      and o: "opts = section_options inp flags s"
    by (auto simp: build_options_lookup)
  from find_mem [OF f] have "s \<in> set (sections inp)" and "sec_id s = sid" by simp_all
  with o show ?thesis by blast
qed

lemma section_options_member:
  assumes "opt \<in> set (section_options inp flags s)"
  shows "\<exists>pattern room.
        opt_pattern opt \<in> set (allowed_meeting_patterns s)
      \<and> pattern_by_id inp (opt_pattern opt) = Some pattern
      \<and> opt_slots opt \<in> set (compatible_timeslot_sets pattern)
      \<and> \<not> list_ex (\<lambda>slot. slot \<in> blocked_times_global inp flags) (opt_slots opt)
      \<and> \<not> lock_rejects_slots (locked_by_section inp flags (sec_id s)) (opt_slots opt)
      \<and> room \<in> set (available_rooms inp flags s)
      \<and> \<not> lock_rejects_room (locked_by_section inp flags (sec_id s)) room
      \<and> opt_room opt = room_id room
      \<and> opt_waste opt = capacity room - expected_enrollment s"
proof -
  from assms obtain pid pattern ts room where
        "pid \<in> set (allowed_meeting_patterns s)" "Some pattern = pattern_by_id inp pid"
        "ts \<in> set (compatible_timeslot_sets pattern)"
        "\<not> list_ex (\<lambda>slot. slot \<in> blocked_times_global inp flags) ts"
        "\<not> lock_rejects_slots (locked_by_section inp flags (sec_id s)) ts"
        "room \<in> set (available_rooms inp flags s)"
        "\<not> lock_rejects_room (locked_by_section inp flags (sec_id s)) room"
        "opt = (pid, ts, room_id room, capacity room - expected_enrollment s)"
    by (auto simp: section_options_def Let_def split: option.splits if_splits)
  then show ?thesis
    by (auto simp: opt_pattern_def opt_slots_def opt_room_def opt_waste_def dest: sym)
qed

lemma available_rooms_default:
  "room \<in> set (available_rooms inp default_flags s) \<longleftrightarrow>
     room \<in> set (rooms inp)
   \<and> expected_enrollment s \<le> capacity room
   \<and> set (room_requirements s) \<subseteq> set (features room)
   \<and> (\<forall>g. crosslist_group_id s = Some g \<and> g \<noteq> [] \<longrightarrow>
          spec_carried_total (sections inp) g \<le> capacity room)"
  by (auto simp: available_rooms_def Let_def default_flags_def has_required_features_def
                 list_all_iff crosslist_totals_get split: option.splits)

lemma blocked_default:
  "list_ex (\<lambda>slot. slot \<in> blocked_times_global inp default_flags) ts
     = list_ex (spec_globally_blocked inp) ts"
  by (auto simp: blocked_times_global_def default_flags_def spec_globally_blocked_def list_ex_iff)

lemma locked_default: "locked_by_section inp default_flags sid = spec_section_lock inp sid"
  by (simp add: locked_by_section_def default_flags_def spec_section_lock_def dict_of_find)

text \<open>
  C7 (as amended). Every option that \<open>_build_options\<close> emits with all relaxation flags
  false comes from a section and a room of the input such that: the room's capacity is
  at least the section's expected enrollment; the section's required features are among
  the room's; no timeslot of the option is globally blocked; when the section's locked
  assignment has a non-empty \<open>fixed_timeslot_set\<close>, the option's timeslot set equals it
  as a set; when it has a non-empty \<open>fixed_room\<close>, the option's room is that room; when
  the section carries a non-empty \<open>crosslist_group_id\<close>, the room's capacity is at least
  the summed expected enrollment of the sections carrying that id; and the cached
  \<open>room_waste\<close> is the room's capacity minus the section's expected enrollment.
\<close>

theorem build_options_invariants:
  assumes "(sid, opts) \<in> set (fst (build_options inp default_flags))"
      and "opt \<in> set opts"
  shows "\<exists>section \<in> set (sections inp). \<exists>room \<in> set (rooms inp).
           sec_id section = sid \<and> room_id room = opt_room opt
         \<and> expected_enrollment section \<le> capacity room
         \<and> set (room_requirements section) \<subseteq> set (features room)
         \<and> \<not> list_ex (spec_globally_blocked inp) (opt_slots opt)
         \<and> (\<forall>lock fixed. spec_section_lock inp sid = Some lock
                \<and> fixed_timeslot_set lock = Some fixed \<and> fixed \<noteq> []
              \<longrightarrow> set (opt_slots opt) = set fixed)
         \<and> (\<forall>lock fixed. spec_section_lock inp sid = Some lock
                \<and> fixed_room lock = Some fixed \<and> fixed \<noteq> []
              \<longrightarrow> opt_room opt = fixed)
         \<and> (\<forall>g. crosslist_group_id section = Some g \<and> g \<noteq> []
              \<longrightarrow> spec_carried_total (sections inp) g \<le> capacity room)
         \<and> opt_waste opt = capacity room - expected_enrollment section"
proof -
  from build_options_entry [OF assms(1)] obtain s
    where s: "s \<in> set (sections inp)" "sec_id s = sid" "opts = section_options inp default_flags s"
    by blast
  with assms(2) have "opt \<in> set (section_options inp default_flags s)" by simp
  then obtain pattern room where
        nb: "\<not> list_ex (\<lambda>slot. slot \<in> blocked_times_global inp default_flags) (opt_slots opt)"
    and ls: "\<not> lock_rejects_slots (locked_by_section inp default_flags (sec_id s)) (opt_slots opt)"
    and av: "room \<in> set (available_rooms inp default_flags s)"
    and lr: "\<not> lock_rejects_room (locked_by_section inp default_flags (sec_id s)) room"
    and rm: "opt_room opt = room_id room"
    and ws: "opt_waste opt = capacity room - expected_enrollment s"
    using section_options_member by blast
  from ls have A: "\<forall>lock fixed. spec_section_lock inp sid = Some lock
                \<and> fixed_timeslot_set lock = Some fixed \<and> fixed \<noteq> []
              \<longrightarrow> set (opt_slots opt) = set fixed"
    by (auto simp: lock_rejects_slots_def locked_default s(2))
  from lr rm have B: "\<forall>lock fixed. spec_section_lock inp sid = Some lock
                \<and> fixed_room lock = Some fixed \<and> fixed \<noteq> []
              \<longrightarrow> opt_room opt = fixed"
    by (auto simp: lock_rejects_room_def locked_default s(2))
  from av have C: "room \<in> set (rooms inp)" "expected_enrollment s \<le> capacity room"
      "set (room_requirements s) \<subseteq> set (features room)"
      "\<forall>g. crosslist_group_id s = Some g \<and> g \<noteq> [] \<longrightarrow>
          spec_carried_total (sections inp) g \<le> capacity room"
    unfolding available_rooms_default by blast+
  from nb have D: "\<not> list_ex (spec_globally_blocked inp) (opt_slots opt)"
    by (simp add: blocked_default)
  have "sec_id s = sid \<and> room_id room = opt_room opt
         \<and> expected_enrollment s \<le> capacity room
         \<and> set (room_requirements s) \<subseteq> set (features room)
         \<and> \<not> list_ex (spec_globally_blocked inp) (opt_slots opt)
         \<and> (\<forall>lock fixed. spec_section_lock inp sid = Some lock
                \<and> fixed_timeslot_set lock = Some fixed \<and> fixed \<noteq> []
              \<longrightarrow> set (opt_slots opt) = set fixed)
         \<and> (\<forall>lock fixed. spec_section_lock inp sid = Some lock
                \<and> fixed_room lock = Some fixed \<and> fixed \<noteq> []
              \<longrightarrow> opt_room opt = fixed)
         \<and> (\<forall>g. crosslist_group_id s = Some g \<and> g \<noteq> []
              \<longrightarrow> spec_carried_total (sections inp) g \<le> capacity room)
         \<and> opt_waste opt = capacity room - expected_enrollment s"
    using s(2) C(2-4) A B D rm ws by (intro conjI) simp_all
  with s(1) C(1) show ?thesis by (intro bexI [of _ s] bexI [of _ room])
qed

theorem build_options_invariants_witness:
  "(''S1'', [(''P1'', [''T1''], ''R1'', 25)]) \<in> set (fst (build_options ex_input default_flags))
   \<and> spec_section_lock ex_input ''S1''
       = Some \<lparr> lock_section_id = ''S1'', fixed_timeslot_set = Some [''T1''],
                 fixed_room = Some ''R1'' \<rparr>
   \<and> (\<exists>section \<in> set (sections ex_input). \<exists>room \<in> set (rooms ex_input).
           sec_id section = ''S1'' \<and> room_id room = ''R1''
         \<and> expected_enrollment section \<le> capacity room
         \<and> set (room_requirements section) \<subseteq> set (features room)
         \<and> \<not> list_ex (spec_globally_blocked ex_input) [''T1'']
         \<and> crosslist_group_id section = Some ''G1''
         \<and> spec_carried_total (sections ex_input) ''G1'' \<le> capacity room
         \<and> 25 = capacity room - expected_enrollment section)"
  using build_options_invariants [of "''S1''" "[(''P1'', [''T1''], ''R1'', 25)]" ex_input
          "(''P1'', [''T1''], ''R1'', 25)"]
  by (simp add: ex_options)
     (simp add: ex_input_def spec_section_lock_def mk_section_def ex_room_def
           opt_room_def opt_slots_def opt_waste_def spec_carried_total_def)

text \<open>
  The claim as stated fails for a lock whose fields are present but empty: the source
  tests them for truth, so the lock below pins nothing and the option is emitted.
\<close>

theorem lock_pin_counterexample:
  "build_options cx_lock_input default_flags = ([(''S1'', [(''P1'', [''T1''], ''R1'', 10)])], [])
   \<and> spec_section_lock cx_lock_input ''S1''
       = Some \<lparr> lock_section_id = ''S1'', fixed_timeslot_set = Some [], fixed_room = Some [] \<rparr>
   \<and> set (opt_slots (''P1'', [''T1''], ''R1'', 10)) \<noteq> set []
   \<and> opt_room (''P1'', [''T1''], ''R1'', 10) \<noteq> []"
  by (simp add: cx_lock_options)
     (simp add: cx_lock_input_def spec_section_lock_def opt_slots_def opt_room_def)

section \<open>Errors of option generation and the short circuit\<close>

text \<open>
  C8 (as amended). \<open>_build_options\<close> appends a \<open>no_feasible_options\<close> error for a section
  if and only if the option list generated for that section is empty (the errors are
  exactly those of the sections without options, in input order); the returned map has an
  entry for the id of every input section, which holds the option list of the last
  section listed with that id; and whenever the combined list of pre-validation and
  option-generation errors is non-empty, \<open>_solve_schedule\<close> returns the error payload with
  exactly that list, whatever the solver is: it is not consulted.
\<close>

theorem build_options_errors_short_circuit:
  "snd (build_options inp flags)
     = map (\<lambda>s. no_feasible_options_error (sec_id s))
           (filter (\<lambda>s. section_options inp flags s = []) (sections inp))
   \<and> fst ` set (fst (build_options inp flags)) = sec_id ` set (sections inp)
   \<and> (\<forall>s \<in> set (sections inp). \<exists>s'. spec_last_section inp (sec_id s) = Some s'
          \<and> map_of (fst (build_options inp flags)) (sec_id s) = Some (section_options inp flags s'))
   \<and> (\<forall>solve errors.
         errors = validate_crosslist_capacity (crosslist_groups inp) (sections inp) (rooms inp)
                  @ snd (build_options inp default_flags)
         \<and> errors \<noteq> []
        \<longrightarrow> solve_schedule solve inp = Inr (ErrorResponse errors))"
proof (intro conjI)
  show "snd (build_options inp flags)
     = map (\<lambda>s. no_feasible_options_error (sec_id s))
           (filter (\<lambda>s. section_options inp flags s = []) (sections inp))"
    by (rule build_options_errors)
  show "fst ` set (fst (build_options inp flags)) = sec_id ` set (sections inp)"
    by (rule build_options_keys)
  show "\<forall>s \<in> set (sections inp). \<exists>s'. spec_last_section inp (sec_id s) = Some s'
          \<and> map_of (fst (build_options inp flags)) (sec_id s) = Some (section_options inp flags s')"
  proof
    fix s assume "s \<in> set (sections inp)"
    then have "find (\<lambda>s'. sec_id s' = sec_id s) (rev (sections inp)) \<noteq> None"
      by (auto simp: find_None_iff)
    then show "\<exists>s'. spec_last_section inp (sec_id s) = Some s'
          \<and> map_of (fst (build_options inp flags)) (sec_id s) = Some (section_options inp flags s')"
      by (auto simp: spec_last_section_def build_options_lookup)
  qed
  show "\<forall>solve errors.
         errors = validate_crosslist_capacity (crosslist_groups inp) (sections inp) (rooms inp)
                  @ snd (build_options inp default_flags)
         \<and> errors \<noteq> []
        \<longrightarrow> solve_schedule solve inp = Inr (ErrorResponse errors)"
    by (simp add: solve_schedule_def Let_def)
qed

theorem build_options_errors_short_circuit_witness:
  "snd (build_options ex_error_input default_flags) = [no_feasible_options_error ''S1'']
   \<and> map_of (fst (build_options ex_error_input default_flags)) ''S1'' = Some []
   \<and> solve_schedule (\<lambda>m. None) ex_error_input
       = Inr (ErrorResponse [no_feasible_options_error ''S1''])
   \<and> solve_schedule (\<lambda>m. Some (\<lambda>v. 1)) ex_error_input
       = Inr (ErrorResponse [no_feasible_options_error ''S1''])"
  using build_options_errors_short_circuit [of ex_error_input default_flags]
  by (simp add: ex_error_options ex_error_validate)

text \<open>
  The claim as stated fails when two sections share an id: the first gets the error, yet
  the entry of the map under its id is the non-empty list of the second.
\<close>

theorem duplicate_section_id_counterexample:
  "sections cx_dup_input = [mk_section ''S1'' ''I1'' 20 [] None,
                            mk_section ''S1'' ''I1'' 20 [''P1''] None]
   \<and> section_options cx_dup_input default_flags (mk_section ''S1'' ''I1'' 20 [] None) = []
   \<and> snd (build_options cx_dup_input default_flags) = [no_feasible_options_error ''S1'']
   \<and> map_of (fst (build_options cx_dup_input default_flags)) ''S1''
       = Some [(''P1'', [''T1''], ''R1'', 10)]"
  by (simp add: cx_dup_options) (simp add: cx_dup_input_def option_defs)

section \<open>The option variables\<close>

lemma enum_item_mem:
  "(sid', i, opt) \<in> (\<lambda>io. (sid, fst io, snd io)) ` set (enumerate 0 opts)
     \<longleftrightarrow> sid' = sid \<and> i < length opts \<and> opt = opts ! i"
  by (auto simp: in_set_enumerate_eq image_iff)

lemma option_items_mem:
  "(sid, i, opt) \<in> set (option_items obs) \<longleftrightarrow>
     (\<exists>opts. (sid, opts) \<in> set obs \<and> i < length opts \<and> opt = opts ! i)"
proof -
  have "(sid, i, opt) \<in> set (option_items obs) \<longleftrightarrow>
          (\<exists>e \<in> set obs. (sid, i, opt) \<in> (\<lambda>io. (fst e, fst io, snd io)) ` set (enumerate 0 (snd e)))"
    by (simp add: option_items_def)
  also have "\<dots> \<longleftrightarrow> (\<exists>e \<in> set obs. sid = fst e \<and> i < length (snd e) \<and> opt = snd e ! i)"
    by (simp only: enum_item_mem)
  also have "\<dots> \<longleftrightarrow> (\<exists>opts. (sid, opts) \<in> set obs \<and> i < length opts \<and> opt = opts ! i)"
  proof
    assume "\<exists>e \<in> set obs. sid = fst e \<and> i < length (snd e) \<and> opt = snd e ! i"
    then obtain e where "e \<in> set obs" "sid = fst e" "i < length (snd e)" "opt = snd e ! i"
      by blast
    then have "(sid, snd e) \<in> set obs \<and> i < length (snd e) \<and> opt = snd e ! i" by simp
    then show "\<exists>opts. (sid, opts) \<in> set obs \<and> i < length opts \<and> opt = opts ! i" ..
  next
    assume "\<exists>opts. (sid, opts) \<in> set obs \<and> i < length opts \<and> opt = opts ! i"
    then obtain opts where "(sid, opts) \<in> set obs" "i < length opts" "opt = opts ! i" by blast
    then show "\<exists>e \<in> set obs. sid = fst e \<and> i < length (snd e) \<and> opt = snd e ! i"
      by (intro bexI [of _ "(sid, opts)"]) simp_all
  qed
  finally show ?thesis .
qed





section \<open>Soft-lock terms of the objective\<close>

lemma soft_lock_by_section_spec: "soft_lock_by_section inp sid = spec_section_soft_lock inp sid"
  by (simp add: soft_lock_by_section_def spec_section_soft_lock_def dict_of_find)

lemma weighted_base_Finite: "weight lock = Finite w \<Longrightarrow> weighted_base lock = py_result w"
  by (simp add: weighted_base_def SOFT_LOCK_BASE_WEIGHT_def)

lemma weighted_base_other:
  "weight lock = PosInf \<Longrightarrow> weighted_base lock = PosInf"
  "weight lock = NegInf \<Longrightarrow> weighted_base lock = NegInf"
  "weight lock = NaN \<Longrightarrow> weighted_base lock = NaN"
  by (simp_all add: weighted_base_def SOFT_LOCK_BASE_WEIGHT_def)

lemma spec_mismatches_code:
  "spec_mismatches lock opt
     = (if time_mismatch lock opt then 1 else 0) + (if room_mismatch lock opt then 1 else 0)"
  by (auto simp: spec_mismatches_def time_mismatch_def room_mismatch_def split: option.splits)

lemma soft_penalty_spec: "soft_penalty lock opt = spec_accumulated lock opt"
proof (cases "weight lock")
  case (Finite w)
  then show ?thesis
    by (simp add: soft_penalty_def Let_def spec_accumulated_def spec_mismatches_code
          weighted_base_Finite py_add_zero py_add_twice SOFT_LOCK_BASE_WEIGHT_def)
next
  case PosInf
  then show ?thesis
    by (simp add: soft_penalty_def Let_def spec_accumulated_def spec_mismatches_code
          weighted_base_other)
next
  case NegInf
  then show ?thesis
    by (simp add: soft_penalty_def Let_def spec_accumulated_def spec_mismatches_code
          weighted_base_other)
next
  case NaN
  then show ?thesis
    by (simp add: soft_penalty_def Let_def spec_accumulated_def spec_mismatches_code
          weighted_base_other)
qed

lemma soft_lock_term_spec:
  assumes "spec_section_soft_lock inp (fst item) = Some lock"
  shows "soft_lock_term inp item
           = spec_soft_term (item_var item) (spec_accumulated lock (item_option item))"
  using assms
  by (cases "spec_accumulated lock (item_option item)")
     (simp_all add: soft_lock_term_def soft_lock_by_section_spec soft_penalty_spec)

lemma soft_lock_term_none:
  "spec_section_soft_lock inp (fst item) = None \<Longrightarrow> soft_lock_term inp item = Inr []"
  by (simp add: soft_lock_term_def soft_lock_by_section_spec)

lemma spec_soft_term_cases:
  "spec_soft_term v p = Inl OverflowError \<and> p = PosInf
   \<or> spec_soft_term v p = Inr [] \<and> spec_soft_coefficient p = 0 \<and> p \<noteq> PosInf
   \<or> spec_soft_term v p = Inr [(v, spec_soft_coefficient p)] \<and> 0 \<le> spec_soft_coefficient p
       \<and> p \<noteq> PosInf"
  by (cases p) (simp_all add: py_trunc_def)

lemma soft_lock_term_cases:
  "soft_lock_term inp item = Inl OverflowError
   \<or> soft_lock_term inp item = Inr []
   \<or> (\<exists>c. 0 \<le> c \<and> soft_lock_term inp item = Inr [(item_var item, c)])"
proof (cases "spec_section_soft_lock inp (fst item)")
  case None
  then show ?thesis by (simp add: soft_lock_term_none)
next
  case (Some lock)
  from spec_soft_term_cases [of "item_var item" "spec_accumulated lock (item_option item)"]
  show ?thesis unfolding soft_lock_term_spec [OF Some] by blast
qed


lemma soft_lock_term_nonneg:
  "t \<in> set (terms_of (soft_lock_term inp item)) \<Longrightarrow> 0 \<le> snd t"
  using soft_lock_term_cases [of inp item] by (auto simp: terms_of_def)

lemma soft_lock_terms_Inr:
  "soft_lock_terms inp items = Inr terms
     \<Longrightarrow> terms = concat (map (\<lambda>item. terms_of (soft_lock_term inp item)) items)
         \<and> (\<forall>item \<in> set items. soft_lock_term inp item \<noteq> Inl OverflowError)"
  by (induction items arbitrary: terms) (auto simp: terms_of_def split: sum.splits)

lemma soft_lock_terms_Inl:
  "soft_lock_terms inp items = Inl e
     \<Longrightarrow> e = OverflowError \<and> (\<exists>item \<in> set items. soft_lock_term inp item = Inl OverflowError)"
proof (induction items)
  case Nil
  then show ?case by simp
next
  case (Cons item items)
  from soft_lock_term_cases [of inp item] Cons show ?case
    by (auto split: sum.splits)
qed

lemma soft_lock_terms_returns:
  "(\<exists>terms. soft_lock_terms inp items = Inr terms)
     \<longleftrightarrow> (\<forall>item \<in> set items. soft_lock_term inp item \<noteq> Inl OverflowError)"
proof
  assume "\<exists>terms. soft_lock_terms inp items = Inr terms"
  then show "\<forall>item \<in> set items. soft_lock_term inp item \<noteq> Inl OverflowError"
    using soft_lock_terms_Inr by blast
next
  assume a: "\<forall>item \<in> set items. soft_lock_term inp item \<noteq> Inl OverflowError"
  show "\<exists>terms. soft_lock_terms inp items = Inr terms"
  proof (cases "soft_lock_terms inp items")
    case (Inl e)
    from soft_lock_terms_Inl [OF this] a show ?thesis by blast
  next
    case (Inr terms)
    then show ?thesis by blast
  qed
qed




lemma ex_overflow_options:
  "build_options (ex_overflow_input w) default_flags
     = ([(''S1'', [(''P1'', [''T1''], ''R1'', 10)])], [])"
  by (simp add: ex_overflow_input_def option_defs)

lemma ex_overflow_items:
  "option_items (fst (build_options (ex_overflow_input w) default_flags))
     = [(''S1'', 0, (''P1'', [''T1''], ''R1'', 10))]"
  by (simp add: ex_overflow_options item_defs)

lemma ex_overflow_lock:
  "spec_section_soft_lock (ex_overflow_input w) ''S1''
     = Some (ex_soft_lock ''S1'' (Some [''T2'']) (Some ''R2'') w)"
  by (simp add: ex_overflow_input_def spec_section_soft_lock_def ex_soft_lock_def)

lemma ex_overflow_mismatches:
  "spec_mismatches (ex_soft_lock ''S1'' (Some [''T2'']) (Some ''R2'') w)
     (''P1'', [''T1''], ''R1'', 10) = 2"
  by (simp add: spec_mismatches_def ex_soft_lock_def item_defs)

lemma ex_soft_lock_weight: "weight (ex_soft_lock sid ts r w) = w"
  by (simp add: ex_soft_lock_def)

lemma ex_overflow_accumulated:
  "spec_accumulated (ex_soft_lock ''S1'' (Some [''T2'']) (Some ''R2'') (Finite (2 ^ 1023)))
     (''P1'', [''T1''], ''R1'', 10) = PosInf"
  "spec_accumulated (ex_soft_lock ''S1'' (Some [''T2'']) (Some ''R2'') PosInf)
     (''P1'', [''T1''], ''R1'', 10) = PosInf"
  by (simp_all add: spec_accumulated_def ex_overflow_mismatches ex_soft_lock_weight
        py_result_def FLOAT_MAX_def SOFT_LOCK_BASE_WEIGHT_def)




text \<open>
  C9. The soft-lock terms of the objective are never negative. For every option of a
  section with a soft lock, the term is appended exactly when the accumulated penalty is
  strictly positive, with the truncated penalty as its coefficient; so a soft lock of
  weight at most 0 contributes nothing, and one whose accumulated penalty truncates to 0
  (such as a single miss with a weight strictly between 0 and 1) contributes the
  coefficient 0. The loop over the soft locks returns its terms unless some option has
  the accumulated penalty \<open>+inf\<close>, and raises \<open>OverflowError\<close> then.
\<close>

theorem soft_lock_terms_nonnegative:
  "(\<forall>terms. soft_lock_terms inp items = Inr terms \<longrightarrow> (\<forall>t \<in> set terms. 0 \<le> snd t))
   \<and> ((\<exists>terms. soft_lock_terms inp items = Inr terms)
        \<longleftrightarrow> (\<forall>item \<in> set items. \<forall>lock. spec_section_soft_lock inp (fst item) = Some lock
                \<longrightarrow> spec_accumulated lock (item_option item) \<noteq> PosInf))
   \<and> ((\<exists>terms. soft_lock_terms inp items = Inr terms)
        \<or> soft_lock_terms inp items = Inl OverflowError)
   \<and> (\<forall>item \<in> set items. \<forall>lock. spec_section_soft_lock inp (fst item) = Some lock \<longrightarrow>
         soft_lock_term inp item
           = spec_soft_term (item_var item) (spec_accumulated lock (item_option item))
       \<and> (weight lock = NegInf \<or> (\<exists>w. weight lock = Finite w \<and> w \<le> 0)
            \<longrightarrow> soft_lock_term inp item = Inr [])
       \<and> (\<forall>p. spec_accumulated lock (item_option item) = Finite p \<and> 0 < p \<and> py_trunc p = 0
            \<longrightarrow> soft_lock_term inp item = Inr [(item_var item, 0)])
       \<and> (\<forall>w. spec_mismatches lock (item_option item) = 1 \<and> weight lock = Finite w
               \<and> 0 < w \<and> w < 1
            \<longrightarrow> soft_lock_term inp item = Inr [(item_var item, 0)]))"
proof -
  have A: "\<forall>t \<in> set terms. 0 \<le> snd t" if "soft_lock_terms inp items = Inr terms" for terms
    using soft_lock_terms_Inr [OF that] soft_lock_term_nonneg by auto
  have over: "soft_lock_term inp item = Inl OverflowError
                \<longleftrightarrow> (\<forall>lock. spec_section_soft_lock inp (fst item) = Some lock
                       \<longrightarrow> spec_accumulated lock (item_option item) = PosInf)
                    \<and> spec_section_soft_lock inp (fst item) \<noteq> None" for item
  proof (cases "spec_section_soft_lock inp (fst item)")
    case None
    then show ?thesis by (simp add: soft_lock_term_none)
  next
    case (Some lock)
    from spec_soft_term_cases [of "item_var item" "spec_accumulated lock (item_option item)"]
    show ?thesis unfolding soft_lock_term_spec [OF Some] using Some by auto
  qed
  have B: "(\<exists>terms. soft_lock_terms inp items = Inr terms)
        \<longleftrightarrow> (\<forall>item \<in> set items. \<forall>lock. spec_section_soft_lock inp (fst item) = Some lock
                \<longrightarrow> spec_accumulated lock (item_option item) \<noteq> PosInf)"
    unfolding soft_lock_terms_returns over by auto
  have C: "(\<exists>terms. soft_lock_terms inp items = Inr terms)
        \<or> soft_lock_terms inp items = Inl OverflowError"
  proof (cases "soft_lock_terms inp items")
    case (Inl e)
    from soft_lock_terms_Inl [OF this] Inl show ?thesis by simp
  next
    case (Inr terms)
    then show ?thesis by blast
  qed
  have D: "soft_lock_term inp item
           = spec_soft_term (item_var item) (spec_accumulated lock (item_option item))
       \<and> (weight lock = NegInf \<or> (\<exists>w. weight lock = Finite w \<and> w \<le> 0)
            \<longrightarrow> soft_lock_term inp item = Inr [])
       \<and> (\<forall>p. spec_accumulated lock (item_option item) = Finite p \<and> 0 < p \<and> py_trunc p = 0
            \<longrightarrow> soft_lock_term inp item = Inr [(item_var item, 0)])
       \<and> (\<forall>w. spec_mismatches lock (item_option item) = 1 \<and> weight lock = Finite w
               \<and> 0 < w \<and> w < 1
            \<longrightarrow> soft_lock_term inp item = Inr [(item_var item, 0)])"
    if l: "spec_section_soft_lock inp (fst item) = Some lock"
    for item :: "string \<times> nat \<times> sched_option" and lock
  proof (intro conjI allI impI)
    let ?p = "spec_accumulated lock (item_option item)"
    show eq: "soft_lock_term inp item = spec_soft_term (item_var item) ?p"
      using l by (rule soft_lock_term_spec)
    {
      assume "weight lock = NegInf \<or> (\<exists>w. weight lock = Finite w \<and> w \<le> 0)"
      then show "soft_lock_term inp item = Inr []"
      proof
        assume "weight lock = NegInf"
        then show ?thesis by (simp add: eq spec_accumulated_def)
      next
        assume "\<exists>w. weight lock = Finite w \<and> w \<le> 0"
        then obtain w where w: "weight lock = Finite w" "w \<le> 0" by blast
        let ?r = "real (spec_mismatches lock (item_option item))
                    * (w * real_of_int SOFT_LOCK_BASE_WEIGHT)"
        from w(2) have r: "?r \<le> 0"
          by (simp add: SOFT_LOCK_BASE_WEIGHT_def mult_nonneg_nonpos)
        have "spec_soft_term (item_var item) (py_result ?r) = Inr []"
          using r FLOAT_MAX_pos by (simp add: py_result_def)
        with w(1) show ?thesis by (simp add: eq spec_accumulated_def)
      qed
    }
    {
      fix p assume "?p = Finite p \<and> 0 < p \<and> py_trunc p = 0"
      then show "soft_lock_term inp item = Inr [(item_var item, 0)]" by (simp add: eq)
    }
    {
      fix w
      assume a: "spec_mismatches lock (item_option item) = 1 \<and> weight lock = Finite w
                 \<and> 0 < w \<and> w < 1"
      then have "\<bar>w\<bar> \<le> 2 ^ 53" by simp
      then have "py_result w = Finite w" by (rule py_result_small)
      with a have p: "?p = Finite w"
        by (simp add: spec_accumulated_def SOFT_LOCK_BASE_WEIGHT_def)
      from a have "\<lfloor>w\<rfloor> = 0" by (simp add: floor_eq_iff)
      with a p show "soft_lock_term inp item = Inr [(item_var item, 0)]"
        by (simp add: eq py_trunc_def)
    }
  qed
  from A B C D show ?thesis by blast
qed

theorem soft_lock_terms_nonnegative_witness:
  "soft_lock_terms ex_soft_input (option_items (fst (build_options ex_soft_input default_flags)))
     = Inr [(OptVar ''S1'' 0, 0), (OptVar ''S3'' 0, 3)]
   \<and> spec_section_soft_lock ex_soft_input ''S2''
        = Some (ex_soft_lock ''S2'' None (Some ''R2'') (Finite (-3)))
   \<and> soft_lock_term ex_soft_input (''S2'', 0, (''P2'', [''T2''], ''R1'', 10)) = Inr []
   \<and> spec_section_soft_lock ex_soft_input ''S1''
        = Some (ex_soft_lock ''S1'' None (Some ''R2'') (Finite (1/2)))
   \<and> spec_mismatches (ex_soft_lock ''S1'' None (Some ''R2'') (Finite (1/2)))
        (''P1'', [''T1''], ''R1'', 10) = 1
   \<and> soft_lock_term ex_soft_input (''S1'', 0, (''P1'', [''T1''], ''R1'', 10))
        = Inr [(OptVar ''S1'' 0, 0)]
   \<and> spec_section_soft_lock (ex_overflow_input PosInf) ''S1''
        = Some (ex_soft_lock ''S1'' (Some [''T2'']) (Some ''R2'') PosInf)
   \<and> soft_lock_terms (ex_overflow_input PosInf)
        (option_items (fst (build_options (ex_overflow_input PosInf) default_flags)))
        = Inl OverflowError"
proof -
  let ?items = "option_items (fst (build_options ex_soft_input default_flags))"
  let ?i1 = "(''S1'', 0::nat, (''P1'', [''T1''], ''R1'', 10::int))"
  let ?i2 = "(''S2'', 0::nat, (''P2'', [''T2''], ''R1'', 10::int))"
  let ?l1 = "ex_soft_lock ''S1'' None (Some ''R2'') (Finite (1/2))"
  let ?l2 = "ex_soft_lock ''S2'' None (Some ''R2'') (Finite (-3))"
  let ?inf = "ex_overflow_input PosInf"
  let ?infitems = "option_items (fst (build_options ?inf default_flags))"
  let ?linf = "ex_soft_lock ''S1'' (Some [''T2'']) (Some ''R2'') PosInf"
  note T = soft_lock_terms_nonnegative [of ex_soft_input ?items]
  note U = soft_lock_terms_nonnegative [of ?inf ?infitems]
  have m1: "?i1 \<in> set ?items" and m2: "?i2 \<in> set ?items"
    by (simp_all add: ex_soft_items)
  have l1: "spec_section_soft_lock ex_soft_input (fst ?i1) = Some ?l1"
   and l2: "spec_section_soft_lock ex_soft_input (fst ?i2) = Some ?l2"
    by (simp_all add: ex_soft_input_def spec_section_soft_lock_def ex_soft_lock_def)
  have w2: "weight ?l2 = NegInf \<or> (\<exists>w. weight ?l2 = Finite w \<and> w \<le> 0)"
    by (simp add: ex_soft_lock_def)
  have w1: "spec_mismatches ?l1 (item_option ?i1) = 1 \<and> weight ?l1 = Finite (1/2)
            \<and> (0::real) < 1/2 \<and> (1/2::real) < 1"
    by (simp add: ex_soft_lock_def spec_mismatches_def item_defs)
  from T m2 l2 w2 have r2: "soft_lock_term ex_soft_input ?i2 = Inr []" by blast
  from T m1 l1 w1 have r1: "soft_lock_term ex_soft_input ?i1 = Inr [(item_var ?i1, 0)]" by blast
  have mi: "?i1 \<in> set ?infitems" unfolding ex_overflow_items by simp
  have li: "spec_section_soft_lock ?inf (fst ?i1) = Some ?linf"
    by (simp add: ex_overflow_lock)
  have ai: "spec_accumulated ?linf (item_option ?i1) = PosInf"
    by (simp add: item_option_def ex_overflow_accumulated)
  from U mi li ai have ri: "soft_lock_terms ?inf ?infitems = Inl OverflowError" by blast
  from r1 r2 l1 l2 w1 ex_soft_terms li ri show ?thesis
    by (simp add: item_var_def item_option_def)
qed

section \<open>A cross-list id without a group\<close>

lemma member_pairs_mem: "(a, b) \<in> set (member_pairs xs) \<Longrightarrow> a \<in> set xs \<and> b \<in> set xs"
  by (induction xs) auto

lemma pair_constraints_vars:
  "c \<in> set (pair_constraints obs grp ab) \<Longrightarrow> v \<in> set (constr_vars c)
     \<Longrightarrow> \<exists>i. v = OptVar (fst ab) i \<or> v = OptVar (snd ab) i"
  by (auto simp: pair_constraints_def split: if_splits)

lemma crosslist_constraints_vars:
  assumes "c \<in> set (crosslist_constraints inp obs)" "OptVar sid i \<in> set (constr_vars c)"
  shows "\<exists>grp \<in> set (crosslist_groups inp). sid \<in> set (clg_member_section_ids grp)"
proof -
  from assms(1) obtain grp ab where g: "grp \<in> set (crosslist_groups inp)"
      and ab: "ab \<in> set (member_pairs (clg_member_section_ids grp))"
      and c: "c \<in> set (pair_constraints obs grp ab)"
    by (auto simp: crosslist_constraints_def)
  from pair_constraints_vars [OF c assms(2)] have "sid = fst ab \<or> sid = snd ab" by auto
  moreover from ab member_pairs_mem [of "fst ab" "snd ab"]
  have "fst ab \<in> set (clg_member_section_ids grp)" "snd ab \<in> set (clg_member_section_ids grp)"
    by simp_all
  ultimately show ?thesis using g by auto
qed

text \<open>
  C10 (as amended). For every section whose non-empty \<open>crosslist_group_id\<close> is the id of
  no group of the input: option generation still filters the rooms by the total expected
  enrollment of all the sections carrying that id (every option's room has at least that
  capacity); the roomshare key computed for the section is its own \<open>sec:<id>\<close>; and a
  cross-list constraint of the model mentions an option variable of the section only if
  some group of the input lists the section's id among its \<open>member_section_ids\<close>, so
  that none does when no group lists it.
\<close>

theorem dangling_crosslist_id:
  assumes "s \<in> set (sections inp)"
      and "crosslist_group_id s = Some g" and "g \<noteq> []"
      and "g \<notin> clg_id ` set (crosslist_groups inp)"
  shows "(\<forall>opt \<in> set (section_options inp default_flags s).
            \<exists>room \<in> set (rooms inp). room_id room = opt_room opt
               \<and> spec_carried_total (sections inp) g \<le> capacity room)
       \<and> roomshare_key inp s = ''sec:'' @ sec_id s
       \<and> (\<forall>c \<in> set (crosslist_constraints inp obs). \<forall>i.
            OptVar (sec_id s) i \<in> set (constr_vars c) \<longrightarrow>
              (\<exists>grp \<in> set (crosslist_groups inp). sec_id s \<in> set (clg_member_section_ids grp)))"
proof (intro conjI ballI allI impI)
  fix opt assume "opt \<in> set (section_options inp default_flags s)"
  from section_options_member [OF this] obtain room
    where "room \<in> set (available_rooms inp default_flags s)" "opt_room opt = room_id room"
    by blast
  with assms(2,3) show "\<exists>room \<in> set (rooms inp). room_id room = opt_room opt
               \<and> spec_carried_total (sections inp) g \<le> capacity room"
    by (auto simp: available_rooms_default)
next
  from assms(4) have "g \<notin> crosslist_roomshare inp"
    by (auto simp: crosslist_roomshare_def)
  with assms(2) show "roomshare_key inp s = ''sec:'' @ sec_id s"
    by (simp add: roomshare_key_def)
next
  fix c i
  assume "c \<in> set (crosslist_constraints inp obs)" "OptVar (sec_id s) i \<in> set (constr_vars c)"
  then show "\<exists>grp \<in> set (crosslist_groups inp). sec_id s \<in> set (clg_member_section_ids grp)"
    by (rule crosslist_constraints_vars)
qed

theorem dangling_crosslist_id_witness:
  "mk_section ''S3'' ''I2'' 10 [''P2''] (Some ''GX'') \<in> set (sections ex_input)
   \<and> ''GX'' \<notin> clg_id ` set (crosslist_groups ex_input)
   \<and> section_options ex_input default_flags (mk_section ''S3'' ''I2'' 10 [''P2''] (Some ''GX''))
        = [(''P2'', [''T2''], ''R1'', 30)]
   \<and> spec_carried_total (sections ex_input) ''GX'' = 10
   \<and> (\<exists>room \<in> set (rooms ex_input). room_id room = ''R1''
          \<and> spec_carried_total (sections ex_input) ''GX'' \<le> capacity room)
   \<and> roomshare_key ex_input (mk_section ''S3'' ''I2'' 10 [''P2''] (Some ''GX'')) = ''sec:S3''"
proof -
  let ?s = "mk_section ''S3'' ''I2'' 10 [''P2''] (Some ''GX'')"
  have a: "?s \<in> set (sections ex_input)" "crosslist_group_id ?s = Some ''GX''" "''GX'' \<noteq> []"
      "''GX'' \<notin> clg_id ` set (crosslist_groups ex_input)"
    by (simp_all add: ex_input_def mk_section_def)
  have o: "section_options ex_input default_flags ?s = [(''P2'', [''T2''], ''R1'', 30)]"
    by (simp add: ex_input_def option_defs)
  have t: "spec_carried_total (sections ex_input) ''GX'' = 10"
    by (simp add: ex_input_def spec_carried_total_def mk_section_def)
  note T = dangling_crosslist_id [OF a, of "fst (build_options ex_input default_flags)"]
  from T have "roomshare_key ex_input ?s = ''sec:'' @ sec_id ?s" by blast
  moreover from T o have "\<exists>room \<in> set (rooms ex_input). room_id room = ''R1''
          \<and> spec_carried_total (sections ex_input) ''GX'' \<le> capacity room"
    by (simp add: opt_room_def)
  ultimately show ?thesis using a o t by (simp add: mk_section_def)
qed

text \<open>
  The claim as stated fails when a group lists the section although the section does not
  carry the group's id: the pairwise constraints are read from \<open>member_section_ids\<close>.
\<close>

theorem listed_member_counterexample:
  "sections cx_dangling_input = [mk_section ''S1'' ''I1'' 20 [''P1''] (Some ''GX''),
                                 mk_section ''S2'' ''I2'' 20 [''P2''] None]
   \<and> ''GX'' \<notin> clg_id ` set (crosslist_groups cx_dangling_input)
   \<and> crosslist_constraints cx_dangling_input
        (fst (build_options cx_dangling_input default_flags))
        = [SumLe [OptVar ''S1'' 0, OptVar ''S2'' 0] 1]"
  by (simp add: cx_dangling_crosslist) (simp add: cx_dangling_input_def)

section \<open>The adjunct day-excess term\<close>








lemma adjunct_ids_distinct:
  assumes "distinct (map inst_id (instructors inp))"
  shows "distinct (map (\<lambda>ii. inst_id (snd ii)) (adjunct_instructors inp))"
proof -
  have "map (\<lambda>ii. inst_id (snd ii)) (enumerate 0 (instructors inp)) = map inst_id (instructors inp)"
    by (simp add: map_snd_enumerate flip: map_map [unfolded comp_def])
  with assms have "distinct (map (\<lambda>ii. inst_id (snd ii)) (enumerate 0 (instructors inp)))"
    by simp
  then show ?thesis
    unfolding adjunct_instructors_def by (rule distinct_map_filter)
qed



lemma those_map_all:
  "those (map f xs) = Some ys \<Longrightarrow> x \<in> set xs \<Longrightarrow> \<exists>y \<in> set ys. f x = Some y"
  by (induction xs arbitrary: ys) (auto split: option.splits)

lemma those_map_eq:
  "those (map f xs) = Some ys \<Longrightarrow> map f xs = map Some ys"
  by (induction xs arbitrary: ys) (auto split: option.splits)





lemma option_terms_Some:
  assumes "option_terms inp items = Some tls" "item \<in> set items"
  shows "\<exists>days. option_days inp (item_option item) = Some days
           \<and> ((item_var item, total_penalty inp (fst item) (item_option item) days),
                day_links inp item days) \<in> set tls"
proof -
  from those_map_all [OF assms [unfolded option_terms_def]]
  obtain tl where "tl \<in> set tls" "option_term inp item = Some tl" by blast
  then show ?thesis
    by (auto simp: option_term_def split: option.splits)
qed



lemma build_solve_model_Inr:
  assumes "build_solve_model inp obs = Inr m"
  obtains tls soft_terms where "option_terms inp (option_items obs) = Some tls"
    and "soft_lock_terms inp (option_items obs) = Inr soft_terms"
    and "cp_vars m = option_var_decls (option_items obs) @ room_usage_vars inp (option_items obs)
                     @ adjunct_vars inp"
    and "cp_constraints m = solve_hard_constraints inp obs @ adjunct_constraints inp
                            @ concat (map snd tls)"
    and "cp_objective m = adjunct_terms inp @ map fst tls @ soft_terms"
  using assms by (auto simp: build_solve_model_def split: option.splits sum.splits)

lemma enumerate_as_map: "enumerate 0 xs = map (\<lambda>i. (i, xs ! i)) [0..<length xs]"
  by (rule nth_equalityI) (simp_all add: nth_enumerate_eq)








section \<open>Room sharing\<close>


























lemma sum_zero: "(\<forall>k \<in> set ks. f k = (0::int)) \<Longrightarrow> sum_list (map f ks) = 0"
  by (induction ks) simp_all







lemma with_room_use_option [simp]:
  "with_room_use inp items x (item_var item) = x (item_var item)"
  by (simp add: with_room_use_def item_var_def)















section \<open>The feasibility check against the optimization model\<close>

lemma cx_sameroom_options:
  "build_options cx_sameroom_input default_flags =
     ([(''S1'', [(''P1'', [''T1''], ''R1'', 25)]),
       (''S2'', [(''P1'', [''T1''], ''R1'', 25)])], [])"
  by (simp add: cx_sameroom_input_def option_defs)

lemma relax_flags_empty: "relax_flags {} = default_flags"
  by (simp add: relax_flags_def default_flags_def)

lemma cx_sameroom_validate:
  "validate_crosslist_capacity (crosslist_groups cx_sameroom_input) (sections cx_sameroom_input)
     (rooms cx_sameroom_input) = []"
  by (simp add: cx_sameroom_input_def validate_crosslist_capacity_def max_room_capacity_def
        option_defs)

lemma cx_sameroom_items:
  "option_items (fst (build_options cx_sameroom_input default_flags)) =
     [(''S1'', 0, (''P1'', [''T1''], ''R1'', 25)),
      (''S2'', 0, (''P1'', [''T1''], ''R1'', 25))]"
  by (simp add: cx_sameroom_options item_defs)

lemma cx_sameroom_check:
  "check_feasible_model cx_sameroom_input {} = Some cx_sameroom_check_model"
  unfolding check_feasible_model_def check_model_def relax_flags_empty cx_sameroom_validate
    cx_sameroom_items
  by (simp add: cx_sameroom_options)
     (simp add: cx_sameroom_input_def model_defs item_defs crosslist_defs
        check_room_constraints_def cx_sameroom_check_model_def mk_section_def ex_room_def
        ex_slot_def ex_instructor_def dict_of_def)

lemma cx_sameroom_hard:
  "solve_hard_model cx_sameroom_input (fst (build_options cx_sameroom_input default_flags))
     = cx_sameroom_hard_model"
  unfolding solve_hard_model_def solve_hard_constraints_def cx_sameroom_items
  by (simp add: cx_sameroom_options)
     (simp add: cx_sameroom_input_def model_defs item_defs crosslist_defs
        cx_sameroom_hard_model_def mk_section_def ex_room_def
        ex_slot_def ex_instructor_def dict_of_def)

lemma cx_sameroom_check_infeasible: "\<not> feasible cx_sameroom_check_model"
proof
  assume "feasible cx_sameroom_check_model"
  then obtain x where "satisfies cx_sameroom_check_model x" by (auto simp: feasible_def)
  then show False
    by (auto simp: satisfies_def cx_sameroom_check_model_def)
qed

lemma cx_sameroom_hard_feasible: "feasible cx_sameroom_hard_model"
proof -
  have "satisfies cx_sameroom_hard_model (\<lambda>v. 1)"
    by (simp add: satisfies_def cx_sameroom_hard_model_def in_domain_def)
  then show ?thesis by (auto simp: feasible_def)
qed

text \<open>
  C3 fails on the code: for two sections of one group that requires the same room, with
  a single room and a single timeslot, the model of \<open>_check_feasible\<close> has no solution
  (its room constraint allows one option per room and timeslot, whatever the sections),
  so \<open>_check_feasible\<close> answers \<open>False\<close> with any solver that only reports solutions, while
  the hard constraints of \<open>_solve_schedule\<close> over the same options have one.
\<close>

theorem check_feasible_rejects_shared_room:
  "check_feasible_model cx_sameroom_input {} = Some cx_sameroom_check_model
   \<and> \<not> feasible cx_sameroom_check_model
   \<and> check_feasible (\<lambda>m. if satisfies m (\<lambda>v. 1) then Some (\<lambda>v. 1) else None)
        cx_sameroom_input {} = False
   \<and> solve_hard_model cx_sameroom_input (fst (build_options cx_sameroom_input default_flags))
       = cx_sameroom_hard_model
   \<and> feasible cx_sameroom_hard_model"
  by (simp add: cx_sameroom_check cx_sameroom_hard cx_sameroom_check_infeasible
        cx_sameroom_hard_feasible check_feasible_def)
     (simp add: satisfies_def cx_sameroom_check_model_def)

section \<open>The objective at an assignment\<close>

lemma nonneg_sum_zero:
  fixes f :: "'a \<Rightarrow> int"
  assumes "\<forall>i \<in> set xs. 0 \<le> f i" "sum_list (map f xs) = 0"
  shows "\<forall>i \<in> set xs. f i = 0"
  using assms
proof (induction xs)
  case Nil
  then show ?case by simp
next
  case (Cons a xs)
  have "0 \<le> sum_list (map f xs)" using Cons.prems(1) by (intro sum_list_nonneg) auto
  with Cons.prems have "f a = 0" "sum_list (map f xs) = 0" by auto
  with Cons show ?case by simp
qed

lemma unique_choice:
  fixes f :: "'a \<Rightarrow> int"
  assumes "\<forall>i \<in> set xs. 0 \<le> f i \<and> f i \<le> 1" "sum_list (map f xs) = 1"
  shows "\<exists>j \<in> set xs. find (\<lambda>i. f i = 1) xs = Some j
           \<and> sum_list (map (\<lambda>i. f i * c i) xs) = c j"
  using assms
proof (induction xs)
  case Nil
  then show ?case by simp
next
  case (Cons a xs)
  from Cons.prems have a: "f a = 0 \<or> f a = 1" by force
  from Cons.prems have nn: "\<forall>i \<in> set xs. 0 \<le> f i" by simp
  show ?case
  proof (cases "f a = 1")
    case True
    with Cons.prems have z: "sum_list (map f xs) = 0" by simp
    from nonneg_sum_zero [OF nn z] have "\<forall>i \<in> set xs. f i = 0" .
    then have "sum_list (map (\<lambda>i. f i * c i) xs) = 0"
      by (simp add: sum_zero)
    with True show ?thesis by simp
  next
    case False
    with a have fa: "f a = 0" by simp
    with Cons.prems have "\<forall>i \<in> set xs. 0 \<le> f i \<and> f i \<le> 1" "sum_list (map f xs) = 1"
      by simp_all
    from Cons.IH [OF this] fa False show ?thesis by auto
  qed
qed

lemma sum_list_concat_map: "sum_list (concat xss) = sum_list (map sum_list xss)"
  for xss :: "int list list"
  by (induction xss) simp_all

lemma option_terms_costs:
  assumes "option_terms inp items = Some tls"
  shows "map fst tls = map (\<lambda>item. (item_var item, option_cost inp item)) items"
  using assms unfolding option_terms_def
proof (induction items arbitrary: tls)
  case Nil
  then show ?case by simp
next
  case (Cons item items)
  then show ?case
    by (auto simp: option_term_def option_cost_def split: option.splits)
qed

lemma soft_term_sum:
  "sum_list (map (\<lambda>t. x (fst t) * snd t) (terms_of (soft_lock_term inp item)))
     = x (item_var item) * soft_coefficient inp item"
  using soft_lock_term_cases [of inp item]
  by (auto simp: soft_coefficient_def terms_of_def)

lemma soft_terms_sum:
  assumes "soft_lock_terms inp items = Inr soft_terms"
  shows "sum_list (map (\<lambda>t. x (fst t) * snd t) soft_terms)
           = sum_list (map (\<lambda>item. x (item_var item) * soft_coefficient inp item) items)"
proof -
  from soft_lock_terms_Inr [OF assms]
  have "soft_terms = concat (map (\<lambda>item. terms_of (soft_lock_term inp item)) items)" by simp
  then show ?thesis
    by (simp add: map_concat sum_list_concat_map comp_def soft_term_sum)
qed

lemma sum_option_items:
  fixes g :: "string \<times> nat \<times> sched_option \<Rightarrow> int"
  shows "sum_list (map g (option_items obs))
     = sum_list (map (\<lambda>entry. sum_list (map (\<lambda>i. g (fst entry, i, snd entry ! i))
                                             [0..<length (snd entry)])) obs)"
  by (simp add: option_items_def map_concat sum_list_concat_map comp_def enumerate_as_map)

lemma entry_choice:
  assumes one: "sum_list (map (\<lambda>i. x (OptVar (fst entry) i)) [0..<length (snd entry)]) = 1"
      and dom: "\<forall>i < length (snd entry). 0 \<le> x (OptVar (fst entry) i) \<and> x (OptVar (fst entry) i) \<le> 1"
  shows "\<exists>j < length (snd entry). chosen_idx x (fst entry) (snd entry) = Some j
           \<and> sum_list (map (\<lambda>i. x (OptVar (fst entry) i) * c i) [0..<length (snd entry)]) = c j"
proof -
  from dom have "\<forall>i \<in> set [0..<length (snd entry)].
      0 \<le> x (OptVar (fst entry) i) \<and> x (OptVar (fst entry) i) \<le> 1" by simp
  from unique_choice [OF this one, of c] show ?thesis
    by (auto simp: chosen_idx_def)
qed

lemma adjunct_terms_sum:
  "sum_list (map (\<lambda>t. x (fst t) * snd t) (adjunct_terms inp))
     = sum_list (map (\<lambda>ii. x (ExcessVar (fst ii)) * ADJUNCT_DAY_EXCESS_WEIGHT)
                     (adjunct_instructors inp))"
  by (simp add: adjunct_terms_def comp_def)

lemma satisfied_entry:
  assumes "build_solve_model inp obs = Inr m" "satisfies m x" "entry \<in> set obs"
  shows "sum_list (map (\<lambda>i. x (OptVar (fst entry) i)) [0..<length (snd entry)]) = 1"
    and "\<forall>i < length (snd entry). 0 \<le> x (OptVar (fst entry) i) \<and> x (OptVar (fst entry) i) \<le> 1"
proof -
  from assms(1) obtain tls soft_terms
    where "option_terms inp (option_items obs) = Some tls"
      and "soft_lock_terms inp (option_items obs) = Inr soft_terms"
      and vars: "cp_vars m = option_var_decls (option_items obs)
                   @ room_usage_vars inp (option_items obs) @ adjunct_vars inp"
      and cons: "cp_constraints m = solve_hard_constraints inp obs @ adjunct_constraints inp
                   @ concat (map snd tls)"
      and "cp_objective m = adjunct_terms inp @ map fst tls @ soft_terms"
    by (rule build_solve_model_Inr)
  from assms(2) have c: "list_all (holds x) (one_per_section obs)"
    and d: "list_all (in_domain x) (option_var_decls (option_items obs))"
    by (simp_all add: satisfies_def vars cons solve_hard_constraints_def)
  from c assms(3)
  have "holds x (SumEq (map (\<lambda>io. OptVar (fst entry) (fst io)) (enumerate 0 (snd entry))) 1)"
    unfolding one_per_section_def list_all_iff by auto
  then show "sum_list (map (\<lambda>i. x (OptVar (fst entry) i)) [0..<length (snd entry)]) = 1"
    by (simp add: enumerate_as_map comp_def)
  show "\<forall>i < length (snd entry). 0 \<le> x (OptVar (fst entry) i) \<and> x (OptVar (fst entry) i) \<le> 1"
  proof (intro allI impI)
    fix i assume "i < length (snd entry)"
    with assms(3) have "(fst entry, i, snd entry ! i) \<in> set (option_items obs)"
      by (auto simp: option_items_mem intro: exI [of _ "snd entry"])
    with d have "in_domain x (item_var (fst entry, i, snd entry ! i), 0, 1)"
      unfolding option_var_decls_def list_all_iff by auto
    then show "0 \<le> x (OptVar (fst entry) i) \<and> x (OptVar (fst entry) i) \<le> 1"
      by (simp add: in_domain_def item_var_def)
  qed
qed

lemma objective_by_entries:
  assumes b: "build_solve_model inp obs = Inr m" and s: "satisfies m x"
  shows "objective_value m x
           = sum_list (map (\<lambda>ii. x (ExcessVar (fst ii)) * ADJUNCT_DAY_EXCESS_WEIGHT)
                           (adjunct_instructors inp))
             + sum_list (map (entry_cost inp x) obs)"
proof -
  from b obtain tls soft_terms
    where tls: "option_terms inp (option_items obs) = Some tls"
      and soft: "soft_lock_terms inp (option_items obs) = Inr soft_terms"
      and "cp_vars m = option_var_decls (option_items obs)
                   @ room_usage_vars inp (option_items obs) @ adjunct_vars inp"
      and "cp_constraints m = solve_hard_constraints inp obs @ adjunct_constraints inp
                   @ concat (map snd tls)"
      and obj: "cp_objective m = adjunct_terms inp @ map fst tls @ soft_terms"
    by (rule build_solve_model_Inr)
  let ?coef = "\<lambda>item. option_cost inp item + soft_coefficient inp item"
  have A: "sum_list (map (\<lambda>t. x (fst t) * snd t) (map fst tls))
        = sum_list (map (\<lambda>item. x (item_var item) * option_cost inp item) (option_items obs))"
    by (simp add: option_terms_costs [OF tls] comp_def)
  have "sum_list (map (\<lambda>t. x (fst t) * snd t) (map fst tls))
          + sum_list (map (\<lambda>t. x (fst t) * snd t) soft_terms)
        = sum_list (map (\<lambda>item. x (item_var item) * ?coef item) (option_items obs))"
    unfolding A soft_terms_sum [OF soft]
    by (simp add: sum_list_addf distrib_left)
  also have "\<dots> = sum_list (map (\<lambda>entry. sum_list (map
                        (\<lambda>i. x (OptVar (fst entry) i) * ?coef (fst entry, i, snd entry ! i))
                        [0..<length (snd entry)])) obs)"
    by (simp add: sum_option_items item_var_def)
  also have "\<dots> = sum_list (map (entry_cost inp x) obs)"
  proof (rule arg_cong [where f = sum_list], rule map_cong [OF refl])
    fix entry assume e: "entry \<in> set obs"
    from entry_choice [OF satisfied_entry [OF b s e],
           of "\<lambda>i. ?coef (fst entry, i, snd entry ! i)"]
    show "sum_list (map (\<lambda>i. x (OptVar (fst entry) i) * ?coef (fst entry, i, snd entry ! i))
                     [0..<length (snd entry)]) = entry_cost inp x entry"
      by (auto simp: entry_cost_def)
  qed
  finally show ?thesis
    by (simp add: objective_value_def obj adjunct_terms_sum)
qed

section \<open>The score at an assignment\<close>

lemma nonneg_float_iff: "nonneg_float v \<longleftrightarrow> (\<exists>r. v = Finite r \<and> 0 \<le> r)"
  by (cases v) simp_all

lemma whole_weight_iff:
  "whole_weight v \<longleftrightarrow> (\<exists>n. v = Finite (real_of_int n) \<and> 0 \<le> n)"
proof (cases v)
  case (Finite r)
  show ?thesis
  proof
    assume "whole_weight v"
    with Finite have r: "0 \<le> r" "r = real_of_int \<lfloor>r\<rfloor>" by simp_all
    from r(1) have "0 \<le> \<lfloor>r\<rfloor>" by simp
    with r(2) Finite show "\<exists>n. v = Finite (real_of_int n) \<and> 0 \<le> n" by blast
  next
    assume "\<exists>n. v = Finite (real_of_int n) \<and> 0 \<le> n"
    with Finite show "whole_weight v" by auto
  qed
qed simp_all

lemma py_add_exact:
  "0 \<le> a \<Longrightarrow> 0 \<le> b \<Longrightarrow> a + b \<le> 2 ^ 53 \<Longrightarrow> py_add (Finite a) (Finite b) = Finite (a + b)"
  by (simp add: py_result_small)

lemma add_float_exact:
  assumes "0 \<le> a" "0 \<le> n" "a + real_of_int n \<le> 2 ^ 53"
  shows "add_float (Finite a) n = Inr (Finite (a + real_of_int n))"
proof -
  from assms have "\<bar>real_of_int n\<bar> \<le> 2 ^ 53" by simp
  with FLOAT_MAX_large have "\<bar>real_of_int n\<bar> \<le> FLOAT_MAX" by linarith
  with assms show ?thesis
    by (simp add: add_float_def py_float_def py_add_exact del: py_add.simps)
qed

lemma fold_py_add:
  assumes "list_all nonneg_float vs" "0 \<le> a" "a + sum_list (map float_value vs) \<le> 2 ^ 53"
  shows "fold (\<lambda>v acc. py_add acc v) vs (Finite a) = Finite (a + sum_list (map float_value vs))"
  using assms
proof (induction vs arbitrary: a)
  case Nil
  then show ?case by simp
next
  case (Cons v vs)
  from Cons.prems(1) have nv: "nonneg_float v" and rest: "list_all nonneg_float vs"
    by simp_all
  from nv obtain r where v: "v = Finite r" "0 \<le> r"
    unfolding nonneg_float_iff by blast
  from rest have "0 \<le> sum_list (map float_value vs)"
    by (intro sum_list_nonneg) (auto simp: list_all_iff nonneg_float_iff)
  with Cons.prems v have le: "a + r \<le> 2 ^ 53" by simp
  from Cons.prems(2) v(2) le have step: "py_add (Finite a) (Finite r) = Finite (a + r)"
    by (rule py_add_exact)
  from Cons.prems v have "0 \<le> a + r" "(a + r) + sum_list (map float_value vs) \<le> 2 ^ 53"
    by simp_all
  from Cons.IH [OF rest this] show ?case
    by (simp add: v step add.assoc del: py_add.simps)
qed

lemma breakdown_sum_exact:
  assumes "sound_breakdown b" "breakdown_total b \<le> 2 ^ 53"
  shows "breakdown_sum b = Finite (breakdown_total b)"
  using fold_py_add [of "breakdown_values b" 0] assms
  by (simp add: sound_breakdown_def breakdown_total_def breakdown_sum_def breakdown_values_def)

lemma sound_breakdown_fields:
  assumes "sound_breakdown b"
  obtains r1 r2 r3 r4 r5 r6 where
    "room_waste b = Finite r1" "instructor_day_preference b = Finite r2"
    "instructor_pattern_preference b = Finite r3" "adjunct_day_excess b = Finite r4"
    "soft_lock_time b = Finite r5" "soft_lock_room b = Finite r6"
    "0 \<le> r1" "0 \<le> r2" "0 \<le> r3" "0 \<le> r4" "0 \<le> r5" "0 \<le> r6"
    "breakdown_total b = r1 + r2 + r3 + r4 + r5 + r6"
  using assms
  by (auto simp: sound_breakdown_def breakdown_values_def nonneg_float_iff breakdown_total_def)

lemma pref_penalties_nonneg:
  "0 \<le> pref_day_penalty instructor days" "0 \<le> pref_pattern_penalty instructor pattern_id"
  by (simp_all add: pref_day_penalty_def pref_pattern_penalty_def Let_def PREF_DAY_WEIGHT_def
        PREF_PATTERN_WEIGHT_def)

lemma add_option_penalties_exact:
  assumes g: "sound_breakdown b" and w: "0 \<le> opt_waste opt"
      and le: "breakdown_total b + real_of_int (total_penalty inp sid opt days) \<le> 2 ^ 53"
  shows "\<exists>b'. add_option_penalties inp sid opt days b = Inr b' \<and> sound_breakdown b'
           \<and> breakdown_total b'
               = breakdown_total b + real_of_int (total_penalty inp sid opt days)"
proof -
  let ?i = "option_instructor inp sid"
  let ?W = "opt_waste opt * ROOM_WASTE_WEIGHT"
  let ?D = "pref_day_penalty ?i days"
  let ?P = "pref_pattern_penalty ?i (opt_pattern opt)"
  from g obtain r1 r2 r3 r4 r5 r6 where f:
    "room_waste b = Finite r1" "instructor_day_preference b = Finite r2"
    "instructor_pattern_preference b = Finite r3" "adjunct_day_excess b = Finite r4"
    "soft_lock_time b = Finite r5" "soft_lock_room b = Finite r6"
    and nn: "0 \<le> r1" "0 \<le> r2" "0 \<le> r3" "0 \<le> r4" "0 \<le> r5" "0 \<le> r6"
    and t: "breakdown_total b = r1 + r2 + r3 + r4 + r5 + r6"
    by (rule sound_breakdown_fields)
  from w have W: "0 \<le> ?W" by (simp add: ROOM_WASTE_WEIGHT_def)
  have D: "0 \<le> ?D" and P: "0 \<le> ?P" by (rule pref_penalties_nonneg)+
  have tp: "total_penalty inp sid opt days = ?W + ?D + ?P"
    by (simp add: total_penalty_def)
  from le have le': "r1 + r2 + r3 + r4 + r5 + r6 + (real_of_int ?W + real_of_int ?D + real_of_int ?P)
                      \<le> 2 ^ 53"
    by (simp add: t tp)
  from W have rW: "0 \<le> real_of_int ?W" by (simp only: of_int_0_le_iff)
  from D have rD: "0 \<le> real_of_int ?D" by (simp only: of_int_0_le_iff)
  from P have rP: "0 \<le> real_of_int ?P" by (simp only: of_int_0_le_iff)
  have a1: "add_float (Finite r1) ?W = Inr (Finite (r1 + real_of_int ?W))"
    using nn rW rD rP le' by (intro add_float_exact [OF nn(1) W]) linarith
  have a2: "add_float (Finite r2) ?D = Inr (Finite (r2 + real_of_int ?D))"
    using nn rW rD rP le' by (intro add_float_exact [OF nn(2) D]) linarith
  have a3: "add_float (Finite r3) ?P = Inr (Finite (r3 + real_of_int ?P))"
    using nn rW rD rP le' by (intro add_float_exact [OF nn(3) P]) linarith
  let ?b' = "b\<lparr> room_waste := Finite (r1 + real_of_int ?W),
                 instructor_day_preference := Finite (r2 + real_of_int ?D),
                 instructor_pattern_preference := Finite (r3 + real_of_int ?P) \<rparr>"
  have "add_option_penalties inp sid opt days b = Inr ?b'"
    by (simp add: add_option_penalties_def Let_def f a1 a2 a3)
  moreover have "sound_breakdown ?b'"
    using nn rW rD rP by (simp add: sound_breakdown_def breakdown_values_def f)
  moreover have "breakdown_total ?b'
                   = breakdown_total b + real_of_int (total_penalty inp sid opt days)"
    by (simp add: breakdown_total_def breakdown_values_def f tp)
  ultimately show ?thesis by blast
qed

lemma add_soft_locks_exact:
  assumes g: "sound_breakdown b"
      and wt: "\<And>l. soft_lock_by_section inp sid = Some l \<Longrightarrow> nonneg_float (weight l)"
      and le: "breakdown_total b + soft_amount inp sid opt \<le> 2 ^ 53"
  shows "sound_breakdown (add_soft_locks inp sid opt b)
       \<and> breakdown_total (add_soft_locks inp sid opt b)
           = breakdown_total b + soft_amount inp sid opt"
proof (cases "soft_lock_by_section inp sid")
  case None
  with g show ?thesis by (simp add: add_soft_locks_def soft_amount_def)
next
  case (Some l)
  from wt [OF Some] obtain w where w: "weight l = Finite w" "0 \<le> w"
    by (auto simp: nonneg_float_iff)
  from g obtain r1 r2 r3 r4 r5 r6 where f:
    "room_waste b = Finite r1" "instructor_day_preference b = Finite r2"
    "instructor_pattern_preference b = Finite r3" "adjunct_day_excess b = Finite r4"
    "soft_lock_time b = Finite r5" "soft_lock_room b = Finite r6"
    and nn: "0 \<le> r1" "0 \<le> r2" "0 \<le> r3" "0 \<le> r4" "0 \<le> r5" "0 \<le> r6"
    and t: "breakdown_total b = r1 + r2 + r3 + r4 + r5 + r6"
    by (rule sound_breakdown_fields)
  have sa: "soft_amount inp sid opt
              = (if time_mismatch l opt then w else 0) + (if room_mismatch l opt then w else 0)"
    by (simp add: soft_amount_def Some spec_mismatches_code w)
  have base: "weighted_base l = Finite w" if "time_mismatch l opt \<or> room_mismatch l opt"
  proof -
    from that le w nn have "w \<le> 2 ^ 53" by (auto simp: sa t split: if_splits)
    with w have "\<bar>w\<bar> \<le> 2 ^ 53" by simp
    then show ?thesis by (simp add: weighted_base_Finite [OF w(1)] py_result_small)
  qed
  show ?thesis
  proof (cases "time_mismatch l opt")
    case tm: True
    from le w nn have b5: "r5 + w \<le> 2 ^ 53" by (auto simp: sa t tm split: if_splits)
    show ?thesis
    proof (cases "room_mismatch l opt")
      case rm: True
      from le w nn have b6: "r6 + w \<le> 2 ^ 53" by (simp add: sa t tm rm)
      from g nn w b5 b6 show ?thesis
        by (simp add: add_soft_locks_def Some tm rm base Let_def f py_add_exact sa
              sound_breakdown_def breakdown_values_def breakdown_total_def del: py_add.simps)
    next
      case rm: False
      from g nn w b5 show ?thesis
        by (simp add: add_soft_locks_def Some tm rm base Let_def f py_add_exact sa
              sound_breakdown_def breakdown_values_def breakdown_total_def del: py_add.simps)
    qed
  next
    case tm: False
    show ?thesis
    proof (cases "room_mismatch l opt")
      case rm: True
      from le w nn have b6: "r6 + w \<le> 2 ^ 53" by (simp add: sa t tm rm)
      from g nn w b6 show ?thesis
        by (simp add: add_soft_locks_def Some tm rm base Let_def f py_add_exact sa
              sound_breakdown_def breakdown_values_def breakdown_total_def del: py_add.simps)
    next
      case rm: False
      from g show ?thesis
        by (simp add: add_soft_locks_def Some tm rm Let_def sa)
    qed
  qed
qed

lemma soft_amount_nonneg:
  assumes "list_all (\<lambda>l. whole_weight (weight l)) (soft_locks inp)"
  shows "0 \<le> soft_amount inp sid opt"
proof (cases "soft_lock_by_section inp sid")
  case None
  then show ?thesis by (simp add: soft_amount_def)
next
  case (Some l)
  then have "l \<in> set (soft_locks inp)"
    by (auto simp: soft_lock_by_section_def dest: dict_of_Some)
  with assms have "whole_weight (weight l)" by (simp add: list_all_iff)
  then obtain n where "weight l = Finite (real_of_int n)" "0 \<le> n"
    unfolding whole_weight_iff by blast
  then show ?thesis
    by (simp add: soft_amount_def Some)
qed

lemma soft_coefficient_whole:
  assumes whole: "list_all (\<lambda>l. whole_weight (weight l)) (soft_locks inp)"
      and ok: "soft_lock_term inp item \<noteq> Inl OverflowError"
  shows "real_of_int (soft_coefficient inp item) = soft_amount inp (fst item) (item_option item)"
proof (cases "soft_lock_by_section inp (fst item)")
  case None
  then have "soft_lock_term inp item = Inr []"
    by (simp add: soft_lock_term_def)
  with None show ?thesis
    by (simp add: soft_coefficient_def terms_of_def soft_amount_def)
next
  case (Some l)
  let ?k = "spec_mismatches l (item_option item)"
  from Some have "l \<in> set (soft_locks inp)"
    by (auto simp: soft_lock_by_section_def dest: dict_of_Some)
  with whole have "whole_weight (weight l)" by (simp add: list_all_iff)
  then obtain n where w: "weight l = Finite (real_of_int n)" and n: "0 \<le> n"
    unfolding whole_weight_iff by blast
  from Some have sl: "spec_section_soft_lock inp (fst item) = Some l"
    by (simp add: soft_lock_by_section_spec)
  note eq = soft_lock_term_spec [OF sl]
  let ?c = "int ?k * n"
  have sa: "soft_amount inp (fst item) (item_option item) = real_of_int ?c"
    by (simp add: soft_amount_def Some w)
  from n have cn: "0 \<le> ?c" by simp
  show ?thesis
  proof (cases "?k = 0")
    case True
    then show ?thesis
      by (simp add: soft_coefficient_def eq spec_accumulated_def terms_of_def sa)
  next
    case False
    have acc: "spec_accumulated l (item_option item) = py_result (real_of_int ?c)"
      using False by (simp add: spec_accumulated_def w SOFT_LOCK_BASE_WEIGHT_def)
    from cn have rn: "0 \<le> real_of_int ?c" by (simp only: of_int_0_le_iff)
    have fin: "py_result (real_of_int ?c) = Finite (real_of_int ?c)"
    proof (rule ccontr)
      assume "py_result (real_of_int ?c) \<noteq> Finite (real_of_int ?c)"
      with rn FLOAT_MAX_pos have "py_result (real_of_int ?c) = PosInf"
        by (auto simp: py_result_def split: if_splits)
      with ok show False by (simp add: eq acc)
    qed
    have tr: "py_trunc (real_of_int ?c) = ?c"
      using rn unfolding py_trunc_def by (simp only: if_True floor_of_int)
    have "soft_coefficient inp item = ?c"
    proof (cases "0 < ?c")
      case True
      then have "0 < real_of_int ?c" by (simp only: of_int_0_less_iff)
      then show ?thesis
        by (simp add: soft_coefficient_def eq acc fin terms_of_def tr del: of_int_mult)
    next
      case False
      with cn have z: "?c = 0" by simp
      have rz: "real_of_int ?c = 0" by (simp only: z of_int_0)
      from acc have acc0: "spec_accumulated l (item_option item) = py_result 0"
        by (simp only: rz)
      have "soft_lock_term inp item = Inr []"
        by (simp add: eq acc0 py_result_small)
      then have "soft_coefficient inp item = 0"
        by (simp add: soft_coefficient_def terms_of_def)
      then show ?thesis by (simp only: z)
    qed
    then show ?thesis by (simp only: sa)
  qed
qed

lemma soft_coefficient_nonneg: "0 \<le> soft_coefficient inp item"
  unfolding soft_coefficient_def
  by (intro sum_list_nonneg) (auto dest: soft_lock_term_nonneg)

lemma option_cost_nonneg:
  "0 \<le> opt_waste (item_option item) \<Longrightarrow> 0 \<le> option_cost inp item"
  using pref_penalties_nonneg
  by (auto simp: option_cost_def total_penalty_def ROOM_WASTE_WEIGHT_def split: option.splits
           intro!: add_nonneg_nonneg)

lemma entry_cost_nonneg: "step_ok inp x entry \<Longrightarrow> 0 \<le> entry_cost inp x entry"
  using soft_coefficient_nonneg option_cost_nonneg
  by (auto simp: entry_cost_def step_ok_def item_option_def split: option.splits
           intro!: add_nonneg_nonneg)

lemma assemble_step_exact:
  assumes g: "sound_breakdown b"
      and whole: "list_all (\<lambda>l. whole_weight (weight l)) (soft_locks inp)"
      and ok: "step_ok inp x entry"
      and le: "breakdown_total b + real_of_int (entry_cost inp x entry) \<le> 2 ^ 53"
  shows "\<exists>b' a' e'. assemble_step inp x entry (Inr (b, a, e)) = Inr (b', a', e')
           \<and> sound_breakdown b'
           \<and> breakdown_total b' = breakdown_total b + real_of_int (entry_cost inp x entry)"
proof (cases "chosen_idx x (fst entry) (snd entry)")
  case None
  with g show ?thesis by (simp add: assemble_step_def entry_cost_def)
next
  case (Some j)
  let ?opt = "snd entry ! j"
  let ?item = "(fst entry, j, ?opt)"
  from ok Some obtain days where d: "option_days inp ?opt = Some days"
    and w: "0 \<le> opt_waste ?opt"
    and t: "soft_lock_term inp ?item \<noteq> Inl OverflowError"
    by (auto simp: step_ok_def)
  let ?tp = "total_penalty inp (fst entry) ?opt days"
  let ?sa = "soft_amount inp (fst entry) ?opt"
  from soft_coefficient_whole [OF whole t]
  have sc: "real_of_int (soft_coefficient inp ?item) = ?sa" by (simp add: item_option_def)
  have ec: "real_of_int (entry_cost inp x entry) = real_of_int ?tp + ?sa"
    by (simp add: entry_cost_def Some option_cost_def item_option_def d sc)
  from soft_amount_nonneg [OF whole] have sn: "0 \<le> ?sa" .
  from le ec sn have le1: "breakdown_total b + real_of_int ?tp \<le> 2 ^ 53" by simp
  from add_option_penalties_exact [OF g w le1] obtain b1
    where b1: "add_option_penalties inp (fst entry) ?opt days b = Inr b1"
      and g1: "sound_breakdown b1"
      and t1: "breakdown_total b1 = breakdown_total b + real_of_int ?tp"
    by blast
  have wt: "nonneg_float (weight l)" if "soft_lock_by_section inp (fst entry) = Some l" for l
  proof -
    from that have "l \<in> set (soft_locks inp)"
      by (auto simp: soft_lock_by_section_def dest: dict_of_Some)
    with whole have "whole_weight (weight l)" by (simp add: list_all_iff)
    then show ?thesis by (auto simp: whole_weight_iff)
  qed
  from le ec t1 have le2: "breakdown_total b1 + ?sa \<le> 2 ^ 53" by simp
  from add_soft_locks_exact [OF g1 wt le2]
  have g2: "sound_breakdown (add_soft_locks inp (fst entry) ?opt b1)"
    and t2: "breakdown_total (add_soft_locks inp (fst entry) ?opt b1) = breakdown_total b1 + ?sa"
    by simp_all
  have "\<exists>a' e'. assemble_step inp x entry (Inr (b, a, e))
           = Inr (add_soft_locks inp (fst entry) ?opt b1, a', e')"
    by (simp add: assemble_step_def Some d b1 Let_def)
  with g2 t2 t1 ec show ?thesis by auto
qed

lemma fold_assemble_exact:
  assumes "sound_breakdown b"
      and "list_all (\<lambda>l. whole_weight (weight l)) (soft_locks inp)"
      and "\<forall>entry \<in> set es. step_ok inp x entry"
      and "breakdown_total b + real_of_int (sum_list (map (entry_cost inp x) es)) \<le> 2 ^ 53"
  shows "\<exists>b' a' e'. fold (assemble_step inp x) es (Inr (b, a, e)) = Inr (b', a', e')
           \<and> sound_breakdown b'
           \<and> breakdown_total b'
               = breakdown_total b + real_of_int (sum_list (map (entry_cost inp x) es))"
  using assms
proof (induction es arbitrary: b a e)
  case Nil
  then show ?case by simp
next
  case (Cons entry es)
  from Cons.prems(3) have ok: "step_ok inp x entry" and oks: "\<forall>en \<in> set es. step_ok inp x en"
    by simp_all
  from oks have "0 \<le> sum_list (map (entry_cost inp x) es)"
    by (intro sum_list_nonneg) (auto dest: entry_cost_nonneg)
  then have rest: "0 \<le> real_of_int (sum_list (map (entry_cost inp x) es))"
    by (simp only: of_int_0_le_iff)
  from Cons.prems(4) rest
  have le1: "breakdown_total b + real_of_int (entry_cost inp x entry) \<le> 2 ^ 53" by simp
  from assemble_step_exact [OF Cons.prems(1,2) ok le1, of a e] obtain b1 a1 e1
    where s: "assemble_step inp x entry (Inr (b, a, e)) = Inr (b1, a1, e1)"
      and g1: "sound_breakdown b1"
      and t1: "breakdown_total b1 = breakdown_total b + real_of_int (entry_cost inp x entry)"
    by blast
  from Cons.prems(4) t1
  have le2: "breakdown_total b1 + real_of_int (sum_list (map (entry_cost inp x) es)) \<le> 2 ^ 53"
    by simp
  from Cons.IH [OF g1 Cons.prems(2) oks le2, of a1 e1] obtain b2 a2 e2
    where f: "fold (assemble_step inp x) es (Inr (b1, a1, e1)) = Inr (b2, a2, e2)"
      and g2: "sound_breakdown b2"
      and t2: "breakdown_total b2
                 = breakdown_total b1 + real_of_int (sum_list (map (entry_cost inp x) es))"
    by blast
  have "fold (assemble_step inp x) (entry # es) (Inr (b, a, e)) = Inr (b2, a2, e2)"
    by (simp add: s f)
  moreover have "breakdown_total b2
      = breakdown_total b + real_of_int (sum_list (map (entry_cost inp x) (entry # es)))"
    using t1 t2 by simp
  ultimately show ?case using g2 by blast
qed

lemma add_excess_exact:
  assumes g: "sound_breakdown b" and nn: "0 \<le> x (snd en)"
      and le: "breakdown_total b + real_of_int (x (snd en) * ADJUNCT_DAY_EXCESS_WEIGHT) \<le> 2 ^ 53"
  shows "\<exists>b'. add_excess x en (Inr b) = Inr b' \<and> sound_breakdown b'
           \<and> breakdown_total b'
               = breakdown_total b + real_of_int (x (snd en) * ADJUNCT_DAY_EXCESS_WEIGHT)"
proof (cases "x (snd en) = 0")
  case True
  with g show ?thesis by (simp add: add_excess_def)
next
  case False
  let ?n = "x (snd en) * ADJUNCT_DAY_EXCESS_WEIGHT"
  from g obtain r1 r2 r3 r4 r5 r6 where f:
    "room_waste b = Finite r1" "instructor_day_preference b = Finite r2"
    "instructor_pattern_preference b = Finite r3" "adjunct_day_excess b = Finite r4"
    "soft_lock_time b = Finite r5" "soft_lock_room b = Finite r6"
    and r: "0 \<le> r1" "0 \<le> r2" "0 \<le> r3" "0 \<le> r4" "0 \<le> r5" "0 \<le> r6"
    and t: "breakdown_total b = r1 + r2 + r3 + r4 + r5 + r6"
    by (rule sound_breakdown_fields)
  from nn have n: "0 \<le> ?n" by (simp add: ADJUNCT_DAY_EXCESS_WEIGHT_def)
  then have rn: "0 \<le> real_of_int ?n" by (simp only: of_int_0_le_iff)
  have a4: "add_float (Finite r4) ?n = Inr (Finite (r4 + real_of_int ?n))"
    using r rn le t by (intro add_float_exact [OF r(4) n]) linarith
  let ?b' = "b\<lparr> adjunct_day_excess := Finite (r4 + real_of_int ?n) \<rparr>"
  have "add_excess x en (Inr b) = Inr ?b'"
    using False by (simp add: add_excess_def Let_def f a4)
  moreover have "sound_breakdown ?b'"
    using r rn by (simp add: sound_breakdown_def breakdown_values_def f)
  moreover have "breakdown_total ?b' = breakdown_total b + real_of_int ?n"
    by (simp add: breakdown_total_def breakdown_values_def f)
  ultimately show ?thesis by blast
qed

lemma fold_add_excess_exact:
  assumes "sound_breakdown b" "\<forall>en \<in> set vs. 0 \<le> x (snd en)"
      and "breakdown_total b
             + real_of_int (sum_list (map (\<lambda>en. x (snd en) * ADJUNCT_DAY_EXCESS_WEIGHT) vs))
           \<le> 2 ^ 53"
  shows "\<exists>b'. fold (add_excess x) vs (Inr b) = Inr b' \<and> sound_breakdown b'
           \<and> breakdown_total b'
               = breakdown_total b
                 + real_of_int (sum_list (map (\<lambda>en. x (snd en) * ADJUNCT_DAY_EXCESS_WEIGHT) vs))"
  using assms
proof (induction vs arbitrary: b)
  case Nil
  then show ?case by simp
next
  case (Cons en vs)
  let ?c = "\<lambda>en. x (snd en) * ADJUNCT_DAY_EXCESS_WEIGHT"
  from Cons.prems(2) have nn: "0 \<le> x (snd en)" and nns: "\<forall>e \<in> set vs. 0 \<le> x (snd e)"
    by simp_all
  from nns have "0 \<le> sum_list (map ?c vs)"
    by (intro sum_list_nonneg) (auto simp: ADJUNCT_DAY_EXCESS_WEIGHT_def)
  then have rest: "0 \<le> real_of_int (sum_list (map ?c vs))" by (simp only: of_int_0_le_iff)
  from Cons.prems(3) rest have le1: "breakdown_total b + real_of_int (?c en) \<le> 2 ^ 53" by simp
  from add_excess_exact [where x = x and en = en, OF Cons.prems(1) nn le1] obtain b1
    where s: "add_excess x en (Inr b) = Inr b1" and g1: "sound_breakdown b1"
      and t1: "breakdown_total b1 = breakdown_total b + real_of_int (?c en)"
    by blast
  from Cons.prems(3) t1
  have le2: "breakdown_total b1 + real_of_int (sum_list (map ?c vs)) \<le> 2 ^ 53" by simp
  from Cons.IH [OF g1 nns le2] obtain b2
    where f: "fold (add_excess x) vs (Inr b1) = Inr b2" and g2: "sound_breakdown b2"
      and t2: "breakdown_total b2 = breakdown_total b1 + real_of_int (sum_list (map ?c vs))"
    by blast
  have "fold (add_excess x) (en # vs) (Inr b) = Inr b2" by (simp add: s f)
  moreover have "breakdown_total b2 = breakdown_total b + real_of_int (sum_list (map ?c (en # vs)))"
    using t1 t2 by simp
  ultimately show ?case using g2 by blast
qed

lemma dict_set_fresh: "k \<notin> fst ` set d \<Longrightarrow> dict_set k v d = d @ [(k, v)]"
  by (induction k v d rule: dict_set.induct) auto

lemma fold_dict_set_fresh:
  assumes "distinct (map k xs)" "k ` set xs \<inter> fst ` set d0 = {}"
  shows "fold (\<lambda>s d. dict_set (k s) (f s) d) xs d0 = d0 @ map (\<lambda>s. (k s, f s)) xs"
  using assms
proof (induction xs arbitrary: d0)
  case Nil
  then show ?case by simp
next
  case (Cons a xs)
  from Cons.prems have fresh: "k a \<notin> fst ` set d0" by auto
  have "k ` set xs \<inter> fst ` set (d0 @ [(k a, f a)]) = {}"
    using Cons.prems by auto
  with Cons show ?case by (simp add: dict_set_fresh [OF fresh])
qed

lemma excess_vars_distinct:
  assumes "distinct (map inst_id (instructors inp))"
  shows "adjunct_day_excess_vars inp
           = map (\<lambda>ii. (inst_id (snd ii), ExcessVar (fst ii))) (adjunct_instructors inp)"
  using fold_dict_set_fresh [OF adjunct_ids_distinct [OF assms], of "[]"]
  by (simp add: adjunct_day_excess_vars_def)

lemma chosen_idx_bound: "chosen_idx x sid opts = Some j \<Longrightarrow> j < length opts"
  by (auto simp: chosen_idx_def dest: find_mem)

lemma option_waste_nonneg:
  assumes "(sid, opts) \<in> set (fst (build_options inp default_flags))" "opt \<in> set opts"
  shows "0 \<le> opt_waste opt"
proof -
  from build_options_entry [OF assms(1)] obtain s
    where "opts = section_options inp default_flags s" by blast
  with assms(2) have "opt \<in> set (section_options inp default_flags s)" by simp
  from section_options_member [OF this] obtain room
    where "room \<in> set (available_rooms inp default_flags s)"
      and "opt_waste opt = capacity room - expected_enrollment s"
    by blast
  then show ?thesis by (simp add: available_rooms_default)
qed

lemma built_steps_ok:
  assumes b: "build_solve_model inp (fst (build_options inp default_flags)) = Inr m"
      and e: "entry \<in> set (fst (build_options inp default_flags))"
  shows "step_ok inp x entry"
  unfolding step_ok_def
proof (intro allI impI)
  let ?obs = "fst (build_options inp default_flags)"
  fix j assume "chosen_idx x (fst entry) (snd entry) = Some j"
  then have j: "j < length (snd entry)" by (rule chosen_idx_bound)
  let ?item = "(fst entry, j, snd entry ! j)"
  from e j have item: "?item \<in> set (option_items ?obs)"
    by (auto simp: option_items_mem intro: exI [of _ "snd entry"])
  from b obtain tls soft_terms
    where tls: "option_terms inp (option_items ?obs) = Some tls"
      and soft: "soft_lock_terms inp (option_items ?obs) = Inr soft_terms"
      and "cp_vars m = option_var_decls (option_items ?obs)
                   @ room_usage_vars inp (option_items ?obs) @ adjunct_vars inp"
      and "cp_constraints m = solve_hard_constraints inp ?obs @ adjunct_constraints inp
                   @ concat (map snd tls)"
      and "cp_objective m = adjunct_terms inp @ map fst tls @ soft_terms"
    by (rule build_solve_model_Inr)
  from option_terms_Some [OF tls item] have d: "option_days inp (snd entry ! j) \<noteq> None"
    by (auto simp: item_option_def)
  from e j have w: "0 \<le> opt_waste (snd entry ! j)"
    by (intro option_waste_nonneg [of "fst entry" "snd entry"]) simp_all
  from soft_lock_terms_Inr [OF soft] item
  have t: "soft_lock_term inp ?item \<noteq> Inl OverflowError" by blast
  from d w t show "option_days inp (snd entry ! j) \<noteq> None \<and> 0 \<le> opt_waste (snd entry ! j)
          \<and> soft_lock_term inp ?item \<noteq> Inl OverflowError"
    by simp
qed

lemma satisfied_excess_nonneg:
  assumes b: "build_solve_model inp obs = Inr m" and s: "satisfies m x"
      and ii: "ii \<in> set (adjunct_instructors inp)"
  shows "0 \<le> x (ExcessVar (fst ii))"
proof -
  from b obtain tls soft_terms
    where "option_terms inp (option_items obs) = Some tls"
      and "soft_lock_terms inp (option_items obs) = Inr soft_terms"
      and vars: "cp_vars m = option_var_decls (option_items obs)
                   @ room_usage_vars inp (option_items obs) @ adjunct_vars inp"
      and "cp_constraints m = solve_hard_constraints inp obs @ adjunct_constraints inp
                   @ concat (map snd tls)"
      and "cp_objective m = adjunct_terms inp @ map fst tls @ soft_terms"
    by (rule build_solve_model_Inr)
  from ii have "(ExcessVar (fst ii), 0, int (length (unique_days inp))) \<in> set (adjunct_vars inp)"
    by (force simp: adjunct_vars_def)
  with s have "in_domain x (ExcessVar (fst ii), 0, int (length (unique_days inp)))"
    by (simp add: satisfies_def vars list_all_iff)
  then show ?thesis by (simp add: in_domain_def)
qed

lemma zero_breakdown_sound: "sound_breakdown zero_breakdown" "breakdown_total zero_breakdown = 0"
  by (simp_all add: sound_breakdown_def breakdown_total_def breakdown_values_def
        zero_breakdown_def)

lemma assemble_total:
  assumes "assemble inp obs x = Inr s"
  shows "total_score s = breakdown_sum (penalty_breakdown s)"
  using assms by (auto simp: assemble_def split: sum.splits prod.splits)

lemma solve_schedule_ok:
  assumes "solve_schedule solve inp = Inr (OkResponse sol)"
  shows "\<exists>m x. build_solve_model inp (fst (build_options inp default_flags)) = Inr m
           \<and> solve m = Some x
           \<and> assemble inp (fst (build_options inp default_flags)) x = Inr sol"
  using assms
  by (auto simp: solve_schedule_def Let_def split: if_splits sum.splits option.splits)

lemma assemble_exact:
  assumes b: "build_solve_model inp (fst (build_options inp default_flags)) = Inr m"
      and s: "satisfies m x"
      and whole: "list_all (\<lambda>l. whole_weight (weight l)) (soft_locks inp)"
      and dist: "distinct (map inst_id (instructors inp))"
      and le: "objective_value m x \<le> 2 ^ 53"
  shows "\<exists>sol. assemble inp (fst (build_options inp default_flags)) x = Inr sol
           \<and> total_score sol = Finite (real_of_int (objective_value m x))
           \<and> sound_breakdown (penalty_breakdown sol)
           \<and> breakdown_total (penalty_breakdown sol) = real_of_int (objective_value m x)"
proof -
  let ?obs = "fst (build_options inp default_flags)"
  let ?A = "sum_list (map (\<lambda>ii. x (ExcessVar (fst ii)) * ADJUNCT_DAY_EXCESS_WEIGHT)
                          (adjunct_instructors inp))"
  let ?E = "sum_list (map (entry_cost inp x) ?obs)"
  have obj: "objective_value m x = ?A + ?E"
    using b s by (rule objective_by_entries)
  have oks: "\<forall>entry \<in> set ?obs. step_ok inp x entry"
    using built_steps_ok [OF b] by blast
  have An: "0 \<le> ?A"
    by (intro sum_list_nonneg)
       (auto simp: ADJUNCT_DAY_EXCESS_WEIGHT_def dest: satisfied_excess_nonneg [OF b s])
  have En: "0 \<le> ?E"
    using oks by (intro sum_list_nonneg) (auto dest: entry_cost_nonneg)
  from le have rle: "real_of_int (objective_value m x) \<le> 2 ^ 53"
    by (metis of_int_le_iff of_int_numeral of_int_power)
  from An have rA: "0 \<le> real_of_int ?A" by (simp only: of_int_0_le_iff)
  from En have rE: "0 \<le> real_of_int ?E" by (simp only: of_int_0_le_iff)
  have split: "real_of_int (objective_value m x) = real_of_int ?A + real_of_int ?E"
    by (simp only: obj of_int_add)
  from rle rA split have le1: "breakdown_total zero_breakdown + real_of_int ?E \<le> 2 ^ 53"
    by (simp add: zero_breakdown_sound)
  from fold_assemble_exact [OF zero_breakdown_sound(1) whole oks le1, of "[]" "[]"]
  obtain b1 a1 e1
    where f1: "fold (assemble_step inp x) ?obs (Inr (zero_breakdown, [], [])) = Inr (b1, a1, e1)"
      and g1: "sound_breakdown b1"
      and t1: "breakdown_total b1 = real_of_int ?E"
    by (auto simp: zero_breakdown_sound)
  let ?vs = "adjunct_day_excess_vars inp"
  have vs: "?vs = map (\<lambda>ii. (inst_id (snd ii), ExcessVar (fst ii))) (adjunct_instructors inp)"
    using dist by (rule excess_vars_distinct)
  have vnn: "\<forall>en \<in> set ?vs. 0 \<le> x (snd en)"
    unfolding vs using satisfied_excess_nonneg [OF b s] by auto
  have vsum: "sum_list (map (\<lambda>en. x (snd en) * ADJUNCT_DAY_EXCESS_WEIGHT) ?vs) = ?A"
    unfolding vs by (simp add: comp_def)
  from rle split t1
  have le2: "breakdown_total b1
               + real_of_int (sum_list (map (\<lambda>en. x (snd en) * ADJUNCT_DAY_EXCESS_WEIGHT) ?vs))
             \<le> 2 ^ 53"
    by (simp only: vsum)
  from fold_add_excess_exact [OF g1 vnn le2] obtain b2
    where f2: "fold (add_excess x) ?vs (Inr b1) = Inr b2"
      and g2: "sound_breakdown b2"
      and t2: "breakdown_total b2 = real_of_int (objective_value m x)"
    unfolding vsum using t1 split by auto
  let ?sol = "\<lparr> assignments = a1, total_score = breakdown_sum b2,
                 penalty_breakdown = b2, explanations = e1 \<rparr>"
  have "assemble inp ?obs x = Inr ?sol"
    by (simp add: assemble_def f1 f2)
  moreover from g2 rle have "breakdown_sum b2 = Finite (real_of_int (objective_value m x))"
    unfolding t2 [symmetric] by (rule breakdown_sum_exact)
  ultimately show ?thesis using g2 t2 by auto
qed

lemmas assemble_defs = assemble_def assemble_step_def chosen_idx_def add_option_penalties_def
  add_float_def py_float_def add_soft_locks_def add_excess_def zero_breakdown_def
  breakdown_sum_def py_result_small

lemma FLOAT_MAX_ge: "112 \<le> FLOAT_MAX"
  using FLOAT_MAX_large by simp

lemma ex_validate:
  "validate_crosslist_capacity (crosslist_groups ex_input) (sections ex_input) (rooms ex_input)
     = []"
  by (simp add: ex_input_def validate_crosslist_capacity_def max_room_capacity_def option_defs)

lemma ex_assemble:
  "assemble ex_input (fst (build_options ex_input default_flags)) ex_assignment = Inr ex_solution"
  unfolding ex_options fst_conv
  by (simp add: assemble_defs ex_adjunct ex_assignment_def ex_solution_def ex_input_def
        objective_defs item_defs soft_defs model_defs mk_section_def ex_instructor_def
        ex_slot_def FLOAT_MAX_def)

lemma ex_solve:
  "solve_schedule (\<lambda>m. Some ex_assignment) ex_input = Inr (OkResponse ex_solution)"
  by (simp add: solve_schedule_def ex_validate ex_options ex_build [unfolded ex_options fst_conv]
        ex_assemble [unfolded ex_options fst_conv])

lemma cx_half_options:
  "build_options cx_half_input default_flags = ([(''S1'', [(''P1'', [''T1''], ''R1'', 10)])], [])"
  by (simp add: cx_half_input_def option_defs)

lemma cx_half_build:
  "build_solve_model cx_half_input (fst (build_options cx_half_input default_flags))
     = Inr cx_half_model"
  unfolding cx_half_options fst_conv
  by (simp add: build_solve_model_def solve_hard_constraints_def cx_half_input_def
        cx_half_model_def objective_defs model_defs item_defs crosslist_defs soft_defs
        ex_slot_def mk_section_def ex_room_def)

lemma cx_half_assemble:
  "map_sum id total_score
     (assemble cx_half_input (fst (build_options cx_half_input default_flags))
        cx_half_assignment)
     = Inr (Finite (51 / 2))"
  unfolding cx_half_options fst_conv
  by (simp add: assemble_defs cx_half_assignment_def cx_half_input_def
        objective_defs item_defs soft_defs model_defs mk_section_def
        ex_slot_def FLOAT_MAX_def)


text \<open>
  C1 (as amended). For every successful solve, the response is what the result assembler
  makes of the solver's assignment, and the reported \<open>total_score\<close> is the sum of the six
  \<open>penalty_breakdown\<close> values. For every assignment that satisfies the constraints of the
  optimization model, the assembler returns, and the score and the sum of the breakdown
  it recomputes from the chosen options are the value of the minimized objective at that
  assignment, provided that every soft-lock weight is a finite whole number that is not
  negative, that the instructor ids are pairwise distinct, and that the objective value
  does not exceed \<open>2 ^ 53\<close>, the bound up to which the sums of floats are exact.
\<close>

theorem score_consistency:
  "(solve_schedule solve inp = Inr (OkResponse sol)
      \<longrightarrow> (\<exists>m x. build_solve_model inp (fst (build_options inp default_flags)) = Inr m
                 \<and> solve m = Some x
                 \<and> assemble inp (fst (build_options inp default_flags)) x = Inr sol)
          \<and> total_score sol = breakdown_sum (penalty_breakdown sol))
   \<and> (build_solve_model inp (fst (build_options inp default_flags)) = Inr m
      \<and> satisfies m x
      \<and> list_all (\<lambda>l. whole_weight (weight l)) (soft_locks inp)
      \<and> distinct (map inst_id (instructors inp))
      \<and> objective_value m x \<le> 2 ^ 53
      \<longrightarrow> (\<exists>s. assemble inp (fst (build_options inp default_flags)) x = Inr s
               \<and> total_score s = Finite (real_of_int (objective_value m x))
               \<and> breakdown_sum (penalty_breakdown s)
                   = Finite (real_of_int (objective_value m x))))"
proof (intro conjI impI)
  assume ok: "solve_schedule solve inp = Inr (OkResponse sol)"
  then show run: "\<exists>m x. build_solve_model inp (fst (build_options inp default_flags)) = Inr m
                 \<and> solve m = Some x
                 \<and> assemble inp (fst (build_options inp default_flags)) x = Inr sol"
    by (rule solve_schedule_ok)
  then obtain x where "assemble inp (fst (build_options inp default_flags)) x = Inr sol"
    by blast
  then show "total_score sol = breakdown_sum (penalty_breakdown sol)"
    by (rule assemble_total)
next
  assume h: "build_solve_model inp (fst (build_options inp default_flags)) = Inr m
      \<and> satisfies m x
      \<and> list_all (\<lambda>l. whole_weight (weight l)) (soft_locks inp)
      \<and> distinct (map inst_id (instructors inp))
      \<and> objective_value m x \<le> 2 ^ 53"
  then have b: "build_solve_model inp (fst (build_options inp default_flags)) = Inr m"
    and s: "satisfies m x"
    and w: "list_all (\<lambda>l. whole_weight (weight l)) (soft_locks inp)"
    and d: "distinct (map inst_id (instructors inp))"
    and le: "objective_value m x \<le> 2 ^ 53"
    by simp_all
  from assemble_exact [OF b s w d le] obtain s'
    where a: "assemble inp (fst (build_options inp default_flags)) x = Inr s'"
      and t: "total_score s' = Finite (real_of_int (objective_value m x))"
    by blast
  from assemble_total [OF a] t
  have "breakdown_sum (penalty_breakdown s') = Finite (real_of_int (objective_value m x))"
    by simp
  with a t show "\<exists>s. assemble inp (fst (build_options inp default_flags)) x = Inr s
               \<and> total_score s = Finite (real_of_int (objective_value m x))
               \<and> breakdown_sum (penalty_breakdown s)
                   = Finite (real_of_int (objective_value m x))"
    by blast
qed

text \<open>
  On \<open>ex_input\<close>, with a solver that returns \<open>ex_assignment\<close>: the objective value is 112,
  and so are the score and the sum of the breakdown, 80 + 20 + 10 + 0 + 0 + 2.
\<close>

theorem score_consistency_witness:
  "solve_schedule (\<lambda>m. Some ex_assignment) ex_input = Inr (OkResponse ex_solution)
   \<and> total_score ex_solution = breakdown_sum (penalty_breakdown ex_solution)
   \<and> build_solve_model ex_input (fst (build_options ex_input default_flags)) = Inr ex_model
   \<and> satisfies ex_model ex_assignment
   \<and> list_all (\<lambda>l. whole_weight (weight l)) (soft_locks ex_input)
   \<and> distinct (map inst_id (instructors ex_input))
   \<and> objective_value ex_model ex_assignment = 112
   \<and> assemble ex_input (fst (build_options ex_input default_flags)) ex_assignment
       = Inr ex_solution
   \<and> total_score ex_solution = Finite 112
   \<and> breakdown_sum (penalty_breakdown ex_solution) = Finite 112"
proof -
  note T = score_consistency [of "\<lambda>m. Some ex_assignment" ex_input ex_solution ex_model
             ex_assignment]
  have w: "list_all (\<lambda>l. whole_weight (weight l)) (soft_locks ex_input)"
    by (simp add: ex_input_def)
  have d: "distinct (map inst_id (instructors ex_input))"
    by (simp add: ex_input_def ex_instructor_def)
  have le: "objective_value ex_model ex_assignment \<le> 2 ^ 53"
    by (simp add: ex_objective)
  from T ex_solve have t1: "total_score ex_solution = breakdown_sum (penalty_breakdown ex_solution)"
    by blast
  from T ex_build ex_satisfies w d le
  have "\<exists>s. assemble ex_input (fst (build_options ex_input default_flags)) ex_assignment = Inr s
          \<and> total_score s = Finite (real_of_int (objective_value ex_model ex_assignment))
          \<and> breakdown_sum (penalty_breakdown s)
              = Finite (real_of_int (objective_value ex_model ex_assignment))"
    by blast
  then have t2: "total_score ex_solution = Finite 112"
    and t3: "breakdown_sum (penalty_breakdown ex_solution) = Finite 112"
    by (simp_all add: ex_assemble ex_objective)
  from ex_solve t1 ex_build ex_satisfies w d ex_objective ex_assemble t2 t3
  show ?thesis by blast
qed

text \<open>
  The claim as stated fails for a soft lock of weight 0.5 whose room preference is
  missed: the objective has the coefficient \<open>int(0.5) = 0\<close> for it and is 25 at the only
  assignment, while the assembler adds 0.5 to the breakdown and reports 25.5.
\<close>

theorem fractional_weight_counterexample:
  "build_solve_model cx_half_input (fst (build_options cx_half_input default_flags))
     = Inr cx_half_model
   \<and> satisfies cx_half_model cx_half_assignment
   \<and> map weight (soft_locks cx_half_input) = [Finite (1 / 2)]
   \<and> objective_value cx_half_model cx_half_assignment = 25
   \<and> map_sum id total_score
        (assemble cx_half_input (fst (build_options cx_half_input default_flags))
           cx_half_assignment)
       = Inr (Finite (51 / 2))"
proof -
  have "satisfies cx_half_model cx_half_assignment"
    by (simp add: satisfies_def cx_half_model_def in_domain_def cx_half_assignment_def)
  moreover have "map weight (soft_locks cx_half_input) = [Finite (1 / 2)]"
    by (simp add: cx_half_input_def ex_soft_lock_def)
  moreover have "objective_value cx_half_model cx_half_assignment = 25"
    by (simp add: objective_value_def cx_half_model_def cx_half_assignment_def)
  ultimately show ?thesis using cx_half_build cx_half_assemble by simp
qed

end
